theory Spec2Isabelle
  imports Complex_Main "HOL-Library.Log_Nat"
begin

section \<open>JavaScript values\<close>

text \<open>
  The numbers of the engine are modelled as reals: each formula of the source is evaluated
  exactly, where the source evaluates it in IEEE doubles and rounds every operation. The
  two results agree up to the last bits of a double. They can therefore differ where a
  result is cut at a boundary: in \<open>Math.floor\<close>, in a comparison, and in \<open>toFixed\<close> when
  the exact result is a decimal tie (0.985 is written 0.99 below, while the double nearest
  to 0.985 lies under the tie and is written 0.98). \<open>toFixed\<close> and the floor function are
  exact functions of the number they are given; it is that number which is not rounded
  here. Where a statement is about the exact value of a computed double, the function is
  given a second time with every operation rounded: \<open>EMA_double\<close>, in the section on
  binary64 arithmetic.

  An indicator series is an array whose entries are numbers or \<open>null\<close>: a list of
  \<open>real option\<close>, with \<open>None\<close> for \<open>null\<close>. Periods are natural numbers. The
  indicator functions divide by the period; in the reals this is the source for a period of
  at least 1, which is every period the engine passes (an option that is 0 takes its
  default). Where a divisor can be zero the quotient is a \<open>jsnum\<close>, defined below:
  \<open>RSI_js\<close> gives \<open>RSI\<close> for period 0 as well, and \<open>StochRSI\<close> is given over it.
\<close>

type_synonym series = "real option list"

definition slice :: "'a list \<Rightarrow> nat \<Rightarrow> nat \<Rightarrow> 'a list" where
  \<comment> \<open>\<open>xs.slice(a, b)\<close> for indices that are not negative\<close>
  "slice xs a b = take (b - a) (drop a xs)"

definition lastN :: "nat \<Rightarrow> 'a list \<Rightarrow> 'a list" where
  \<comment> \<open>\<open>xs.slice(-n)\<close>\<close>
  "lastN n xs = drop (length xs - n) xs"

definition truthy :: "real option \<Rightarrow> bool" where
  \<comment> \<open>a number or \<open>null\<close> used as a condition: \<open>null\<close> and 0 are falsy\<close>
  "truthy v = (case v of None \<Rightarrow> False | Some x \<Rightarrow> x \<noteq> 0)"

definition numOf :: "real option \<Rightarrow> real" where
  \<comment> \<open>\<open>null\<close> in arithmetic and in the comparisons \<open><\<close>, \<open>>\<close>, \<open><=\<close>, \<open>>=\<close> counts as 0\<close>
  "numOf v = (case v of None \<Rightarrow> 0 | Some x \<Rightarrow> x)"

definition orNull :: "real option \<Rightarrow> real option" where
  \<comment> \<open>\<open>v || null\<close>\<close>
  "orNull v = (if truthy v then v else None)"

definition orZero :: "real option \<Rightarrow> real" where
  \<comment> \<open>\<open>v || 0\<close>\<close>
  "orZero v = (if truthy v then numOf v else 0)"

section \<open>The indicator library (class TechnicalIndicators)\<close>

definition SMA :: "real list \<Rightarrow> nat \<Rightarrow> series" where
  "SMA data period =
     map (\<lambda>i. if i + 1 < period then None
              else Some (sum_list (slice data (i + 1 - period) (i + 1)) / real period))
       [0..<length data]"

text \<open>
  The loop of \<open>EMA\<close> carries the variable \<open>ema\<close> from one index to the next; the
  index list is \<open>[0..<data.length]\<close>. \<open>EMA\<close> is the function in exact arithmetic, which
  fixes the length of the series and which entries are present; \<open>EMA_double\<close> below has
  the same loop with the rounding of doubles.
\<close>

fun EMA_loop :: "real list \<Rightarrow> nat \<Rightarrow> real \<Rightarrow> real \<Rightarrow> nat list \<Rightarrow> series" where
  "EMA_loop data period multiplier ema [] = []"
| "EMA_loop data period multiplier ema (i # is) =
     (if i + 1 < period then None # EMA_loop data period multiplier ema is
      else if i + 1 = period then Some ema # EMA_loop data period multiplier ema is
      else (let ema' = (data ! i - ema) * multiplier + ema
            in Some ema' # EMA_loop data period multiplier ema' is))"

definition EMA :: "real list \<Rightarrow> nat \<Rightarrow> series" where
  "EMA data period =
     EMA_loop data period (2 / (real period + 1))
       (sum_list (slice data 0 period) / real period) [0..<length data]"

definition gainsOf :: "real list \<Rightarrow> real list" where
  "gainsOf closes =
     map (\<lambda>i. let change = closes ! i - closes ! (i - 1) in if change > 0 then change else 0)
       [1..<length closes]"

definition lossesOf :: "real list \<Rightarrow> real list" where
  "lossesOf closes =
     map (\<lambda>i. let change = closes ! i - closes ! (i - 1) in if change < 0 then \<bar>change\<bar> else 0)
       [1..<length closes]"

definition windowAvg :: "real list \<Rightarrow> nat \<Rightarrow> nat \<Rightarrow> real" where
  \<comment> \<open>\<open>xs.slice(i - period + 1, i + 1).reduce((a, b) => a + b, 0) / period\<close>\<close>
  "windowAvg xs period i = sum_list (slice xs (i + 1 - period) (i + 1)) / real period"

definition RSI_averages ::
  "real list \<Rightarrow> real list \<Rightarrow> nat \<Rightarrow> real option \<Rightarrow> nat \<Rightarrow> real \<times> real" where
  \<comment> \<open>the pair \<open>(avgGain, avgLoss)\<close> at index \<open>i\<close> of the gains; the three branches of the source\<close>
  "RSI_averages gains losses period prevRSI i =
     (if i + 1 = period
      then (sum_list (slice gains 0 period) / real period,
            sum_list (slice losses 0 period) / real period)
      else if prevRSI = None
      then (windowAvg gains period i, windowAvg losses period i)
      else (windowAvg gains period i, windowAvg losses period i))"

definition RSI_value :: "real \<Rightarrow> real \<Rightarrow> real" where
  "RSI_value avgGain avgLoss =
     (if avgLoss = 0 then 100
      else (let rs = avgGain / avgLoss in 100 - 100 / (1 + rs)))"

fun RSI_loop :: "real list \<Rightarrow> real list \<Rightarrow> nat \<Rightarrow> real option \<Rightarrow> nat list \<Rightarrow> series" where
  "RSI_loop gains losses period prevRSI [] = []"
| "RSI_loop gains losses period prevRSI (i # is) =
     (let r = (if i + 1 < period then None
               else (case RSI_averages gains losses period prevRSI i of
                       (avgGain, avgLoss) \<Rightarrow> Some (RSI_value avgGain avgLoss)))
      in r # RSI_loop gains losses period r is)"

definition RSI :: "real list \<Rightarrow> nat \<Rightarrow> series" where
  "RSI closes period =
     (let gains = gainsOf closes; losses = lossesOf closes
      in None # RSI_loop gains losses period None [0..<length gains])"

fun present :: "'a option list \<Rightarrow> 'a list" where
  \<comment> \<open>\<open>xs.filter(v => v !== null)\<close>\<close>
  "present [] = []"
| "present (None # xs) = present xs"
| "present (Some x # xs) = x # present xs"

definition elemAt :: "series \<Rightarrow> nat \<Rightarrow> real option" where
  \<comment> \<open>\<open>xs[i]\<close>, where an index past the end gives \<open>undefined\<close>, falsy like \<open>null\<close>\<close>
  "elemAt xs i = (if i < length xs then xs ! i else None)"

record macd_series =
  macd_macd :: series
  macd_signal :: series
  macd_histogram :: series

definition minusSeries :: "series \<Rightarrow> series \<Rightarrow> series" where
  \<comment> \<open>\<open>a.map((x, i) => x === null || b[i] === null ? null : x - b[i])\<close>\<close>
  "minusSeries a b =
     map (\<lambda>i. case (a ! i, elemAt b i) of (Some x, Some y) \<Rightarrow> Some (x - y) | _ \<Rightarrow> None)
       [0..<length a]"

fun alignSignal :: "series \<Rightarrow> series \<Rightarrow> nat \<Rightarrow> series" where
  "alignSignal [] signalEMA signalIndex = []"
| "alignSignal (None # ms) signalEMA signalIndex = None # alignSignal ms signalEMA signalIndex"
| "alignSignal (Some m # ms) signalEMA signalIndex =
     orNull (elemAt signalEMA signalIndex) # alignSignal ms signalEMA (signalIndex + 1)"

definition MACD :: "real list \<Rightarrow> nat \<Rightarrow> nat \<Rightarrow> nat \<Rightarrow> macd_series" where
  "MACD closes fastPeriod slowPeriod signalPeriod =
     (let fastEMA = EMA closes fastPeriod;
          slowEMA = EMA closes slowPeriod;
          macdLine = minusSeries fastEMA slowEMA;
          validMacd = present macdLine;
          signalEMA = EMA validMacd signalPeriod;
          signal = alignSignal macdLine signalEMA 0;
          histogram = minusSeries macdLine signal
      in \<lparr>macd_macd = macdLine, macd_signal = signal, macd_histogram = histogram\<rparr>)"

record bb_series =
  bb_upper :: series
  bb_middle :: series
  bb_lower :: series

definition bbStd :: "real list \<Rightarrow> nat \<Rightarrow> real \<Rightarrow> nat \<Rightarrow> real" where
  "bbStd closes period mean i =
     (let squaredDiffs = map (\<lambda>val. (val - mean) ^ 2) (slice closes (i + 1 - period) (i + 1));
          variance = sum_list squaredDiffs / real period
      in sqrt variance)"

definition BollingerBands :: "real list \<Rightarrow> nat \<Rightarrow> real \<Rightarrow> bb_series" where
  "BollingerBands closes period stdDev =
     (let middle = SMA closes period;
          upper = map (\<lambda>i. if i + 1 < period then None
                            else (let mean = numOf (middle ! i)
                                  in Some (mean + stdDev * bbStd closes period mean i)))
                    [0..<length closes];
          lower = map (\<lambda>i. if i + 1 < period then None
                            else (let mean = numOf (middle ! i)
                                  in Some (mean - stdDev * bbStd closes period mean i)))
                    [0..<length closes]
      in \<lparr>bb_upper = upper, bb_middle = middle, bb_lower = lower\<rparr>)"

record candle =
  c_time :: int
  c_open :: real
  c_high :: real
  c_low :: real
  c_close :: real
  c_volume :: real
  c_symbol :: "string option"

definition trueRange :: "candle list \<Rightarrow> nat \<Rightarrow> real" where
  \<comment> \<open>the true range of candle \<open>i \<ge> 1\<close> against the close before it\<close>
  "trueRange candles i =
     (let high = c_high (candles ! i); low = c_low (candles ! i);
          prevClose = c_close (candles ! (i - 1))
      in max (max (high - low) \<bar>high - prevClose\<bar>) \<bar>low - prevClose\<bar>)"

definition ATR :: "candle list \<Rightarrow> nat \<Rightarrow> series" where
  "ATR candles period =
     (let trueRanges = map (\<lambda>i. if i = 0 then c_high (candles ! i) - c_low (candles ! i)
                                 else trueRange candles i) [0..<length candles]
      in EMA trueRanges period)"

definition VolumeMA :: "real list \<Rightarrow> nat \<Rightarrow> series" where
  "VolumeMA volumes period = SMA volumes period"

text \<open>
  \<open>wilderSmooth\<close> reads \<open>result[i - 1]\<close>, the entry pushed by the iteration before; the
  loop carries it as \<open>prior\<close>. Its input may hold \<open>null\<close>, read as 0 by \<open>|| 0\<close>.
\<close>

fun wilder_loop :: "series \<Rightarrow> nat \<Rightarrow> real option \<Rightarrow> nat list \<Rightarrow> series" where
  "wilder_loop data period prior [] = []"
| "wilder_loop data period prior (i # is) =
     (let r = (if i + 1 < period then None
               else if i + 1 = period
               then Some (sum_list (map orZero (slice data 0 period)) / real period)
               else (case prior of None \<Rightarrow> None
                     | Some p \<Rightarrow> Some (p - p / real period + orZero (data ! i))))
      in r # wilder_loop data period r is)"

definition wilderSmooth :: "series \<Rightarrow> nat \<Rightarrow> series" where
  "wilderSmooth data period = wilder_loop data period None [0..<length data]"

definition plusDM :: "candle list \<Rightarrow> nat \<Rightarrow> real" where
  "plusDM candles i =
     (let upMove = c_high (candles ! i) - c_high (candles ! (i - 1));
          downMove = c_low (candles ! (i - 1)) - c_low (candles ! i)
      in if upMove > downMove \<and> upMove > 0 then upMove else 0)"

definition minusDM :: "candle list \<Rightarrow> nat \<Rightarrow> real" where
  "minusDM candles i =
     (let upMove = c_high (candles ! i) - c_high (candles ! (i - 1));
          downMove = c_low (candles ! (i - 1)) - c_low (candles ! i)
      in if downMove > upMove \<and> downMove > 0 then downMove else 0)"

definition dxAt :: "series \<Rightarrow> series \<Rightarrow> series \<Rightarrow> nat \<Rightarrow> real option" where
  "dxAt smoothedTR smoothedPlusDM smoothedMinusDM i =
     (case smoothedTR ! i of
        None \<Rightarrow> None
      | Some tr \<Rightarrow>
          if tr = 0 then None
          else (let pDI = numOf (elemAt smoothedPlusDM i) / tr * 100;
                    mDI = numOf (elemAt smoothedMinusDM i) / tr * 100;
                    diSum = pDI + mDI
                in if diSum = 0 then Some 0 else Some (\<bar>pDI - mDI\<bar> / diSum * 100)))"

definition ADX :: "candle list \<Rightarrow> nat \<Rightarrow> series" where
  "ADX candles period =
     (if length candles < period + 1 then replicate (length candles) None
      else (let idx = [1..<length candles];
                smoothedTR = wilderSmooth (map (\<lambda>i. Some (trueRange candles i)) idx) period;
                smoothedPlusDM = wilderSmooth (map (\<lambda>i. Some (plusDM candles i)) idx) period;
                smoothedMinusDM = wilderSmooth (map (\<lambda>i. Some (minusDM candles i)) idx) period;
                dx = map (dxAt smoothedTR smoothedPlusDM smoothedMinusDM) [0..<length smoothedTR];
                adx = wilderSmooth dx period
            in None # adx))"

fun minOf :: "real list \<Rightarrow> real" where
  \<comment> \<open>\<open>Math.min(...xs)\<close> of a list that is not empty (of no argument it is \<open>Infinity\<close>)\<close>
  "minOf [] = 0"
| "minOf (x # xs) = fold min xs x"

fun maxOf :: "real list \<Rightarrow> real" where
  \<comment> \<open>\<open>Math.max(...xs)\<close> of a list that is not empty\<close>
  "maxOf [] = 0"
| "maxOf (x # xs) = fold max xs x"

section \<open>Numbers that may not be finite, and number formatting\<close>

text \<open>
  A division whose divisor can be zero yields \<open>NaN\<close>, \<open>Infinity\<close> or \<open>-Infinity\<close> in
  JavaScript. Such quotients are values of \<open>jsnum\<close>. The sign of a zero is not tracked:
  a zero divisor counts as \<open>+0\<close>.
\<close>

datatype jsnum = Fin real | PosInf | NegInf | NaN

definition jsdiv :: "real \<Rightarrow> real \<Rightarrow> jsnum" where
  "jsdiv a b =
     (if b \<noteq> 0 then Fin (a / b)
      else if a > 0 then PosInf else if a < 0 then NegInf else NaN)"

fun jstimes :: "jsnum \<Rightarrow> real \<Rightarrow> jsnum" where
  "jstimes (Fin x) k = Fin (x * k)"
| "jstimes PosInf k = (if k > 0 then PosInf else if k < 0 then NegInf else NaN)"
| "jstimes NegInf k = (if k > 0 then NegInf else if k < 0 then PosInf else NaN)"
| "jstimes NaN k = NaN"

fun jsabs :: "jsnum \<Rightarrow> jsnum" where
  "jsabs (Fin x) = Fin \<bar>x\<bar>"
| "jsabs PosInf = PosInf"
| "jsabs NegInf = PosInf"
| "jsabs NaN = NaN"

fun jslt :: "jsnum \<Rightarrow> real \<Rightarrow> bool" where
  "jslt (Fin x) c = (x < c)"
| "jslt PosInf c = False"
| "jslt NegInf c = True"
| "jslt NaN c = False"

fun jsge :: "jsnum \<Rightarrow> real \<Rightarrow> bool" where
  "jsge (Fin x) c = (x \<ge> c)"
| "jsge PosInf c = True"
| "jsge NegInf c = False"
| "jsge NaN c = False"

fun jstruthy :: "jsnum \<Rightarrow> bool" where
  "jstruthy (Fin x) = (x \<noteq> 0)"
| "jstruthy PosInf = True"
| "jstruthy NegInf = True"
| "jstruthy NaN = False"

fun jsquot :: "jsnum \<Rightarrow> jsnum \<Rightarrow> jsnum" where
  "jsquot (Fin a) (Fin b) = jsdiv a b"
| "jsquot (Fin a) PosInf = Fin 0"
| "jsquot (Fin a) NegInf = Fin 0"
| "jsquot PosInf (Fin b) = (if b < 0 then NegInf else PosInf)"
| "jsquot NegInf (Fin b) = (if b < 0 then PosInf else NegInf)"
| "jsquot x y = NaN"

definition toFixed :: "nat \<Rightarrow> real \<Rightarrow> real" where
  \<comment> \<open>the number written by \<open>x.toFixed(d)\<close>: \<open>x\<close> rounded to \<open>d\<close> decimals, a tie going
      away from zero\<close>
  "toFixed d x =
     (if x < 0 then - (real_of_int \<lfloor>- x * 10 ^ d + 1 / 2\<rfloor> / 10 ^ d)
      else real_of_int \<lfloor>x * 10 ^ d + 1 / 2\<rfloor> / 10 ^ d)"

fun jsToFixed :: "nat \<Rightarrow> jsnum \<Rightarrow> jsnum" where
  "jsToFixed d (Fin x) = Fin (toFixed d x)"
| "jsToFixed d x = x"

section \<open>RSI for any period\<close>

text \<open>
  \<open>RSI\<close> above divides by the period in the reals, which is the source for a period of
  at least 1. \<open>RSI_js\<close> is the same function with the divisions of JavaScript, so that
  it covers period 0 as well, where every average is \<open>0 / 0\<close>. Its entries are \<open>null\<close>
  or numbers that may not be finite.
\<close>

fun jsplus :: "jsnum \<Rightarrow> jsnum \<Rightarrow> jsnum" where
  "jsplus (Fin a) (Fin b) = Fin (a + b)"
| "jsplus NaN y = NaN"
| "jsplus x NaN = NaN"
| "jsplus PosInf NegInf = NaN"
| "jsplus NegInf PosInf = NaN"
| "jsplus PosInf y = PosInf"
| "jsplus NegInf y = NegInf"
| "jsplus (Fin a) y = y"

fun jsneg :: "jsnum \<Rightarrow> jsnum" where
  "jsneg (Fin a) = Fin (- a)"
| "jsneg PosInf = NegInf"
| "jsneg NegInf = PosInf"
| "jsneg NaN = NaN"

definition jsminus :: "jsnum \<Rightarrow> jsnum \<Rightarrow> jsnum" where
  "jsminus x y = jsplus x (jsneg y)"

definition windowAvg_js :: "real list \<Rightarrow> nat \<Rightarrow> nat \<Rightarrow> jsnum" where
  "windowAvg_js xs period i = jsdiv (sum_list (slice xs (i + 1 - period) (i + 1))) (real period)"

definition RSI_averages_js ::
  "real list \<Rightarrow> real list \<Rightarrow> nat \<Rightarrow> jsnum option \<Rightarrow> nat \<Rightarrow> jsnum \<times> jsnum" where
  "RSI_averages_js gains losses period prevRSI i =
     (if i + 1 = period
      then (jsdiv (sum_list (slice gains 0 period)) (real period),
            jsdiv (sum_list (slice losses 0 period)) (real period))
      else if prevRSI = None
      then (windowAvg_js gains period i, windowAvg_js losses period i)
      else (windowAvg_js gains period i, windowAvg_js losses period i))"

definition RSI_value_js :: "jsnum \<Rightarrow> jsnum \<Rightarrow> jsnum" where
  "RSI_value_js avgGain avgLoss =
     (if avgLoss = Fin 0 then Fin 100
      else (let rs = jsquot avgGain avgLoss
            in jsminus (Fin 100) (jsquot (Fin 100) (jsplus (Fin 1) rs))))"

fun RSI_loop_js ::
  "real list \<Rightarrow> real list \<Rightarrow> nat \<Rightarrow> jsnum option \<Rightarrow> nat list \<Rightarrow> jsnum option list" where
  "RSI_loop_js gains losses period prevRSI [] = []"
| "RSI_loop_js gains losses period prevRSI (i # is) =
     (let r = (if i + 1 < period then None
               else (case RSI_averages_js gains losses period prevRSI i of
                       (avgGain, avgLoss) \<Rightarrow> Some (RSI_value_js avgGain avgLoss)))
      in r # RSI_loop_js gains losses period r is)"

definition RSI_js :: "real list \<Rightarrow> nat \<Rightarrow> jsnum option list" where
  "RSI_js closes period =
     (let gains = gainsOf closes; losses = lossesOf closes
      in None # RSI_loop_js gains losses period None [0..<length gains])"

section \<open>StochRSI\<close>

text \<open>
  \<open>StochRSI\<close> takes \<open>Math.min\<close> and \<open>Math.max\<close> of a window of RSI values and
  divides by their difference. Of no argument \<open>Math.min\<close> is \<open>Infinity\<close> and \<open>Math.max\<close>
  is \<open>-Infinity\<close>, which is what a \<open>stochPeriod\<close> of 0 gives them, and either is \<open>NaN\<close>
  when an argument is. The function is therefore given over \<open>RSI_js\<close>, with entries
  that may not be finite; the moving average \<open>SMA_js\<close> of its \<open>%K\<close> and \<open>%D\<close> lines is
  \<open>SMA\<close> with the additions and the division of JavaScript.
\<close>

fun jsmin :: "jsnum \<Rightarrow> jsnum \<Rightarrow> jsnum" where
  "jsmin NaN y = NaN"
| "jsmin x NaN = NaN"
| "jsmin NegInf y = NegInf"
| "jsmin x NegInf = NegInf"
| "jsmin PosInf y = y"
| "jsmin x PosInf = x"
| "jsmin (Fin a) (Fin b) = Fin (min a b)"

fun jsmax :: "jsnum \<Rightarrow> jsnum \<Rightarrow> jsnum" where
  "jsmax NaN y = NaN"
| "jsmax x NaN = NaN"
| "jsmax PosInf y = PosInf"
| "jsmax x PosInf = PosInf"
| "jsmax NegInf y = y"
| "jsmax x NegInf = x"
| "jsmax (Fin a) (Fin b) = Fin (max a b)"

definition mathMin :: "jsnum list \<Rightarrow> jsnum" where
  \<comment> \<open>\<open>Math.min(...xs)\<close>\<close>
  "mathMin xs = fold (\<lambda>x acc. jsmin acc x) xs PosInf"

definition mathMax :: "jsnum list \<Rightarrow> jsnum" where
  \<comment> \<open>\<open>Math.max(...xs)\<close>\<close>
  "mathMax xs = fold (\<lambda>x acc. jsmax acc x) xs NegInf"

definition strictEq :: "jsnum \<Rightarrow> jsnum \<Rightarrow> bool" where
  \<comment> \<open>\<open>a === b\<close> on numbers: \<open>NaN\<close> equals nothing\<close>
  "strictEq a b = (a \<noteq> NaN \<and> a = b)"

definition SMA_js :: "jsnum list \<Rightarrow> nat \<Rightarrow> jsnum option list" where
  "SMA_js data period =
     map (\<lambda>i. if i + 1 < period then None
              else Some (jsquot (fold (\<lambda>b a. jsplus a b) (slice data (i + 1 - period) (i + 1))
                                  (Fin 0))
                           (Fin (real period))))
       [0..<length data]"

record stoch_series =
  stoch_k :: "jsnum option list"
  stoch_d :: "jsnum option list"
  stoch_raw :: "jsnum option list"

definition stochAt :: "jsnum option list \<Rightarrow> nat \<Rightarrow> nat \<Rightarrow> jsnum option" where
  "stochAt rsi stochPeriod i =
     (case (if i + 1 < stochPeriod then None else rsi ! i) of
        None \<Rightarrow> None
      | Some r \<Rightarrow>
          (let rsiSlice = present (slice rsi (i + 1 - stochPeriod) (i + 1))
           in if length rsiSlice < stochPeriod then None
              else (let minRSI = mathMin rsiSlice; maxRSI = mathMax rsiSlice
                    in if strictEq maxRSI minRSI then Some (Fin 50)
                       else Some (jstimes (jsquot (jsminus r minRSI) (jsminus maxRSI minRSI))
                                    100))))"

definition StochRSI :: "real list \<Rightarrow> nat \<Rightarrow> nat \<Rightarrow> nat \<Rightarrow> nat \<Rightarrow> stoch_series" where
  "StochRSI closes rsiPeriod stochPeriod kPeriod dPeriod =
     (let rsi = RSI_js closes rsiPeriod;
          stochRSI = map (stochAt rsi stochPeriod) [0..<length rsi];
          validStoch = present stochRSI;
          kLine = SMA_js validStoch kPeriod;
          dLine = SMA_js (present kLine) dPeriod
      in \<lparr>stoch_k = kLine, stoch_d = dLine, stoch_raw = stochRSI\<rparr>)"

section \<open>Binary64 arithmetic, and EMA in doubles\<close>

text \<open>
  A JavaScript number is an IEEE 754 double: every arithmetic operation returns the exact
  result rounded to the nearest number with 53 significant bits, a tie going to the even
  mantissa; below \<open>2\<^sup>-\<^sup>1\<^sup>0\<^sup>2\<^sup>2\<close> the numbers are spaced \<open>2\<^sup>-\<^sup>1\<^sup>0\<^sup>7\<^sup>4\<close> apart, and a result that
  rounds to \<open>2\<^sup>1\<^sup>0\<^sup>2\<^sup>4\<close> or more in magnitude is an infinity. \<open>roundDouble\<close> is that
  rounding on the reals and \<open>toDouble\<close> adds the overflow; the sign of a zero is not
  tracked. \<open>EMA_double\<close> is \<open>EMA\<close> with each operation of the source rounded in this
  way, for input numbers and a period that are themselves doubles. Its multiplier
  \<open>2 / (period + 1)\<close> is a real: \<open>period + 1\<close> is at least 1 and the quotient at most 2,
  so neither operation overflows or divides by zero.
\<close>

definition binade :: "real \<Rightarrow> int" where
  \<comment> \<open>for \<open>x\<close> other than 0, the exponent \<open>e\<close> with \<open>2\<^sup>e \<le> |x| < 2\<^sup>e\<^sup>+\<^sup>1\<close>\<close>
  "binade x =
     (if 1 \<le> \<bar>x\<bar> then bitlen \<lfloor>\<bar>x\<bar>\<rfloor> - 1 else - bitlen (\<lceil>1 / \<bar>x\<bar>\<rceil> - 1))"

definition roundEven :: "real \<Rightarrow> int" where
  \<comment> \<open>the nearest integer, a tie going to the even one\<close>
  "roundEven x =
     (let f = \<lfloor>x\<rfloor>; r = x - of_int f
      in if r < 1 / 2 then f else if 1 / 2 < r then f + 1 else if even f then f else f + 1)"

definition quantum :: "real \<Rightarrow> real" where
  \<comment> \<open>the spacing of the doubles around \<open>x\<close>: 53 significant bits, and \<open>2\<^sup>-\<^sup>1\<^sup>0\<^sup>7\<^sup>4\<close> for the
      subnormal numbers\<close>
  "quantum x = 2 powi (max (binade x - 52) (- 1074))"

definition roundDouble :: "real \<Rightarrow> real" where
  "roundDouble x = (if x = 0 then 0 else of_int (roundEven (x / quantum x)) * quantum x)"

definition overflowThreshold :: real where
  "overflowThreshold = 2 ^ 1024"

definition toDouble :: "real \<Rightarrow> jsnum" where
  \<comment> \<open>the double an exact result is rounded to; past the largest double it is an infinity\<close>
  "toDouble x =
     (let r = roundDouble x
      in if overflowThreshold \<le> r then PosInf
         else if r \<le> - overflowThreshold then NegInf else Fin r)"

fun plusD :: "jsnum \<Rightarrow> jsnum \<Rightarrow> jsnum" where
  "plusD (Fin a) (Fin b) = toDouble (a + b)"
| "plusD x y = jsplus x y"

fun minusD :: "jsnum \<Rightarrow> jsnum \<Rightarrow> jsnum" where
  "minusD (Fin a) (Fin b) = toDouble (a - b)"
| "minusD x y = jsminus x y"

fun timesD :: "jsnum \<Rightarrow> real \<Rightarrow> jsnum" where
  "timesD (Fin a) k = toDouble (a * k)"
| "timesD x k = jstimes x k"

fun divD :: "jsnum \<Rightarrow> real \<Rightarrow> jsnum" where
  "divD (Fin a) b = (if b \<noteq> 0 then toDouble (a / b) else jsdiv a b)"
| "divD x b = jsquot x (Fin b)"

definition reduceSum :: "real list \<Rightarrow> jsnum" where
  \<comment> \<open>\<open>xs.reduce((a, b) => a + b, 0)\<close>\<close>
  "reduceSum xs = fold (\<lambda>b a. plusD a (Fin b)) xs (Fin 0)"

fun EMA_loop_double ::
  "real list \<Rightarrow> nat \<Rightarrow> real \<Rightarrow> jsnum \<Rightarrow> nat list \<Rightarrow> jsnum option list" where
  "EMA_loop_double data period multiplier ema [] = []"
| "EMA_loop_double data period multiplier ema (i # is) =
     (if i + 1 < period then None # EMA_loop_double data period multiplier ema is
      else if i + 1 = period then Some ema # EMA_loop_double data period multiplier ema is
      else (let ema' = plusD (timesD (minusD (Fin (data ! i)) ema) multiplier) ema
            in Some ema' # EMA_loop_double data period multiplier ema' is))"

definition EMA_double :: "real list \<Rightarrow> nat \<Rightarrow> jsnum option list" where
  "EMA_double data period =
     EMA_loop_double data period (roundDouble (2 / roundDouble (real period + 1)))
       (divD (reduceSum (slice data 0 period)) (real period)) [0..<length data]"

section \<open>Messages\<close>

text \<open>
  The engine explains itself in template strings. A message is the name of its template
  (in English here) with the values the template interpolates, already formatted by
  \<open>toFixed\<close> where the source formats them; a flag stands for an optional suffix of the
  string.
\<close>

datatype risk_level = LOW | MODERATE | HIGH

datatype arg = ANum real | AInt int | AJs jsnum | AOpt "real option" | AFlag bool | ARisk risk_level

datatype msg = Msg string "arg list"

section \<open>The signal engine: configuration and indicator snapshot\<close>

record config =
  rsiPeriod :: nat
  rsiOversold :: real
  rsiOverbought :: real
  macdFast :: nat
  macdSlow :: nat
  macdSignal :: nat
  emaFast :: nat
  emaSlow :: nat
  emaTrend :: nat
  ema200 :: nat
  bbPeriod :: nat
  bbStdDev :: real
  atrPeriod :: nat
  atrMultiplierLong :: real
  atrMultiplierShort :: real
  adxPeriod :: nat
  adxTrendThreshold :: real
  minScoreForSignal :: real
  minConfluence :: real
  sidewaysADXThreshold :: real
  riskRewardRatio :: real
  maxRiskPercent :: real

text \<open>
  The constructor reads each option as \<open>config.x || default\<close>: an option that is missing
  or 0 takes the default, so no period of the engine is 0.
\<close>

record options =
  o_rsiPeriod :: "nat option"
  o_rsiOversold :: "real option"
  o_rsiOverbought :: "real option"
  o_macdFast :: "nat option"
  o_macdSlow :: "nat option"
  o_macdSignal :: "nat option"
  o_emaFast :: "nat option"
  o_emaSlow :: "nat option"
  o_emaTrend :: "nat option"
  o_ema200 :: "nat option"
  o_bbPeriod :: "nat option"
  o_bbStdDev :: "real option"
  o_atrPeriod :: "nat option"
  o_atrMultiplierLong :: "real option"
  o_atrMultiplierShort :: "real option"
  o_adxPeriod :: "nat option"
  o_adxTrendThreshold :: "real option"
  o_minScoreForSignal :: "real option"
  o_minConfluence :: "real option"
  o_sidewaysADXThreshold :: "real option"
  o_riskRewardRatio :: "real option"
  o_maxRiskPercent :: "real option"

definition orDefault :: "'a::zero option \<Rightarrow> 'a \<Rightarrow> 'a" where
  \<comment> \<open>\<open>v || d\<close>\<close>
  "orDefault v d = (case v of None \<Rightarrow> d | Some x \<Rightarrow> if x = 0 then d else x)"

definition SignalEngine :: "options \<Rightarrow> config" where
  "SignalEngine opts =
     \<lparr>rsiPeriod = orDefault (o_rsiPeriod opts) 14,
      rsiOversold = orDefault (o_rsiOversold opts) 25,
      rsiOverbought = orDefault (o_rsiOverbought opts) 75,
      macdFast = orDefault (o_macdFast opts) 12,
      macdSlow = orDefault (o_macdSlow opts) 26,
      macdSignal = orDefault (o_macdSignal opts) 9,
      emaFast = orDefault (o_emaFast opts) 9,
      emaSlow = orDefault (o_emaSlow opts) 21,
      emaTrend = orDefault (o_emaTrend opts) 50,
      ema200 = orDefault (o_ema200 opts) 200,
      bbPeriod = orDefault (o_bbPeriod opts) 20,
      bbStdDev = orDefault (o_bbStdDev opts) 2,
      atrPeriod = orDefault (o_atrPeriod opts) 14,
      atrMultiplierLong = orDefault (o_atrMultiplierLong opts) 2.5,
      atrMultiplierShort = orDefault (o_atrMultiplierShort opts) 2.5,
      adxPeriod = orDefault (o_adxPeriod opts) 14,
      adxTrendThreshold = orDefault (o_adxTrendThreshold opts) 25,
      minScoreForSignal = orDefault (o_minScoreForSignal opts) 4,
      minConfluence = orDefault (o_minConfluence opts) 3,
      sidewaysADXThreshold = orDefault (o_sidewaysADXThreshold opts) 20,
      riskRewardRatio = orDefault (o_riskRewardRatio opts) 1.5,
      maxRiskPercent = orDefault (o_maxRiskPercent opts) 2\<rparr>"

record indicators =
  i_rsi :: series
  i_macd :: macd_series
  i_emaFast :: series
  i_emaSlow :: series
  i_emaTrend :: series
  i_ema200 :: series
  i_bb :: bb_series
  i_atr :: series
  i_adx :: "series option"
  i_volumeMA :: series

text \<open>
  \<open>calculateIndicators\<close> calls \<open>ADX\<close> when the library it was loaded with defines it
  (\<open>TechnicalIndicators.ADX ? TechnicalIndicators.ADX(candles, period) : null\<close>). The
  repository holds the library twice: \<open>src/indicators/technicalIndicators.js\<close> has no
  \<open>ADX\<close>, and the copy with \<open>ADX\<close> and \<open>wilderSmooth\<close> is the one modelled above. Which
  one is loaded is the parameter \<open>libraryADX\<close>: \<open>None\<close> for the library without
  \<open>ADX\<close>, \<open>Some ADX\<close> for the one with it.
\<close>

type_synonym library_ADX = "(candle list \<Rightarrow> nat \<Rightarrow> series) option"

definition calculateIndicators ::
  "library_ADX \<Rightarrow> config \<Rightarrow> candle list \<Rightarrow> real list \<Rightarrow> real list \<Rightarrow> indicators" where
  "calculateIndicators libraryADX cfg candles closes volumes =
     \<lparr>i_rsi = RSI closes (rsiPeriod cfg),
      i_macd = MACD closes (macdFast cfg) (macdSlow cfg) (macdSignal cfg),
      i_emaFast = EMA closes (emaFast cfg),
      i_emaSlow = EMA closes (emaSlow cfg),
      i_emaTrend = EMA closes (emaTrend cfg),
      i_ema200 = EMA closes (ema200 cfg),
      i_bb = BollingerBands closes (bbPeriod cfg) (bbStdDev cfg),
      i_atr = ATR candles (atrPeriod cfg),
      i_adx = (case libraryADX of
                 None \<Rightarrow> None
               | Some adx \<Rightarrow> Some (adx candles (adxPeriod cfg))),
      i_volumeMA = VolumeMA volumes 20\<rparr>"

fun firstPresent :: "series \<Rightarrow> real option" where
  "firstPresent [] = None"
| "firstPresent (None # xs) = firstPresent xs"
| "firstPresent (Some v # xs) = Some v"

definition getLatest :: "series \<Rightarrow> real option" where
  \<comment> \<open>scans from the last index down to 0\<close>
  "getLatest arr = firstPresent (rev arr)"

fun countPresent :: "nat \<Rightarrow> series \<Rightarrow> real option" where
  "countPresent count [] = None"
| "countPresent count (None # xs) = countPresent count xs"
| "countPresent count (Some v # xs) =
     (if count + 1 = 2 then Some v else countPresent (count + 1) xs)"

definition getPrevious :: "series \<Rightarrow> real option" where
  "getPrevious arr = countPresent 0 (rev arr)"

record rsi_latest =
  rsi_current :: "real option"
  rsi_previous :: "real option"

record macd_latest =
  m_macd :: "real option"
  m_signal :: "real option"
  m_histogram :: "real option"
  m_prevHistogram :: "real option"

record ema_latest =
  e_fast :: "real option"
  e_slow :: "real option"
  e_trend :: "real option"
  e_ema200 :: "real option"

record bb_latest =
  b_upper :: "real option"
  b_middle :: "real option"
  b_lower :: "real option"

record latest =
  l_rsi :: rsi_latest
  l_macd :: macd_latest
  l_ema :: ema_latest
  l_bb :: bb_latest
  l_atr :: "real option"
  l_adx :: "real option"
  l_volumeMA :: "real option"

definition getLatestIndicators :: "indicators \<Rightarrow> latest" where
  "getLatestIndicators ind =
     \<lparr>l_rsi = \<lparr>rsi_current = getLatest (i_rsi ind), rsi_previous = getPrevious (i_rsi ind)\<rparr>,
      l_macd = \<lparr>m_macd = getLatest (macd_macd (i_macd ind)),
                m_signal = getLatest (macd_signal (i_macd ind)),
                m_histogram = getLatest (macd_histogram (i_macd ind)),
                m_prevHistogram = getPrevious (macd_histogram (i_macd ind))\<rparr>,
      l_ema = \<lparr>e_fast = getLatest (i_emaFast ind), e_slow = getLatest (i_emaSlow ind),
               e_trend = getLatest (i_emaTrend ind), e_ema200 = getLatest (i_ema200 ind)\<rparr>,
      l_bb = \<lparr>b_upper = getLatest (bb_upper (i_bb ind)),
              b_middle = getLatest (bb_middle (i_bb ind)),
              b_lower = getLatest (bb_lower (i_bb ind))\<rparr>,
      l_atr = getLatest (i_atr ind),
      l_adx = (case i_adx ind of None \<Rightarrow> None | Some adx \<Rightarrow> getLatest adx),
      l_volumeMA = getLatest (i_volumeMA ind)\<rparr>"

section \<open>The signal engine: scoring each indicator\<close>

text \<open>
  An analysis object holds a signal name, a score and a description; \<open>a_values\<close> lists
  the raw values that the source copies into the object besides them, in its order.
\<close>

record indicator_analysis =
  a_signal :: string
  a_score :: int
  a_description :: msg
  a_values :: "arg list"

definition analyzeADX :: "real option \<Rightarrow> indicator_analysis" where
  "analyzeADX adx =
     (case adx of
        None \<Rightarrow> \<lparr>a_signal = ''N/A'', a_score = 0, a_description = Msg ''no ADX data'' [],
                 a_values = [AOpt None]\<rparr>
      | Some x \<Rightarrow>
          (if x \<ge> 50
           then \<lparr>a_signal = ''VERY_STRONG_TREND'', a_score = 0,
                 a_description = Msg ''ADX: very strong trend'' [ANum (toFixed 1 x)],
                 a_values = [AOpt adx]\<rparr>
           else if x \<ge> 25
           then \<lparr>a_signal = ''STRONG_TREND'', a_score = 0,
                 a_description = Msg ''ADX: trend strong enough to trade'' [ANum (toFixed 1 x)],
                 a_values = [AOpt adx]\<rparr>
           else if x \<ge> 20
           then \<lparr>a_signal = ''WEAK_TREND'', a_score = 0,
                 a_description = Msg ''ADX: weak trend'' [ANum (toFixed 1 x)],
                 a_values = [AOpt adx]\<rparr>
           else \<lparr>a_signal = ''SIDEWAY'', a_score = 0,
                 a_description = Msg ''ADX: sideways market, avoid trading'' [ANum (toFixed 1 x)],
                 a_values = [AOpt adx]\<rparr>))"

definition analyzeRSI :: "config \<Rightarrow> rsi_latest \<Rightarrow> indicator_analysis" where
  "analyzeRSI cfg rsi =
     (let previous = rsi_previous rsi in
      case rsi_current rsi of
        None \<Rightarrow> \<lparr>a_signal = ''N/A'', a_score = 0, a_description = Msg ''not enough RSI data'' [],
                 a_values = []\<rparr>
      | Some current \<Rightarrow>
          (if current < rsiOversold cfg
           then (let recovering = (truthy previous \<and> current > numOf previous)
                 in \<lparr>a_signal = ''LONG'', a_score = (if recovering then 3 else 2),
                     a_description = Msg ''RSI oversold'' [ANum (toFixed 1 current), AFlag recovering],
                     a_values = [ANum current]\<rparr>)
           else if current > rsiOverbought cfg
           then (let weakening = (truthy previous \<and> current < numOf previous)
                 in \<lparr>a_signal = ''SHORT'', a_score = (if weakening then - 3 else - 2),
                     a_description = Msg ''RSI overbought'' [ANum (toFixed 1 current), AFlag weakening],
                     a_values = [ANum current]\<rparr>)
           else if current < 35
           then \<lparr>a_signal = ''SLIGHTLY_BULLISH'', a_score = 1,
                 a_description = Msg ''RSI near oversold'' [ANum (toFixed 1 current)],
                 a_values = [ANum current]\<rparr>
           else if current > 65
           then \<lparr>a_signal = ''SLIGHTLY_BEARISH'', a_score = - 1,
                 a_description = Msg ''RSI near overbought'' [ANum (toFixed 1 current)],
                 a_values = [ANum current]\<rparr>
           else \<lparr>a_signal = ''NEUTRAL'', a_score = 0,
                 a_description = Msg ''RSI neutral'' [ANum (toFixed 1 current)],
                 a_values = [ANum current]\<rparr>))"

definition analyzeMACD :: "macd_latest \<Rightarrow> indicator_analysis" where
  "analyzeMACD macd =
     (let macdLine = m_macd macd; signalLine = m_signal macd;
          histogram = m_histogram macd; prevHistogram = m_prevHistogram macd;
          vals = [AOpt macdLine, AOpt signalLine, AOpt histogram]
      in if macdLine = None \<or> signalLine = None
         then \<lparr>a_signal = ''N/A'', a_score = 0, a_description = Msg ''not enough MACD data'' [],
               a_values = []\<rparr>
         else if numOf histogram > 0 \<and> prevHistogram \<noteq> None \<and> numOf prevHistogram \<le> 0
         then \<lparr>a_signal = ''LONG'', a_score = 3, a_description = Msg ''MACD golden cross'' [],
               a_values = vals\<rparr>
         else if numOf histogram < 0 \<and> prevHistogram \<noteq> None \<and> numOf prevHistogram \<ge> 0
         then \<lparr>a_signal = ''SHORT'', a_score = - 3, a_description = Msg ''MACD death cross'' [],
               a_values = vals\<rparr>
         else if numOf histogram > 0
         then (let rising = (numOf histogram > numOf prevHistogram)
               in \<lparr>a_signal = ''BULLISH'', a_score = (if rising then 2 else 1),
                   a_description = Msg ''MACD bullish'' [AFlag rising], a_values = vals\<rparr>)
         else (let falling = (numOf histogram < numOf prevHistogram)
               in \<lparr>a_signal = ''BEARISH'', a_score = (if falling then - 2 else - 1),
                   a_description = Msg ''MACD bearish'' [AFlag falling], a_values = vals\<rparr>))"

definition analyzeEMA :: "ema_latest \<Rightarrow> real \<Rightarrow> indicator_analysis" where
  "analyzeEMA ema currentPrice =
     (let fast = e_fast ema; slow = e_slow ema; trend = e_trend ema;
          vals = [AOpt fast, AOpt slow, AOpt trend]
      in if fast = None \<or> slow = None
         then \<lparr>a_signal = ''N/A'', a_score = 0, a_description = Msg ''not enough EMA data'' [],
               a_values = []\<rparr>
         else if numOf fast > numOf slow
         then (let above = (truthy trend \<and> currentPrice > numOf trend)
               in \<lparr>a_signal = ''BULLISH'', a_score = (if above then 2 else 1),
                   a_description = Msg ''fast EMA above slow EMA'' [AFlag above], a_values = vals\<rparr>)
         else (let below = (truthy trend \<and> currentPrice < numOf trend)
               in \<lparr>a_signal = ''BEARISH'', a_score = (if below then - 2 else - 1),
                   a_description = Msg ''fast EMA below slow EMA'' [AFlag below], a_values = vals\<rparr>))"

fun jsgt :: "jsnum \<Rightarrow> real \<Rightarrow> bool" where
  "jsgt (Fin x) c = (x > c)"
| "jsgt PosInf c = True"
| "jsgt NegInf c = False"
| "jsgt NaN c = False"

definition analyzeBB :: "bb_latest \<Rightarrow> real \<Rightarrow> indicator_analysis" where
  "analyzeBB bb currentPrice =
     (case (b_upper bb, b_lower bb) of
        (Some upper, Some lower) \<Rightarrow>
          (let middle = b_middle bb;
               bbWidth = jstimes (jsdiv (upper - lower) (numOf middle)) 100;
               pricePosition = jstimes (jsdiv (currentPrice - lower) (upper - lower)) 100;
               vals = [ANum upper, AOpt middle, ANum lower, AJs (jsToFixed 2 bbWidth),
                       AJs (jsToFixed 2 pricePosition)]
           in if currentPrice \<le> lower
              then \<lparr>a_signal = ''LONG'', a_score = 2,
                    a_description = Msg ''price touches lower band'' [], a_values = vals\<rparr>
              else if currentPrice \<ge> upper
              then \<lparr>a_signal = ''SHORT'', a_score = - 2,
                    a_description = Msg ''price touches upper band'' [], a_values = vals\<rparr>
              else if jslt pricePosition 20
              then \<lparr>a_signal = ''BULLISH'', a_score = 1,
                    a_description = Msg ''price near lower band'' [], a_values = vals\<rparr>
              else if jsgt pricePosition 80
              then \<lparr>a_signal = ''BEARISH'', a_score = - 1,
                    a_description = Msg ''price near upper band'' [], a_values = vals\<rparr>
              else \<lparr>a_signal = ''NEUTRAL'', a_score = 0,
                    a_description = Msg ''price in neutral band zone'' [], a_values = vals\<rparr>)
      | _ \<Rightarrow> \<lparr>a_signal = ''N/A'', a_score = 0, a_description = Msg ''not enough BB data'' [],
              a_values = []\<rparr>)"

definition analyzeTrend :: "ema_latest \<Rightarrow> real \<Rightarrow> indicator_analysis" where
  "analyzeTrend ema currentPrice =
     (let fast = numOf (e_fast ema); slow = numOf (e_slow ema); trend = numOf (e_trend ema)
      in if \<not> truthy (e_trend ema)
         then \<lparr>a_signal = ''N/A'', a_score = 0, a_description = Msg ''not enough trend data'' [],
               a_values = []\<rparr>
         else if currentPrice > fast \<and> fast > slow \<and> slow > trend
         then \<lparr>a_signal = ''STRONG_UPTREND'', a_score = 2,
               a_description = Msg ''strong uptrend'' [], a_values = []\<rparr>
         else if currentPrice < fast \<and> fast < slow \<and> slow < trend
         then \<lparr>a_signal = ''STRONG_DOWNTREND'', a_score = - 2,
               a_description = Msg ''strong downtrend'' [], a_values = []\<rparr>
         else if currentPrice > trend
         then \<lparr>a_signal = ''UPTREND'', a_score = 1,
               a_description = Msg ''uptrend'' [], a_values = []\<rparr>
         else \<lparr>a_signal = ''DOWNTREND'', a_score = - 1,
               a_description = Msg ''downtrend'' [], a_values = []\<rparr>)"

definition getSignalStrength :: "real \<Rightarrow> string" where
  "getSignalStrength avgScore =
     (let absScore = \<bar>avgScore\<bar>
      in if absScore \<ge> 2 then ''STRONG'' else if absScore \<ge> 1 then ''MODERATE'' else ''WEAK'')"

record analysis =
  an_rsi :: indicator_analysis
  an_macd :: indicator_analysis
  an_ema :: indicator_analysis
  an_bb :: indicator_analysis
  an_trend :: indicator_analysis
  an_adx :: indicator_analysis
  totalScore :: int
  averageScore :: real
  strength :: string
  bullishConfluence :: int
  bearishConfluence :: int
  confluence :: int
  isSideway :: bool
  hasTrend :: bool

record tally =
  t_totalScore :: int
  t_signalCount :: int
  t_bullishCount :: int
  t_bearishCount :: int

definition tallyStep :: "indicator_analysis \<Rightarrow> tally \<Rightarrow> tally" where
  \<comment> \<open>the body of \<open>mainIndicators.forEach\<close>; every analysis object has a score\<close>
  "tallyStep a t =
     \<lparr>t_totalScore = t_totalScore t + a_score a,
      t_signalCount = t_signalCount t + 1,
      t_bullishCount = (if a_score a > 0 then t_bullishCount t + 1 else t_bullishCount t),
      t_bearishCount = (if a_score a > 0 then t_bearishCount t
                        else if a_score a < 0 then t_bearishCount t + 1
                        else t_bearishCount t)\<rparr>"

definition analyzeIndicators :: "config \<Rightarrow> latest \<Rightarrow> real \<Rightarrow> analysis" where
  "analyzeIndicators cfg ind currentPrice =
     (let rsi = analyzeRSI cfg (l_rsi ind);
          macd = analyzeMACD (l_macd ind);
          ema = analyzeEMA (l_ema ind) currentPrice;
          bb = analyzeBB (l_bb ind) currentPrice;
          trend = analyzeTrend (l_ema ind) currentPrice;
          adx = analyzeADX (l_adx ind);
          t = fold tallyStep [rsi, macd, ema, bb, trend]
                \<lparr>t_totalScore = 0, t_signalCount = 0, t_bullishCount = 0, t_bearishCount = 0\<rparr>;
          avg = (if t_signalCount t > 0
                 then real_of_int (t_totalScore t) / real_of_int (t_signalCount t) else 0)
      in \<lparr>an_rsi = rsi, an_macd = macd, an_ema = ema, an_bb = bb, an_trend = trend, an_adx = adx,
          totalScore = t_totalScore t,
          averageScore = avg,
          strength = getSignalStrength avg,
          bullishConfluence = t_bullishCount t,
          bearishConfluence = t_bearishCount t,
          confluence = max (t_bullishCount t) (t_bearishCount t),
          isSideway = (case l_adx ind of None \<Rightarrow> False | Some x \<Rightarrow> x < sidewaysADXThreshold cfg),
          hasTrend = (case l_adx ind of None \<Rightarrow> False | Some x \<Rightarrow> x \<ge> adxTrendThreshold cfg)\<rparr>)"

section \<open>The signal engine: market structure, volume, order blocks, pullback\<close>

record swing_point =
  sp_type :: string
  sp_price :: real
  sp_index :: nat

record market_structure =
  ms_trend :: string
  ms_pattern :: string
  ms_score :: int
  ms_swingPoints :: "swing_point list option"

definition swingPointsAt :: "candle list \<Rightarrow> nat \<Rightarrow> swing_point list" where
  \<comment> \<open>what one iteration of the swing loop pushes: a swing high first, then a swing low\<close>
  "swingPointsAt rc i =
     (let curr = rc ! i; prev1 = rc ! (i - 1); prev2 = rc ! (i - 2);
          next1 = rc ! (i + 1); next2 = rc ! (i + 2)
      in (if c_high curr > c_high prev1 \<and> c_high curr > c_high prev2 \<and>
             c_high curr > c_high next1 \<and> c_high curr > c_high next2
          then [\<lparr>sp_type = ''HIGH'', sp_price = c_high curr, sp_index = i\<rparr>] else []) @
         (if c_low curr < c_low prev1 \<and> c_low curr < c_low prev2 \<and>
             c_low curr < c_low next1 \<and> c_low curr < c_low next2
          then [\<lparr>sp_type = ''LOW'', sp_price = c_low curr, sp_index = i\<rparr>] else []))"

definition analyzeMarketStructure :: "candle list \<Rightarrow> market_structure" where
  "analyzeMarketStructure candles =
     (if length candles < 20
      then \<lparr>ms_trend = ''UNKNOWN'', ms_pattern = ''N/A'', ms_score = 0, ms_swingPoints = None\<rparr>
      else (let recentCandles = lastN 20 candles;
                swingPoints = concat (map (swingPointsAt recentCandles)
                                        [2..<length recentCandles - 2])
            in if length swingPoints < 4
               then \<lparr>ms_trend = ''SIDEWAYS'', ms_pattern = ''not enough swing points'',
                     ms_score = 0, ms_swingPoints = None\<rparr>
               else (let lastPoints = lastN 4 swingPoints;
                         highs = map sp_price (filter (\<lambda>p. sp_type p = ''HIGH'') lastPoints);
                         lows = map sp_price (filter (\<lambda>p. sp_type p = ''LOW'') lastPoints);
                         shown = Some (lastN 4 swingPoints)
                     in if length highs \<ge> 2 \<and> length lows \<ge> 2
                        then (let isHH = highs ! (length highs - 1) > highs ! (length highs - 2);
                                  isHL = lows ! (length lows - 1) > lows ! (length lows - 2);
                                  isLH = highs ! (length highs - 1) < highs ! (length highs - 2);
                                  isLL = lows ! (length lows - 1) < lows ! (length lows - 2)
                              in if isHH \<and> isHL
                                 then \<lparr>ms_trend = ''UPTREND'', ms_pattern = ''HH+HL'',
                                       ms_score = 2, ms_swingPoints = shown\<rparr>
                                 else if isLH \<and> isLL
                                 then \<lparr>ms_trend = ''DOWNTREND'', ms_pattern = ''LH+LL'',
                                       ms_score = - 2, ms_swingPoints = shown\<rparr>
                                 else if isHH \<and> isLL
                                 then \<lparr>ms_trend = ''SIDEWAYS'', ms_pattern = ''HH+LL (Expanding)'',
                                       ms_score = 0, ms_swingPoints = shown\<rparr>
                                 else if isLH \<and> isHL
                                 then \<lparr>ms_trend = ''SIDEWAYS'', ms_pattern = ''LH+HL (Contracting)'',
                                       ms_score = 0, ms_swingPoints = shown\<rparr>
                                 else \<lparr>ms_trend = ''SIDEWAYS'', ms_pattern = [],
                                       ms_score = 0, ms_swingPoints = shown\<rparr>)
                        else \<lparr>ms_trend = ''SIDEWAYS'', ms_pattern = [],
                              ms_score = 0, ms_swingPoints = shown\<rparr>)))"

record volume_confirmation =
  vc_ratio :: jsnum
  vc_signal :: string
  vc_score :: int
  vc_description :: "msg option"
  vc_avgVolume :: "real option"
  vc_currentVolume :: "real option"

definition analyzeVolumeConfirmation :: "candle list \<Rightarrow> real list \<Rightarrow> volume_confirmation" where
  "analyzeVolumeConfirmation candles volumes =
     (if length volumes < 20
      then \<lparr>vc_ratio = Fin 0, vc_signal = ''N/A'', vc_score = 0, vc_description = None,
            vc_avgVolume = None, vc_currentVolume = None\<rparr>
      else (let recentVolumes = lastN 20 volumes;
                avgVolume = sum_list recentVolumes / real (length recentVolumes);
                currentVolume = volumes ! (length volumes - 1);
                ratio = jsdiv currentVolume avgVolume
            in if jsge ratio 2
               then \<lparr>vc_ratio = jsToFixed 2 ratio, vc_signal = ''VERY_HIGH'', vc_score = 2,
                     vc_description = Some (Msg ''very high volume'' []),
                     vc_avgVolume = Some avgVolume, vc_currentVolume = Some currentVolume\<rparr>
               else if jsge ratio 1.5
               then \<lparr>vc_ratio = jsToFixed 2 ratio, vc_signal = ''HIGH'', vc_score = 1,
                     vc_description = Some (Msg ''high volume'' []),
                     vc_avgVolume = Some avgVolume, vc_currentVolume = Some currentVolume\<rparr>
               else if jslt ratio 0.5
               then \<lparr>vc_ratio = jsToFixed 2 ratio, vc_signal = ''LOW'', vc_score = - 1,
                     vc_description = Some (Msg ''low volume'' []),
                     vc_avgVolume = Some avgVolume, vc_currentVolume = Some currentVolume\<rparr>
               else \<lparr>vc_ratio = jsToFixed 2 ratio, vc_signal = ''NORMAL'', vc_score = 0,
                     vc_description = Some (Msg ''normal volume'' []),
                     vc_avgVolume = Some avgVolume, vc_currentVolume = Some currentVolume\<rparr>))"

record zone =
  z_high :: real
  z_low :: real
  z_index :: nat

record order_block =
  ob_type :: string
  ob_zone :: "zone option"
  ob_score :: int
  ob_description :: "msg option"

definition bullishOBAt :: "candle list \<Rightarrow> real \<Rightarrow> nat \<Rightarrow> zone option \<Rightarrow> zone option" where
  \<comment> \<open>one iteration of the first loop: a later match overwrites an earlier one\<close>
  "bullishOBAt rc currentPrice i ob =
     (let candle = rc ! i; nextCandles = slice rc (i + 1) (i + 4)
      in if c_close candle < c_open candle
         then (let moveUp = list_ex (\<lambda>c. c_close c > c_high candle * 1.01) nextCandles
               in if moveUp \<and> currentPrice > c_low candle \<and> currentPrice < c_high candle * 1.05
                  then Some \<lparr>z_high = c_high candle, z_low = c_low candle, z_index = i\<rparr>
                  else ob)
         else ob)"

definition bearishOBAt :: "candle list \<Rightarrow> real \<Rightarrow> nat \<Rightarrow> zone option \<Rightarrow> zone option" where
  "bearishOBAt rc currentPrice i ob =
     (let candle = rc ! i; nextCandles = slice rc (i + 1) (i + 4)
      in if c_close candle > c_open candle
         then (let moveDown = list_ex (\<lambda>c. c_close c < c_low candle * 0.99) nextCandles
               in if moveDown \<and> currentPrice < c_high candle \<and> currentPrice > c_low candle * 0.95
                  then Some \<lparr>z_high = c_high candle, z_low = c_low candle, z_index = i\<rparr>
                  else ob)
         else ob)"

definition findOrderBlocks :: "candle list \<Rightarrow> real \<Rightarrow> order_block" where
  "findOrderBlocks candles currentPrice =
     (if length candles < 30
      then \<lparr>ob_type = ''NONE'', ob_zone = None, ob_score = 0, ob_description = None\<rparr>
      else (let recentCandles = lastN 30 candles;
                bullishOB = fold (bullishOBAt recentCandles currentPrice)
                              [5..<length recentCandles - 3] None;
                bearishOB = fold (bearishOBAt recentCandles currentPrice)
                              [5..<length recentCandles - 3] None
            in case bullishOB of
                 Some bull \<Rightarrow>
                   (case bearishOB of
                      None \<Rightarrow> \<lparr>ob_type = ''BULLISH'', ob_zone = bullishOB, ob_score = 2,
                               ob_description = Some (Msg ''price inside bullish order block'' [])\<rparr>
                    | Some bear \<Rightarrow>
                        if z_index bull > z_index bear
                        then \<lparr>ob_type = ''BULLISH'', ob_zone = bullishOB, ob_score = 2,
                              ob_description = Some (Msg ''price inside bullish order block'' [])\<rparr>
                        else \<lparr>ob_type = ''BEARISH'', ob_zone = bearishOB, ob_score = - 2,
                              ob_description = Some (Msg ''price inside bearish order block'' [])\<rparr>)
               | None \<Rightarrow>
                   (case bearishOB of
                      Some bear \<Rightarrow>
                        \<lparr>ob_type = ''BEARISH'', ob_zone = bearishOB, ob_score = - 2,
                         ob_description = Some (Msg ''price inside bearish order block'' [])\<rparr>
                    | None \<Rightarrow>
                        \<lparr>ob_type = ''NONE'', ob_zone = None, ob_score = 0,
                         ob_description = Some (Msg ''no order block nearby'' [])\<rparr>)))"

record pullback =
  pb_type :: string
  pb_depth :: real
  pb_score :: int
  pb_description :: "msg option"

definition pullbackFromHigh :: "real \<Rightarrow> pullback" where
  \<comment> \<open>the price fell from the recent high: \<open>depth\<close> in percent of the range\<close>
  "pullbackFromHigh depth =
     (if depth \<ge> 38.2 \<and> depth \<le> 61.8
      then \<lparr>pb_type = ''BULLISH_PULLBACK'', pb_depth = toFixed 1 depth, pb_score = 2,
            pb_description = Some (Msg ''pullback into Fibonacci zone, supports LONG''
                                     [ANum (toFixed 1 depth)])\<rparr>
      else if depth \<ge> 23.6 \<and> depth < 38.2
      then \<lparr>pb_type = ''SHALLOW_PULLBACK'', pb_depth = toFixed 1 depth, pb_score = 1,
            pb_description = Some (Msg ''shallow pullback'' [ANum (toFixed 1 depth)])\<rparr>
      else if depth > 61.8
      then \<lparr>pb_type = ''DEEP_PULLBACK'', pb_depth = toFixed 1 depth, pb_score = - 1,
            pb_description = Some (Msg ''deep pullback, beware of reversal''
                                     [ANum (toFixed 1 depth)])\<rparr>
      else \<lparr>pb_type = ''NONE'', pb_depth = toFixed 1 depth, pb_score = 0,
            pb_description = Some (Msg [] [])\<rparr>)"

definition pullbackFromLow :: "real \<Rightarrow> pullback" where
  \<comment> \<open>the price rose from the recent low\<close>
  "pullbackFromLow depth =
     (if depth \<ge> 38.2 \<and> depth \<le> 61.8
      then \<lparr>pb_type = ''BEARISH_PULLBACK'', pb_depth = toFixed 1 depth, pb_score = - 2,
            pb_description = Some (Msg ''pullback into Fibonacci zone, supports SHORT''
                                     [ANum (toFixed 1 depth)])\<rparr>
      else if depth \<ge> 23.6 \<and> depth < 38.2
      then \<lparr>pb_type = ''SHALLOW_PULLBACK'', pb_depth = toFixed 1 depth, pb_score = - 1,
            pb_description = Some (Msg ''shallow pullback'' [ANum (toFixed 1 depth)])\<rparr>
      else if depth > 61.8
      then \<lparr>pb_type = ''DEEP_PULLBACK'', pb_depth = toFixed 1 depth, pb_score = 1,
            pb_description = Some (Msg ''deep pullback, reversal possible''
                                     [ANum (toFixed 1 depth)])\<rparr>
      else \<lparr>pb_type = ''NONE'', pb_depth = toFixed 1 depth, pb_score = 0,
            pb_description = Some (Msg [] [])\<rparr>)"

definition analyzePullback :: "candle list \<Rightarrow> real \<Rightarrow> pullback" where
  "analyzePullback candles currentPrice =
     (if length candles < 20
      then \<lparr>pb_type = ''NONE'', pb_depth = 0, pb_score = 0, pb_description = None\<rparr>
      else (let recentCandles = lastN 20 candles;
                recentHigh = maxOf (map c_high recentCandles);
                recentLow = minOf (map c_low recentCandles);
                range = recentHigh - recentLow
            in if range = 0
               then \<lparr>pb_type = ''NONE'', pb_depth = 0, pb_score = 0, pb_description = None\<rparr>
               else (let distanceFromHigh = recentHigh - currentPrice;
                         distanceFromLow = currentPrice - recentLow
                     in if distanceFromHigh > distanceFromLow
                        then pullbackFromHigh (distanceFromHigh / range * 100)
                        else pullbackFromLow (distanceFromLow / range * 100))))"

record smart_money =
  sm_marketStructure :: market_structure
  sm_volumeConfirmation :: volume_confirmation
  sm_orderBlock :: order_block
  sm_pullback :: pullback

definition analyzeSmartMoney :: "candle list \<Rightarrow> real list \<Rightarrow> real \<Rightarrow> smart_money" where
  "analyzeSmartMoney candles volumes currentPrice =
     \<lparr>sm_marketStructure = analyzeMarketStructure candles,
      sm_volumeConfirmation = analyzeVolumeConfirmation candles volumes,
      sm_orderBlock = findOrderBlocks candles currentPrice,
      sm_pullback = analyzePullback candles currentPrice\<rparr>"

section \<open>The signal engine: support and resistance\<close>

record sr_levels =
  sr_supports :: "real list"
  sr_resistances :: "real list"
  nearestSupport :: "real option"
  nearestResistance :: "real option"
  supportDistance :: "jsnum option"
  resistanceDistance :: "jsnum option"

definition isSwingLow :: "candle list \<Rightarrow> nat \<Rightarrow> bool" where
  \<comment> \<open>no \<open>j\<close> in 1..3 clears the flag: the low is strictly below the 3 lows on each side\<close>
  "isSwingLow rc i =
     list_all (\<lambda>j. \<not> (c_low (rc ! i) \<ge> c_low (rc ! (i - j)) \<or>
                        c_low (rc ! i) \<ge> c_low (rc ! (i + j)))) [1..<4]"

definition isSwingHigh :: "candle list \<Rightarrow> nat \<Rightarrow> bool" where
  "isSwingHigh rc i =
     list_all (\<lambda>j. \<not> (c_high (rc ! i) \<le> c_high (rc ! (i - j)) \<or>
                        c_high (rc ! i) \<le> c_high (rc ! (i + j)))) [1..<4]"

text \<open>
  The two search loops keep the nearest level found so far and its distance; the
  distance starts at \<open>Infinity\<close>, which is \<open>None\<close> here.
\<close>

definition supportStep ::
  "real \<Rightarrow> real \<Rightarrow> real option \<times> real option \<Rightarrow> real option \<times> real option" where
  "supportStep currentPrice s st =
     (if s < currentPrice
      then (let dist = currentPrice - s
            in if (case snd st of None \<Rightarrow> True | Some minSupportDist \<Rightarrow> dist < minSupportDist)
               then (Some s, Some dist) else st)
      else st)"

definition resistanceStep ::
  "real \<Rightarrow> real \<Rightarrow> real option \<times> real option \<Rightarrow> real option \<times> real option" where
  "resistanceStep currentPrice r st =
     (if r > currentPrice
      then (let dist = r - currentPrice
            in if (case snd st of None \<Rightarrow> True | Some minResistanceDist \<Rightarrow> dist < minResistanceDist)
               then (Some r, Some dist) else st)
      else st)"

definition findSupportResistance :: "candle list \<Rightarrow> real \<Rightarrow> sr_levels" where
  "findSupportResistance candles currentPrice =
     (if length candles < 50
      then \<lparr>sr_supports = [], sr_resistances = [], nearestSupport = None,
            nearestResistance = None, supportDistance = None, resistanceDistance = None\<rparr>
      else (let recentCandles = lastN 50 candles;
                idx = [3..<length recentCandles - 3];
                swingLows = map (\<lambda>i. c_low (recentCandles ! i))
                              (filter (isSwingLow recentCandles) idx);
                swingHighs = map (\<lambda>i. c_high (recentCandles ! i))
                               (filter (isSwingHigh recentCandles) idx);
                last20 = lastN 20 candles;
                recentLow = minOf (map c_low last20);
                recentHigh = maxOf (map c_high last20);
                supports = (if recentLow \<in> set swingLows then swingLows
                            else swingLows @ [recentLow]);
                resistances = (if recentHigh \<in> set swingHighs then swingHighs
                               else swingHighs @ [recentHigh]);
                foundSupport = fst (fold (supportStep currentPrice) supports (None, None));
                foundResistance = fst (fold (resistanceStep currentPrice) resistances (None, None));
                support = (if \<not> truthy foundSupport then currentPrice * 0.97
                           else numOf foundSupport);
                resistance = (if \<not> truthy foundResistance then currentPrice * 1.03
                              else numOf foundResistance)
            in \<lparr>sr_supports = rev (sort supports),
                sr_resistances = sort resistances,
                nearestSupport = Some support,
                nearestResistance = Some resistance,
                supportDistance =
                  Some (jsToFixed 2 (jstimes (jsdiv (currentPrice - support) currentPrice) 100)),
                resistanceDistance =
                  Some (jsToFixed 2 (jstimes (jsdiv (resistance - currentPrice) currentPrice) 100))\<rparr>))"

section \<open>The signal engine: composing the signal\<close>

datatype action = LONG | SHORT | WAIT

record signal =
  action :: action
  s_confidence :: real
  s_strength :: string
  entry :: real
  stopLoss :: "real option"
  takeProfit :: "real option"
  riskPercent :: "jsnum option"
  rewardPercent :: "jsnum option"
  riskReward :: "jsnum option"
  leverage :: int
  leverageRisk :: risk_level
  s_atr :: "real option"
  s_atrPercent :: "jsnum option"
  s_totalScore :: int
  s_averageScore :: real
  reasons :: "msg list"

text \<open>
  \<open>generateSignal\<close> assigns its local variables \<open>action\<close>, \<open>confidence\<close>,
  \<open>stopLoss\<close>, \<open>takeProfit\<close> and \<open>reason\<close> in one of three branches and then derives
  the risk figures and the leverage from them. A \<open>draft\<close> holds these variables, with
  the stop-loss and take-profit not yet rounded.
\<close>

record draft =
  d_action :: action
  d_confidence :: real
  d_stopLoss :: "real option"
  d_takeProfit :: "real option"
  d_reason :: "msg list"

definition initialDraft :: draft where
  "initialDraft = \<lparr>d_action = WAIT, d_confidence = 0, d_stopLoss = None, d_takeProfit = None,
                    d_reason = []\<rparr>"

definition filterRejections :: "config \<Rightarrow> analysis \<Rightarrow> msg list" where
  \<comment> \<open>filters 1 to 3: sideways market, minimum score, confluence\<close>
  "filterRejections cfg an =
     (let absScore = \<bar>totalScore an\<bar>;
          confluence = (if totalScore an > 0 then bullishConfluence an else bearishConfluence an)
      in (if isSideway an
          then [Msg ''rejected: sideways market, ADX below threshold''
                  [ANum (sidewaysADXThreshold cfg)]]
          else []) @
         (if real_of_int absScore < minScoreForSignal cfg
          then [Msg ''rejected: score not strong enough''
                  [AInt (totalScore an), ANum (minScoreForSignal cfg)]]
          else []) @
         (if real_of_int confluence < minConfluence cfg
          then [Msg ''rejected: too few indicators agree''
                  [AInt confluence, ANum (minConfluence cfg)]]
          else []))"

definition getLongReasons :: "analysis \<Rightarrow> msg list" where
  "getLongReasons an =
     map a_description
       (filter (\<lambda>a. a_score a > 0) [an_rsi an, an_macd an, an_ema an, an_bb an, an_trend an])"

definition getShortReasons :: "analysis \<Rightarrow> msg list" where
  "getShortReasons an =
     map a_description
       (filter (\<lambda>a. a_score a < 0) [an_rsi an, an_macd an, an_ema an, an_bb an, an_trend an])"

definition levelReasons :: "sr_levels \<Rightarrow> msg list" where
  "levelReasons srLevels =
     [Msg ''support'' [AOpt (map_option (toFixed 4) (nearestSupport srLevels))],
      Msg ''resistance'' [AOpt (map_option (toFixed 4) (nearestResistance srLevels))]]"

definition longSetup :: "analysis \<Rightarrow> real \<Rightarrow> sr_levels \<Rightarrow> bool \<Rightarrow> draft" where
  "longSetup an currentPrice srLevels nearSupport =
     (let total = totalScore an; bull = bullishConfluence an;
          support = nearestSupport srLevels; resistance = nearestResistance srLevels;
          confidence0 = min (real_of_int total / 10 * 100 + 30 + real_of_int bull * 5) 95;
          confidence = (if nearSupport then min (confidence0 + 10) 95 else confidence0);
          stopLoss0 = numOf support * 0.997;
          minSLDistance = currentPrice * 0.015;
          stopLoss = (if currentPrice - stopLoss0 < minSLDistance
                      then currentPrice - minSLDistance else stopLoss0);
          slDistance = currentPrice - stopLoss;
          takeProfit0 = (if truthy resistance \<and> numOf resistance > currentPrice * 1.005
                         then numOf resistance * 0.998
                         else currentPrice + slDistance * 1.5);
          takeProfit = (if takeProfit0 \<le> currentPrice * 1.005
                        then currentPrice + slDistance * 1.5 else takeProfit0);
          headline = (if nearSupport then Msg ''LONG at support'' []
                      else if total \<ge> 7 \<and> bull \<ge> 4 then Msg ''very strong LONG signal'' []
                      else Msg ''good LONG signal'' [])
      in \<lparr>d_action = LONG, d_confidence = confidence, d_stopLoss = Some stopLoss,
          d_takeProfit = Some takeProfit,
          d_reason = headline # getLongReasons an
                     @ [Msg ''confluence: bullish indicators out of 5'' [AInt bull]]
                     @ levelReasons srLevels\<rparr>)"

definition shortSetup :: "analysis \<Rightarrow> real \<Rightarrow> sr_levels \<Rightarrow> bool \<Rightarrow> draft" where
  "shortSetup an currentPrice srLevels nearResistance =
     (let total = totalScore an; bear = bearishConfluence an;
          support = nearestSupport srLevels; resistance = nearestResistance srLevels;
          confidence0 = min (real_of_int \<bar>total\<bar> / 10 * 100 + 30 + real_of_int bear * 5) 95;
          confidence = (if nearResistance then min (confidence0 + 10) 95 else confidence0);
          stopLoss0 = numOf resistance * 1.003;
          minSLDistanceShort = currentPrice * 0.015;
          stopLoss = (if stopLoss0 - currentPrice < minSLDistanceShort
                      then currentPrice + minSLDistanceShort else stopLoss0);
          slDistanceShort = stopLoss - currentPrice;
          takeProfit0 = (if truthy support \<and> numOf support < currentPrice * 0.995
                         then numOf support * 1.002
                         else currentPrice - slDistanceShort * 1.5);
          takeProfit = (if takeProfit0 \<ge> currentPrice * 0.995
                        then currentPrice - slDistanceShort * 1.5 else takeProfit0);
          headline = (if nearResistance then Msg ''SHORT at resistance'' []
                      else if total \<le> - 7 \<and> bear \<ge> 4 then Msg ''very strong SHORT signal'' []
                      else Msg ''good SHORT signal'' [])
      in \<lparr>d_action = SHORT, d_confidence = confidence, d_stopLoss = Some stopLoss,
          d_takeProfit = Some takeProfit,
          d_reason = headline # getShortReasons an
                     @ [Msg ''confluence: bearish indicators out of 5'' [AInt bear]]
                     @ levelReasons srLevels\<rparr>)"

definition waitSetup :: "analysis \<Rightarrow> msg list \<Rightarrow> draft" where
  "waitSetup an rejectionReasons =
     \<lparr>d_action = WAIT, d_confidence = 0, d_stopLoss = None, d_takeProfit = None,
      d_reason = [Msg ''no signal, stay out of the market'' []]
                 @ (if rejectionReasons \<noteq> [] then rejectionReasons
                    else [Msg ''indicators have not converged strongly enough'' []])
                 @ [Msg ''score, bullish, bearish''
                      [AInt (totalScore an), AInt (bullishConfluence an),
                       AInt (bearishConfluence an)]]
                 @ (if \<not> hasTrend an \<and> \<not> isSideway an
                    then [Msg ''weak trend, wait for ADX above 25'' []] else [])\<rparr>"

definition jsoTruthy :: "jsnum option \<Rightarrow> bool" where
  "jsoTruthy v = (case v of None \<Rightarrow> False | Some x \<Rightarrow> jstruthy x)"

definition calculatedLeverage :: "jsnum \<Rightarrow> int" where
  \<comment> \<open>\<open>Math.floor(25 / riskPercent)\<close> for a truthy \<open>riskPercent\<close>, that is a nonzero or
      infinite one: the quotient is finite then, and the last case is not reached\<close>
  "calculatedLeverage r = (case jsquot (Fin 25) r of Fin q \<Rightarrow> \<lfloor>q\<rfloor> | _ \<Rightarrow> 0)"

definition desiredLeverage :: "int \<Rightarrow> int \<Rightarrow> int" where
  "desiredLeverage absScore confluenceScore =
     (if absScore \<ge> 7 \<and> confluenceScore \<ge> 4 then 15
      else if absScore \<ge> 5 \<and> confluenceScore \<ge> 3 then 12
      else if absScore \<ge> 4 \<and> confluenceScore \<ge> 3 then 10
      else 8)"

definition sizePosition :: "analysis \<Rightarrow> jsnum \<Rightarrow> int \<times> risk_level \<times> msg list" where
  \<comment> \<open>the leverage block, entered with a truthy \<open>riskPercent\<close>: the suggested leverage, its
      risk class and the two reasons it appends\<close>
  "sizePosition an risk =
     (let absScore = \<bar>totalScore an\<bar>;
          confluenceScore = (if totalScore an > 0 then bullishConfluence an
                             else bearishConfluence an);
          suggestedLeverage =
            min (max (min (desiredLeverage absScore confluenceScore)
                          (calculatedLeverage risk)) 5) 15;
          accountRiskPercent = jstimes risk (real_of_int suggestedLeverage);
          leverageRisk = (if jsge accountRiskPercent 35 then HIGH
                          else if jsge accountRiskPercent 25 then MODERATE else LOW)
      in (suggestedLeverage, leverageRisk,
          [Msg ''leverage'' [AInt suggestedLeverage, ARisk leverageRisk],
           Msg ''stop-loss percent times leverage is the loss if stopped out''
             [AJs (jsToFixed 2 risk), AInt suggestedLeverage,
              AJs (jsToFixed 0 accountRiskPercent)]]))"

definition percentOf :: "real \<Rightarrow> real \<Rightarrow> jsnum" where
  \<comment> \<open>\<open>Math.abs(delta / currentPrice * 100)\<close>\<close>
  "percentOf delta currentPrice = jsabs (jstimes (jsdiv delta currentPrice) 100)"

definition finishSignal :: "analysis \<Rightarrow> real \<Rightarrow> real option \<Rightarrow> draft \<Rightarrow> signal" where
  "finishSignal an currentPrice atr d =
     (let stopLoss = d_stopLoss d; takeProfit = d_takeProfit d;
          riskPercent = (if truthy stopLoss
                         then Some (percentOf (currentPrice - numOf stopLoss) currentPrice)
                         else None);
          rewardPercent = (if truthy takeProfit
                           then Some (percentOf (numOf takeProfit - currentPrice) currentPrice)
                           else None);
          sizing = (case riskPercent of
                      Some r \<Rightarrow> if d_action d \<noteq> WAIT \<and> jstruthy r then sizePosition an r
                                else (1, LOW, [])
                    | None \<Rightarrow> (1, LOW, []))
      in \<lparr>action = d_action d,
          s_confidence = toFixed 1 (d_confidence d),
          s_strength = strength an,
          entry = currentPrice,
          stopLoss = (if truthy stopLoss then Some (toFixed 2 (numOf stopLoss)) else None),
          takeProfit = (if truthy takeProfit then Some (toFixed 2 (numOf takeProfit)) else None),
          riskPercent = (if jsoTruthy riskPercent then map_option (jsToFixed 2) riskPercent
                         else None),
          rewardPercent = (if jsoTruthy rewardPercent then map_option (jsToFixed 2) rewardPercent
                           else None),
          riskReward = (case (riskPercent, rewardPercent) of
                          (Some risk, Some reward) \<Rightarrow>
                            if jstruthy risk \<and> jstruthy reward
                            then Some (jsToFixed 2 (jsquot reward risk)) else None
                        | _ \<Rightarrow> None),
          leverage = fst sizing,
          leverageRisk = fst (snd sizing),
          s_atr = (if truthy atr then Some (toFixed 2 (numOf atr)) else None),
          s_atrPercent = (if truthy atr
                          then Some (jsToFixed 2 (jstimes (jsdiv (numOf atr) currentPrice) 100))
                          else None),
          s_totalScore = totalScore an,
          s_averageScore = toFixed 2 (averageScore an),
          reasons = d_reason d @ snd (snd sizing)\<rparr>)"

definition generateSignal ::
  "config \<Rightarrow> analysis \<Rightarrow> real \<Rightarrow> candle list \<Rightarrow> indicators \<Rightarrow> signal" where
  "generateSignal cfg an currentPrice candles ind =
     (let atr = l_atr (getLatestIndicators ind);
          rejectionReasons = filterRejections cfg an;
          passAllFilters = (rejectionReasons = []);
          srLevels = findSupportResistance candles currentPrice;
          support = nearestSupport srLevels; resistance = nearestResistance srLevels;
          nearSupport = (truthy support \<and>
                         jslt (jsdiv (currentPrice - numOf support) currentPrice) 0.015);
          nearResistance = (truthy resistance \<and>
                            jslt (jsdiv (numOf resistance - currentPrice) currentPrice) 0.015);
          d = (if real_of_int (totalScore an) \<ge> minScoreForSignal cfg \<and> passAllFilters \<and>
                  real_of_int (bullishConfluence an) \<ge> minConfluence cfg
               then (let rejectionReasons' =
                           rejectionReasons @
                           (if \<not> truthy support
                            then [Msg ''no clear support to place the stop-loss'' []] else [])
                     in if rejectionReasons' = []
                        then longSetup an currentPrice srLevels nearSupport
                        else initialDraft)
               else if real_of_int (totalScore an) \<le> - minScoreForSignal cfg \<and> passAllFilters \<and>
                       real_of_int (bearishConfluence an) \<ge> minConfluence cfg
               then (let rejectionReasons' =
                           rejectionReasons @
                           (if \<not> truthy resistance
                            then [Msg ''no clear resistance to place the stop-loss'' []] else [])
                     in if rejectionReasons' = []
                        then shortSetup an currentPrice srLevels nearResistance
                        else initialDraft)
               else waitSetup an rejectionReasons)
      in finishSignal an currentPrice atr d)"

section \<open>The signal engine: analyze\<close>

datatype analyze_error = InsufficientData

record analysis_result =
  r_timestamp :: string
  r_symbol :: string
  r_currentPrice :: real
  r_indicators :: latest
  r_analysis :: analysis
  r_signal :: signal
  r_marketStructure :: market_structure
  r_volumeConfirmation :: volume_confirmation
  r_orderBlock :: order_block
  r_pullback :: pullback

text \<open>
  \<open>analyze\<close> reads the clock once, for the \<open>timestamp\<close> field; the time read is the
  parameter \<open>now\<close>. With fewer than 50 candles it returns the error object at once.
\<close>

definition analyze ::
  "library_ADX \<Rightarrow> config \<Rightarrow> string \<Rightarrow> candle list \<Rightarrow> analyze_error + analysis_result" where
  "analyze libraryADX cfg now candles =
     (if length candles < 50 then Inl InsufficientData
      else (let closes = map c_close candles;
                volumes = map c_volume candles;
                indicators = calculateIndicators libraryADX cfg candles closes volumes;
                currentPrice = closes ! (length closes - 1);
                latestIndicators = getLatestIndicators indicators;
                analysis = analyzeIndicators cfg latestIndicators currentPrice;
                smartMoney = analyzeSmartMoney candles volumes currentPrice;
                signal = generateSignal cfg analysis currentPrice candles indicators
            in Inr \<lparr>r_timestamp = now,
                    r_symbol = (case c_symbol (candles ! 0) of
                                  None \<Rightarrow> ''UNKNOWN''
                                | Some s \<Rightarrow> if s = [] then ''UNKNOWN'' else s),
                    r_currentPrice = currentPrice,
                    r_indicators = latestIndicators,
                    r_analysis = analysis,
                    r_signal = signal,
                    r_marketStructure = sm_marketStructure smartMoney,
                    r_volumeConfirmation = sm_volumeConfirmation smartMoney,
                    r_orderBlock = sm_orderBlock smartMoney,
                    r_pullback = sm_pullback smartMoney\<rparr>))"

section \<open>Sample inputs\<close>

text \<open>
  Concrete inputs at which the theorems below are instantiated: the engine built with no
  option set, a snapshot whose five scores are 3, 3, 1, 0 and - 1 for any price below
  1000, its variant with an ADX of 10, and a candle whose open, high and close are one
  price \<open>p\<close> with a low of \<open>lo\<close>.
\<close>

definition noOptions :: options where
  "noOptions =
     \<lparr>o_rsiPeriod = None, o_rsiOversold = None, o_rsiOverbought = None, o_macdFast = None,
      o_macdSlow = None, o_macdSignal = None, o_emaFast = None, o_emaSlow = None,
      o_emaTrend = None, o_ema200 = None, o_bbPeriod = None, o_bbStdDev = None,
      o_atrPeriod = None, o_atrMultiplierLong = None, o_atrMultiplierShort = None,
      o_adxPeriod = None, o_adxTrendThreshold = None, o_minScoreForSignal = None,
      o_minConfluence = None, o_sidewaysADXThreshold = None, o_riskRewardRatio = None,
      o_maxRiskPercent = None\<rparr>"

definition bullishSnapshot :: "real \<Rightarrow> latest" where
  "bullishSnapshot adx =
     \<lparr>l_rsi = \<lparr>rsi_current = Some 20, rsi_previous = Some 18\<rparr>,
      l_macd = \<lparr>m_macd = Some 2, m_signal = Some 1, m_histogram = Some 1,
                m_prevHistogram = Some (- 1)\<rparr>,
      l_ema = \<lparr>e_fast = Some 3000, e_slow = Some 2000, e_trend = Some 1000, e_ema200 = None\<rparr>,
      l_bb = \<lparr>b_upper = None, b_middle = None, b_lower = None\<rparr>,
      l_atr = None, l_adx = Some adx, l_volumeMA = None\<rparr>"

definition bullishAnalysis :: "real \<Rightarrow> real \<Rightarrow> analysis" where
  "bullishAnalysis adx currentPrice =
     analyzeIndicators (SignalEngine noOptions) (bullishSnapshot adx) currentPrice"

definition priceCandle :: "real \<Rightarrow> real \<Rightarrow> candle" where
  "priceCandle lo p =
     \<lparr>c_time = 0, c_open = p, c_high = p, c_low = lo, c_close = p, c_volume = 1,
      c_symbol = None\<rparr>"

definition sampleIndicators :: "candle list \<Rightarrow> indicators" where
  "sampleIndicators candles =
     calculateIndicators (Some ADX) (SignalEngine noOptions) candles (map c_close candles)
       (map c_volume candles)"

definition macdOnly :: "macd_series \<Rightarrow> indicators" where
  "macdOnly m =
     \<lparr>i_rsi = [], i_macd = m, i_emaFast = [], i_emaSlow = [], i_emaTrend = [], i_ema200 = [],
      i_bb = \<lparr>bb_upper = [], bb_middle = [], bb_lower = []\<rparr>, i_atr = [], i_adx = None,
      i_volumeMA = []\<rparr>"

section \<open>Properties of the moving averages\<close>

lemma length_SMA: "length (SMA data period) = length data"
  by (simp add: SMA_def)

lemma length_EMA_loop: "length (EMA_loop data period m e is) = length is"
  by (induction "is" arbitrary: e) (simp_all add: Let_def)

lemma length_EMA: "length (EMA data period) = length data"
  by (simp add: EMA_def length_EMA_loop)

lemma EMA_loop_constant:
  assumes "\<forall>i \<in> set is. i < k"
  shows "EMA_loop (replicate k P) period m P is
         = map (\<lambda>i. if i + 1 < period then None else Some P) is"
  using assms by (induction "is") (simp_all add: Let_def)

lemma sum_list_replicate_real: "sum_list (replicate n (P::real)) = real n * P"
  by (induction n) (simp_all add: algebra_simps)

text \<open>
  In exact arithmetic the seed of a constant series is its value, and the recurrence keeps
  it: every entry of \<open>EMA\<close> from index \<open>n - 1\<close> on is the value itself.
\<close>

lemma EMA_constant_series_in_reals:
  assumes "1 \<le> n" and "n \<le> k" and "n - 1 \<le> i" and "i < k"
  shows "EMA (replicate k P) n ! i = Some P"
proof -
  have seed: "sum_list (slice (replicate k P) 0 n) / real n = P"
    using assms(1,2) by (simp add: slice_def min_def sum_list_replicate_real)
  have "EMA (replicate k P) n = map (\<lambda>i. if i + 1 < n then None else Some P) [0..<k]"
    unfolding EMA_def seed by (simp add: EMA_loop_constant)
  then show ?thesis using assms(3,4) by simp
qed

subsection \<open>Rounding to a double\<close>

lemma binade_bounds_ge1:
  assumes "1 \<le> \<bar>x\<bar>"
  shows "2 powi binade x \<le> \<bar>x\<bar>" and "\<bar>x\<bar> < 2 powi (binade x + 1)"
proof -
  define m where "m = \<lfloor>\<bar>x\<bar>\<rfloor>"
  have m: "0 < m" using assms by (simp add: m_def)
  have b: "binade x = bitlen m - 1" using assms by (simp add: binade_def m_def)
  have b1: "1 \<le> bitlen m" using m by (simp add: bitlen_alt_def)
  from bitlen_bounds [OF m] have lo: "2 ^ nat (bitlen m - 1) \<le> m" and hi: "m < 2 ^ nat (bitlen m)"
    by auto
  have "(2::real) powi binade x = 2 ^ nat (bitlen m - 1)"
    using b b1 by (simp add: power_int_nonneg_exp)
  also have "\<dots> = of_int (2 ^ nat (bitlen m - 1))" by simp
  also have "\<dots> \<le> of_int m" using lo by (simp only: of_int_le_iff)
  also have "\<dots> \<le> \<bar>x\<bar>" by (simp add: m_def)
  finally show "2 powi binade x \<le> \<bar>x\<bar>" .
  have "m + 1 \<le> 2 ^ nat (bitlen m)" using hi by simp
  hence "of_int (m + 1) \<le> (of_int (2 ^ nat (bitlen m)) :: real)" by (simp only: of_int_le_iff)
  moreover have "\<bar>x\<bar> < of_int (m + 1)" by (simp add: m_def)
  ultimately have "\<bar>x\<bar> < of_int (2 ^ nat (bitlen m))" by linarith
  hence "\<bar>x\<bar> < 2 ^ nat (bitlen m)" by simp
  also have "\<dots> = 2 powi (binade x + 1)" using b b1 by (simp add: power_int_nonneg_exp)
  finally show "\<bar>x\<bar> < 2 powi (binade x + 1)" .
qed

lemma binade_bounds_lt1:
  assumes "x \<noteq> 0" "\<bar>x\<bar> < 1"
  shows "2 powi binade x \<le> \<bar>x\<bar>" and "\<bar>x\<bar> < 2 powi (binade x + 1)"
proof -
  define y where "y = 1 / \<bar>x\<bar>"
  define c where "c = \<lceil>y\<rceil>"
  define k where "k = bitlen (c - 1)"
  have ypos: "1 < y" using assms by (simp add: y_def)
  have c2: "0 < c - 1" using ypos by (simp add: c_def less_ceiling_iff)
  have b: "binade x = - k" using assms by (simp add: binade_def k_def c_def y_def)
  have k1: "1 \<le> k" using c2 by (simp add: k_def bitlen_alt_def)
  from bitlen_bounds [OF c2] have lo: "2 ^ nat (k - 1) \<le> c - 1" and hi: "c - 1 < 2 ^ nat k"
    by (auto simp: k_def)
  have "of_int (c - 1) < y" unfolding c_def by linarith
  moreover have "(of_int (2 ^ nat (k - 1)) :: real) \<le> of_int (c - 1)"
    using lo by (simp only: of_int_le_iff)
  ultimately have "of_int (2 ^ nat (k - 1)) < y" by linarith
  hence ylo: "2 ^ nat (k - 1) < y" by simp
  have "c \<le> 2 ^ nat k" using hi by simp
  hence "(of_int c :: real) \<le> of_int (2 ^ nat k)" by (simp only: of_int_le_iff)
  moreover have "y \<le> of_int c" unfolding c_def by linarith
  ultimately have "y \<le> of_int (2 ^ nat k)" by linarith
  hence yhi: "y \<le> 2 ^ nat k" by simp
  have xy: "\<bar>x\<bar> = 1 / y" using assms by (simp add: y_def)
  have "(2::real) powi binade x = 1 / 2 ^ nat k"
    using b k1 by (simp add: power_int_def field_simps)
  also have "\<dots> \<le> 1 / y" using yhi ypos by (simp add: frac_le)
  finally show "2 powi binade x \<le> \<bar>x\<bar>" using xy by simp
  have "1 / y < 1 / 2 ^ nat (k - 1)" using ylo by (simp add: frac_less2)
  also have "\<dots> = 2 powi (binade x + 1)"
    using b k1 by (simp add: power_int_def field_simps nat_diff_distrib)
  finally show "\<bar>x\<bar> < 2 powi (binade x + 1)" using xy by simp
qed

lemma binade_bounds:
  assumes "x \<noteq> 0"
  shows "2 powi binade x \<le> \<bar>x\<bar>" and "\<bar>x\<bar> < 2 powi (binade x + 1)"
  using assms binade_bounds_ge1 [of x] binade_bounds_lt1 [of x] by (cases "1 \<le> \<bar>x\<bar>"; simp)+

lemma two_powi_less_cancel:
  assumes "(2::real) powi a < 2 powi b"
  shows "a < b"
proof (rule ccontr)
  assume "\<not> a < b"
  hence "(2::real) powi b \<le> 2 powi a" by (intro power_int_increasing) auto
  with assms show False by linarith
qed

lemma binade_unique:
  assumes "2 powi e \<le> \<bar>x\<bar>" "\<bar>x\<bar> < 2 powi (e + 1)"
  shows "binade x = e"
proof -
  have "(0::real) < 2 powi e" by simp
  with assms(1) have "0 < \<bar>x\<bar>" by linarith
  hence x0: "x \<noteq> 0" by simp
  note b = binade_bounds [OF x0]
  have "(2::real) powi e < 2 powi (binade x + 1)" using assms(1) b(2) by linarith
  hence 1: "e < binade x + 1" by (rule two_powi_less_cancel)
  have "(2::real) powi binade x < 2 powi (e + 1)" using assms(2) b(1) by linarith
  hence 2: "binade x < e + 1" by (rule two_powi_less_cancel)
  from 1 2 show ?thesis by simp
qed

lemma binade_less:
  assumes "x \<noteq> 0" "\<bar>x\<bar> < 2 powi m"
  shows "binade x < m"
proof -
  have "(2::real) powi binade x < 2 powi m" using binade_bounds(1) [OF assms(1)] assms(2) by linarith
  thus ?thesis by (rule two_powi_less_cancel)
qed

lemma roundEven_of_int: "roundEven (of_int k) = k"
  by (simp add: roundEven_def)

lemma roundEven_bounds: "\<lfloor>y\<rfloor> \<le> roundEven y" "roundEven y \<le> \<lceil>y\<rceil>"
proof -
  show "\<lfloor>y\<rfloor> \<le> roundEven y" by (simp add: roundEven_def Let_def)
  have "y = of_int \<lfloor>y\<rfloor> \<or> \<lceil>y\<rceil> = \<lfloor>y\<rfloor> + 1" by (auto simp: ceiling_altdef)
  thus "roundEven y \<le> \<lceil>y\<rceil>"
    by (auto simp: roundEven_def Let_def)
qed

lemma roundEven_abs_le:
  assumes "\<bar>y\<bar> \<le> of_int m"
  shows "\<bar>roundEven y\<bar> \<le> m"
proof -
  have "y \<le> of_int m" "of_int (- m) \<le> y" using assms by simp_all
  hence "\<lceil>y\<rceil> \<le> m" "- m \<le> \<lfloor>y\<rfloor>" by (simp_all only: ceiling_le_iff le_floor_iff)
  with roundEven_bounds [of y] show ?thesis by linarith
qed

lemma quantum_pos: "0 < quantum x"
  by (simp add: quantum_def)

lemma roundDouble_zero: "roundDouble 0 = 0"
  by (simp add: roundDouble_def)

lemma roundDouble_exact_less:
  assumes "\<bar>p\<bar> < 2 ^ 53" "- 1074 \<le> j"
  shows "roundDouble (of_int p * 2 powi j) = of_int p * 2 powi j"
proof (cases "p = 0")
  case True
  thus ?thesis by (simp add: roundDouble_zero)
next
  case False
  let ?x = "of_int p * (2::real) powi j"
  define g where "g = max (binade ?x - 52) (- 1074)"
  have x0: "?x \<noteq> 0" using False by simp
  have "(of_int \<bar>p\<bar> :: real) < of_int (2 ^ 53)" using assms(1) by (simp only: of_int_less_iff)
  hence "\<bar>?x\<bar> < 2 ^ 53 * 2 powi j" by (simp add: abs_mult)
  also have "\<dots> = 2 powi (53 + j)" by (simp add: power_int_add)
  finally have "binade ?x < 53 + j" by (rule binade_less [OF x0])
  hence gj: "g \<le> j" using assms(2) by (simp add: g_def)
  have q: "quantum ?x = 2 powi g" by (simp add: quantum_def g_def)
  have "(2::real) powi j = 2 powi (j - g) * 2 powi g" by (simp flip: power_int_add)
  also have "(2::real) powi (j - g) = 2 ^ nat (j - g)" using gj by (simp add: power_int_nonneg_exp)
  finally have split: "(2::real) powi j = 2 ^ nat (j - g) * 2 powi g" .
  have "?x / 2 powi g = of_int (p * 2 ^ nat (j - g))" by (simp add: split)
  hence "roundEven (?x / quantum ?x) = p * 2 ^ nat (j - g)"
    by (simp only: q roundEven_of_int)
  hence "roundDouble ?x = of_int (p * 2 ^ nat (j - g)) * 2 powi g"
    using x0 by (simp only: roundDouble_def q if_False)
  also have "\<dots> = ?x" by (simp add: split)
  finally show ?thesis .
qed

lemma roundDouble_exact:
  assumes "\<bar>p\<bar> \<le> 2 ^ 53" "- 1074 \<le> j"
  shows "roundDouble (of_int p * 2 powi j) = of_int p * 2 powi j"
proof (cases "\<bar>p\<bar> = 2 ^ 53")
  case False
  hence "\<bar>p\<bar> < 2 ^ 53" using assms(1) by linarith
  thus ?thesis using assms(2) by (rule roundDouble_exact_less)
next
  case True
  hence "p = 2 ^ 53 \<or> p = - (2 ^ 53)" by linarith
  hence "p = 2 * (p div 2)" "\<bar>p div 2\<bar> < 2 ^ 53" by auto
  moreover have "real_of_int (2 * (p div 2)) * 2 powi j = of_int (p div 2) * 2 powi (j + 1)"
    by (simp add: power_int_add)
  moreover have "roundDouble (of_int (p div 2) * 2 powi (j + 1)) = of_int (p div 2) * 2 powi (j + 1)"
    by (rule roundDouble_exact_less) (use calculation(2) assms(2) in simp_all)
  ultimately show ?thesis by metis
qed

lemma roundDouble_mantissa:
  assumes "x \<noteq> 0"
  shows "\<bar>roundEven (x / quantum x)\<bar> \<le> 2 ^ 53"
proof -
  have "(2::real) powi (binade x - 52) \<le> quantum x"
    unfolding quantum_def by (intro power_int_increasing) simp_all
  moreover have "\<bar>x\<bar> < 2 powi (binade x + 1)" by (rule binade_bounds(2) [OF assms])
  moreover have "(2::real) powi (binade x + 1) = 2 ^ 53 * 2 powi (binade x - 52)"
    by (simp add: power_int_add power_int_diff)
  ultimately have "\<bar>x\<bar> \<le> 2 ^ 53 * quantum x" by simp
  hence "\<bar>x\<bar> / quantum x \<le> 2 ^ 53" using quantum_pos [of x] by (simp add: pos_divide_le_eq)
  hence "\<bar>x / quantum x\<bar> \<le> of_int (2 ^ 53)" using quantum_pos [of x] by simp
  thus ?thesis by (rule roundEven_abs_le)
qed

lemma roundDouble_idem: "roundDouble (roundDouble x) = roundDouble x"
proof (cases "x = 0")
  case True
  thus ?thesis by (simp add: roundDouble_zero)
next
  case False
  have "roundDouble x
        = of_int (roundEven (x / quantum x)) * 2 powi (max (binade x - 52) (- 1074))"
    using False by (simp add: roundDouble_def quantum_def)
  moreover have "roundDouble (of_int (roundEven (x / quantum x)) * 2 powi (max (binade x - 52) (- 1074)))
        = of_int (roundEven (x / quantum x)) * 2 powi (max (binade x - 52) (- 1074))"
    by (rule roundDouble_exact [OF roundDouble_mantissa [OF False]]) simp
  ultimately show ?thesis by simp
qed

lemma toDouble_exact:
  assumes "roundDouble x = x" "\<bar>x\<bar> < overflowThreshold"
  shows "toDouble x = Fin x"
  using assms by (auto simp: toDouble_def Let_def)

lemma toDouble_Fin:
  assumes "toDouble x = Fin y"
  shows "roundDouble y = y" and "\<bar>y\<bar> < overflowThreshold"
proof -
  have y: "y = roundDouble x"
    and b: "\<not> overflowThreshold \<le> roundDouble x" "\<not> roundDouble x \<le> - overflowThreshold"
    using assms by (auto simp: toDouble_def Let_def split: if_splits)
  show "roundDouble y = y" by (simp add: y roundDouble_idem)
  show "\<bar>y\<bar> < overflowThreshold" using b unfolding y by linarith
qed

lemma divD_Fin:
  assumes "divD s d = Fin y"
  shows "toDouble y = Fin y"
proof (cases s)
  case (Fin a)
  show ?thesis
  proof (cases "d = 0")
    case True
    hence "a = 0 \<and> False" using assms Fin by (auto simp: jsdiv_def split: if_splits)
    thus ?thesis by simp
  next
    case False
    hence "toDouble (a / d) = Fin y" using assms Fin by simp
    from toDouble_Fin [OF this] show ?thesis by (rule toDouble_exact)
  qed
qed (use assms in \<open>auto split: if_splits\<close>)

lemma roundDouble_eval:
  assumes "2 powi e \<le> \<bar>x\<bar>" "\<bar>x\<bar> < 2 powi (e + 1)" "- 1022 \<le> e"
  shows "roundDouble x = of_int (roundEven (x / 2 powi (e - 52))) * 2 powi (e - 52)"
proof -
  have "(0::real) < 2 powi e" by simp
  with assms(1) have "0 < \<bar>x\<bar>" by linarith
  hence "x \<noteq> 0" by simp
  moreover have "max (e - 52) (- 1074) = e - 52" using assms(3) by simp
  ultimately show ?thesis
    by (simp add: roundDouble_def quantum_def binade_unique [OF assms(1,2)])
qed

lemma roundDouble_abs_le:
  assumes "\<bar>x\<bar> < 2 powi m" "- 1021 \<le> m"
  shows "\<bar>roundDouble x\<bar> \<le> 2 powi m"
proof (cases "x = 0")
  case True
  thus ?thesis by (simp add: roundDouble_zero)
next
  case False
  have "binade x < m" by (rule binade_less [OF False assms(1)])
  hence "max (binade x - 52) (- 1074) \<le> m - 53" using assms(2) by simp
  hence "quantum x \<le> 2 powi (m - 53)"
    unfolding quantum_def by (intro power_int_increasing) simp_all
  moreover have "\<bar>real_of_int (roundEven (x / quantum x))\<bar> \<le> 2 ^ 53"
  proof -
    have "real_of_int \<bar>roundEven (x / quantum x)\<bar> \<le> of_int (2 ^ 53)"
      using roundDouble_mantissa [OF False] by (simp only: of_int_le_iff)
    thus ?thesis by simp
  qed
  ultimately have "\<bar>real_of_int (roundEven (x / quantum x))\<bar> * quantum x \<le> 2 ^ 53 * 2 powi (m - 53)"
    using quantum_pos [of x] by (intro mult_mono) simp_all
  moreover have "(2::real) ^ 53 * 2 powi (m - 53) = 2 powi m" by (simp add: power_int_diff)
  moreover have "\<bar>roundDouble x\<bar> = \<bar>real_of_int (roundEven (x / quantum x))\<bar> * quantum x"
    using False quantum_pos [of x] by (simp add: roundDouble_def abs_mult)
  ultimately show ?thesis by simp
qed

lemma toDouble_eval:
  assumes "\<bar>x\<bar> < 2 powi m" "- 1021 \<le> m" "m \<le> 1023"
  shows "toDouble x = Fin (roundDouble x)"
proof -
  have "\<bar>roundDouble x\<bar> \<le> 2 powi m" by (rule roundDouble_abs_le [OF assms(1,2)])
  also have "(2::real) powi m \<le> 2 powi 1023" using assms(3) by (intro power_int_increasing) simp_all
  also have "(2::real) powi 1023 < overflowThreshold"
    by (simp add: overflowThreshold_def)
  finally have "\<bar>roundDouble x\<bar> < overflowThreshold" .
  thus ?thesis by (auto simp: toDouble_def Let_def)
qed

lemma tenth_double: "roundDouble (1 / 10) = 7205759403792794 / 2 ^ 56"
  by (subst roundDouble_eval [where e = "- 4"]) (simp_all add: roundEven_def)

lemma tenth_sum2:
  "toDouble (7205759403792794 / 2 ^ 56 + 7205759403792794 / 2 ^ 56) = Fin (7205759403792794 / 2 ^ 55)"
  by (subst toDouble_eval [where m = 0], simp, simp, simp,
      subst roundDouble_eval [where e = "- 3"]) (simp_all add: roundEven_def)

lemma tenth_sum3:
  "toDouble (7205759403792794 / 2 ^ 55 + 7205759403792794 / 2 ^ 56) = Fin (5404319552844596 / 2 ^ 54)"
  by (subst toDouble_eval [where m = 0], simp, simp, simp,
      subst roundDouble_eval [where e = "- 2"]) (simp_all add: roundEven_def)

lemma tenth_mean:
  "toDouble (5404319552844596 / 2 ^ 54 / 3) = Fin (7205759403792795 / 2 ^ 56)"
  by (subst toDouble_eval [where m = 0], simp, simp, simp,
      subst roundDouble_eval [where e = "- 4"]) (simp_all add: roundEven_def)

lemma tenth_seed:
  "divD (reduceSum (replicate 3 (7205759403792794 / 2 ^ 56))) 3 = Fin (7205759403792795 / 2 ^ 56)"
proof -
  have z: "toDouble (7205759403792794 / 2 ^ 56) = Fin (7205759403792794 / 2 ^ 56)"
    using tenth_double by (subst toDouble_eval [where m = 0], simp, simp, simp)
       (simp only: roundDouble_idem [of "1 / 10", unfolded tenth_double])
  have "reduceSum (replicate 3 (7205759403792794 / 2 ^ 56)) = Fin (5404319552844596 / 2 ^ 54)"
    unfolding reduceSum_def numeral_3_eq_3 replicate.simps fold_simps plusD.simps
    by (simp only: add_0 z plusD.simps tenth_sum2 tenth_sum3)
  thus ?thesis by (simp only: divD.simps tenth_mean) simp
qed


subsection \<open>EMA of a constant series in doubles\<close>

lemma overflowThreshold_pos: "0 < overflowThreshold"
  by (simp add: overflowThreshold_def)

lemma toDouble_zero: "toDouble 0 = Fin 0"
  using overflowThreshold_pos by (simp add: toDouble_def roundDouble_zero)

lemma toDouble_dyadic:
  assumes "\<bar>p\<bar> \<le> 2 ^ 53" "- 1074 \<le> j" "of_int \<bar>p\<bar> * 2 powi j < overflowThreshold"
  shows "toDouble (of_int p * 2 powi j) = Fin (of_int p * 2 powi j)"
proof (rule toDouble_exact)
  show "roundDouble (of_int p * 2 powi j) = of_int p * 2 powi j"
    by (rule roundDouble_exact [OF assms(1,2)])
  show "\<bar>of_int p * 2 powi j\<bar> < overflowThreshold"
    using assms(3) by (simp add: abs_mult)
qed

lemma fold_plusD_replicate:
  assumes "0 \<le> a" "(a + int m) * \<bar>p\<bar> \<le> 2 ^ 53" "- 1074 \<le> j"
    and "of_int ((a + int m) * \<bar>p\<bar>) * 2 powi j < overflowThreshold"
  shows "fold (\<lambda>b acc. plusD acc (Fin b)) (replicate m (of_int p * 2 powi j))
           (Fin (of_int (a * p) * 2 powi j))
         = Fin (of_int ((a + int m) * p) * 2 powi j)"
  using assms
proof (induction m arbitrary: a)
  case 0
  thus ?case by simp
next
  case (Suc m)
  have le: "(a + 1) * \<bar>p\<bar> \<le> (a + int (Suc m)) * \<bar>p\<bar>"
    by (intro mult_right_mono) simp_all
  have ab: "\<bar>(a + 1) * p\<bar> = (a + 1) * \<bar>p\<bar>" using Suc.prems(1) by (simp add: abs_mult)
  have "plusD (Fin (of_int (a * p) * 2 powi j)) (Fin (of_int p * 2 powi j))
        = toDouble (of_int ((a + 1) * p) * 2 powi j)"
    by (simp add: algebra_simps)
  also have "\<dots> = Fin (of_int ((a + 1) * p) * 2 powi j)"
  proof (rule toDouble_dyadic)
    show "\<bar>(a + 1) * p\<bar> \<le> 2 ^ 53" using le Suc.prems(2) ab by linarith
    show "- 1074 \<le> j" by (rule Suc.prems(3))
    have "(of_int ((a + 1) * \<bar>p\<bar>) :: real) \<le> of_int ((a + int (Suc m)) * \<bar>p\<bar>)"
      using le by (simp only: of_int_le_iff)
    hence "real_of_int ((a + 1) * \<bar>p\<bar>) * 2 powi j \<le> of_int ((a + int (Suc m)) * \<bar>p\<bar>) * 2 powi j"
      by (intro mult_right_mono) simp_all
    thus "real_of_int \<bar>(a + 1) * p\<bar> * 2 powi j < overflowThreshold"
      using Suc.prems(4) by (simp only: ab)
  qed
  finally have step: "plusD (Fin (of_int (a * p) * 2 powi j)) (Fin (of_int p * 2 powi j))
        = Fin (of_int ((a + 1) * p) * 2 powi j)" .
  have eq: "a + 1 + int m = a + int (Suc m)" by simp
  have ih: "fold (\<lambda>b acc. plusD acc (Fin b)) (replicate m (of_int p * 2 powi j))
              (Fin (of_int ((a + 1) * p) * 2 powi j))
            = Fin (of_int ((a + 1 + int m) * p) * 2 powi j)"
  proof (rule Suc.IH)
    show "0 \<le> a + 1" using Suc.prems(1) by simp
    show "(a + 1 + int m) * \<bar>p\<bar> \<le> 2 ^ 53" using Suc.prems(2) by (simp only: eq)
    show "- 1074 \<le> j" by (rule Suc.prems(3))
    show "real_of_int ((a + 1 + int m) * \<bar>p\<bar>) * 2 powi j < overflowThreshold"
      using Suc.prems(4) by (simp only: eq)
  qed
  have "fold (\<lambda>b acc. plusD acc (Fin b)) (replicate (Suc m) (of_int p * 2 powi j))
          (Fin (of_int (a * p) * 2 powi j))
        = fold (\<lambda>b acc. plusD acc (Fin b)) (replicate m (of_int p * 2 powi j))
            (plusD (Fin (of_int (a * p) * 2 powi j)) (Fin (of_int p * 2 powi j)))"
    by (simp del: fold_replicate)
  also have "\<dots> = Fin (of_int ((a + 1 + int m) * p) * 2 powi j)"
    by (simp only: step ih)
  finally show ?case by (simp only: eq)
qed

lemma reduceSum_replicate:
  assumes "int n * \<bar>p\<bar> \<le> 2 ^ 53" "- 1074 \<le> j"
    and "of_int (int n * \<bar>p\<bar>) * 2 powi j < overflowThreshold"
  shows "reduceSum (replicate n (of_int p * 2 powi j)) = Fin (of_int (int n * p) * 2 powi j)"
  using fold_plusD_replicate [of 0 n p j] assms by (simp add: reduceSum_def)

lemma mean_replicate_exact:
  assumes "1 \<le> n" "int n * \<bar>p\<bar> \<le> 2 ^ 53" "- 1074 \<le> j"
    and "of_int (int n * \<bar>p\<bar>) * 2 powi j < overflowThreshold"
  shows "divD (reduceSum (replicate n (of_int p * 2 powi j))) (real n) = Fin (of_int p * 2 powi j)"
proof -
  have le: "\<bar>p\<bar> \<le> int n * \<bar>p\<bar>" using assms(1) by (simp add: mult_le_cancel_right1)
  hence p: "\<bar>p\<bar> \<le> 2 ^ 53" using assms(2) by linarith
  have "(of_int \<bar>p\<bar> :: real) \<le> of_int (int n * \<bar>p\<bar>)" using le by (simp only: of_int_le_iff)
  hence "real_of_int \<bar>p\<bar> * 2 powi j \<le> of_int (int n * \<bar>p\<bar>) * 2 powi j"
    by (intro mult_right_mono) simp_all
  hence b: "real_of_int \<bar>p\<bar> * 2 powi j < overflowThreshold" using assms(4) by linarith
  have "divD (reduceSum (replicate n (of_int p * 2 powi j))) (real n)
        = toDouble (of_int p * 2 powi j)"
    using assms(1) by (simp add: reduceSum_replicate [OF assms(2,3,4)])
  thus ?thesis by (simp only: toDouble_dyadic [OF p assms(3) b])
qed

lemma EMA_loop_double_constant:
  assumes "toDouble P = Fin P" "\<forall>i\<in>set is. i < k"
  shows "EMA_loop_double (replicate k P) n m (Fin P) is
         = map (\<lambda>i. if i + 1 < n then None else Some (Fin P)) is"
  using assms(2)
  by (induction "is") (simp_all add: Let_def toDouble_zero assms(1))

lemma EMA_loop_double_prefix:
  assumes "\<forall>i\<in>set is. i + 1 \<le> n"
  shows "EMA_loop_double data n m e (is @ js)
         = map (\<lambda>i. if i + 1 < n then None else Some e) is @ EMA_loop_double data n m e js"
  using assms by (induction "is") auto

lemma EMA_double_seed:
  assumes "1 \<le> n" "n \<le> length data"
  shows "EMA_double data n ! (n - 1) = Some (divD (reduceSum (slice data 0 n)) (real n))"
proof -
  have "[0..<length data] = [0..<n] @ [n..<length data]"
    using assms(2) by (metis le_add_diff_inverse upt_add_eq_append zero_le)
  hence "EMA_double data n
         = map (\<lambda>i. if i + 1 < n then None
                     else Some (divD (reduceSum (slice data 0 n)) (real n))) [0..<n]
           @ EMA_loop_double data n (roundDouble (2 / roundDouble (real n + 1)))
               (divD (reduceSum (slice data 0 n)) (real n)) [n..<length data]"
    by (simp add: EMA_double_def EMA_loop_double_prefix)
  thus ?thesis using assms(1) by (simp add: nth_append)
qed

lemma length_EMA_loop_double: "length (EMA_loop_double data n m e is) = length is"
  by (induction "is" arbitrary: e) (simp_all add: Let_def)

lemma EMA_loop_double_absent:
  "j < length is \<Longrightarrow> is ! j + 1 < n \<Longrightarrow> EMA_loop_double data n m e is ! j = None"
proof (induction "is" arbitrary: e j)
  case Nil
  thus ?case by simp
next
  case (Cons a "is")
  thus ?case by (cases j) (auto simp: Let_def)
qed

lemma EMA_double_absent:
  assumes "i + 1 < n" "i < length data"
  shows "EMA_double data n ! i = None"
  using assms by (simp add: EMA_double_def EMA_loop_double_absent)

text \<open>
  C7, as amended. For every period \<open>n \<ge> 1\<close> and every constant series of value \<open>P\<close>
  whose length \<open>k\<close> is at least \<open>n\<close>, computed in doubles: the entries of \<open>EMA\<close>
  before index \<open>n - 1\<close> are absent; the entry at \<open>n - 1\<close> is the seed, the rounded sum
  of \<open>n\<close> copies of \<open>P\<close> divided by \<open>n\<close> and rounded; and the entries from \<open>n - 1\<close> on
  are all exactly \<open>P\<close> if and only if the seed is exactly \<open>P\<close>. The seed is exactly
  \<open>P\<close> whenever \<open>P = p \<sqdot> 2\<^sup>j\<close> for integers \<open>p\<close> and \<open>j \<ge> - 1074\<close> with
  \<open>n \<sqdot> |p| \<le> 2\<^sup>5\<^sup>3\<close> and \<open>n \<sqdot> |P| < 2\<^sup>1\<^sup>0\<^sup>2\<^sup>4\<close>: the sums \<open>P\<close>, \<open>2P\<close>, ..., \<open>nP\<close> are
  doubles then, as for every integer price up to \<open>2\<^sup>5\<^sup>3 / n\<close>.
\<close>

theorem EMA_double_constant_series:
  assumes "1 \<le> n" "n \<le> k"
  shows "(\<forall>i. i + 1 < n \<longrightarrow> EMA_double (replicate k P) n ! i = None)
       \<and> EMA_double (replicate k P) n ! (n - 1) = Some (divD (reduceSum (replicate n P)) (real n))
       \<and> ((\<forall>i. n - 1 \<le> i \<and> i < k \<longrightarrow> EMA_double (replicate k P) n ! i = Some (Fin P))
            \<longleftrightarrow> divD (reduceSum (replicate n P)) (real n) = Fin P)
       \<and> ((\<exists>p j. P = of_int p * 2 powi j \<and> - 1074 \<le> j \<and> int n * \<bar>p\<bar> \<le> 2 ^ 53
                  \<and> real n * \<bar>P\<bar> < overflowThreshold)
            \<longrightarrow> (\<forall>i. n - 1 \<le> i \<and> i < k \<longrightarrow> EMA_double (replicate k P) n ! i = Some (Fin P)))"
proof -
  let ?seed = "divD (reduceSum (replicate n P)) (real n)"
  have sl: "slice (replicate k P) 0 n = replicate n P"
    using assms(2) by (simp add: slice_def min_def)
  have absent: "\<forall>i. i + 1 < n \<longrightarrow> EMA_double (replicate k P) n ! i = None"
    using assms(2) by (simp add: EMA_double_absent)
  have seed: "EMA_double (replicate k P) n ! (n - 1) = Some ?seed"
    using EMA_double_seed [of n "replicate k P"] assms by (simp add: sl)
  have all: "\<forall>i. n - 1 \<le> i \<and> i < k \<longrightarrow> EMA_double (replicate k P) n ! i = Some (Fin P)"
    if eq: "divD (reduceSum (replicate n P)) (real n) = Fin P"
  proof -
    have fixed: "toDouble P = Fin P" by (rule divD_Fin [OF eq])
    have "EMA_double (replicate k P) n
          = map (\<lambda>i. if i + 1 < n then None else Some (Fin P)) [0..<k]"
      using EMA_loop_double_constant [OF fixed, of "[0..<k]" k n]
      by (simp add: EMA_double_def sl eq)
    thus ?thesis by auto
  qed
  have iff: "(\<forall>i. n - 1 \<le> i \<and> i < k \<longrightarrow> EMA_double (replicate k P) n ! i = Some (Fin P))
             \<longleftrightarrow> ?seed = Fin P"
  proof
    assume "\<forall>i. n - 1 \<le> i \<and> i < k \<longrightarrow> EMA_double (replicate k P) n ! i = Some (Fin P)"
    moreover have "n - 1 \<le> n - 1 \<and> n - 1 < k" using assms by simp
    ultimately have "EMA_double (replicate k P) n ! (n - 1) = Some (Fin P)" by blast
    with seed show "?seed = Fin P" by simp
  next
    assume "?seed = Fin P"
    thus "\<forall>i. n - 1 \<le> i \<and> i < k \<longrightarrow> EMA_double (replicate k P) n ! i = Some (Fin P)"
      by (rule all)
  qed
  have dyadic: "(\<exists>p j. P = of_int p * 2 powi j \<and> - 1074 \<le> j \<and> int n * \<bar>p\<bar> \<le> 2 ^ 53
                  \<and> real n * \<bar>P\<bar> < overflowThreshold)
            \<longrightarrow> (\<forall>i. n - 1 \<le> i \<and> i < k \<longrightarrow> EMA_double (replicate k P) n ! i = Some (Fin P))"
  proof
    assume "\<exists>p j. P = of_int p * 2 powi j \<and> - 1074 \<le> j \<and> int n * \<bar>p\<bar> \<le> 2 ^ 53
                  \<and> real n * \<bar>P\<bar> < overflowThreshold"
    then obtain p j where P: "P = of_int p * 2 powi j" and j: "- 1074 \<le> j"
      and b: "int n * \<bar>p\<bar> \<le> 2 ^ 53" and o: "real n * \<bar>P\<bar> < overflowThreshold" by blast
    have "real n * \<bar>P\<bar> = of_int (int n * \<bar>p\<bar>) * 2 powi j" by (simp add: P abs_mult)
    hence o': "of_int (int n * \<bar>p\<bar>) * 2 powi j < overflowThreshold" using o by (simp only:)
    have "?seed = Fin P" unfolding P by (rule mean_replicate_exact [OF assms(1) b j o'])
    thus "\<forall>i. n - 1 \<le> i \<and> i < k \<longrightarrow> EMA_double (replicate k P) n ! i = Some (Fin P)"
      by (rule all)
  qed
  from absent seed iff dyadic show ?thesis by blast
qed

theorem EMA_double_constant_series_witness:
  "EMA_double (replicate 5 100) 3 ! 1 = None
   \<and> EMA_double (replicate 5 100) 3 ! 2 = Some (Fin 100)
   \<and> EMA_double (replicate 5 100) 3 ! 4 = Some (Fin 100)
   \<and> divD (reduceSum (replicate 3 100)) (real 3) = Fin 100"
proof -
  have "real 3 * \<bar>100\<bar> < overflowThreshold" by (simp add: overflowThreshold_def)
  hence "\<exists>p j. (100::real) = of_int p * 2 powi j \<and> - 1074 \<le> j \<and> int 3 * \<bar>p\<bar> \<le> 2 ^ 53
           \<and> real 3 * \<bar>100\<bar> < overflowThreshold"
    by (intro exI [of _ 100] exI [of _ 0]) simp
  with EMA_double_constant_series [of 3 5 100] show ?thesis by auto
qed

text \<open>
  C7, as stated, fails in doubles: the double nearest to 0.1 is
  \<open>7205759403792794 / 2\<^sup>5\<^sup>6\<close>, the sum of three of them rounds up, and
  \<open>EMA([0.1, 0.1, 0.1, 0.1, 0.1], 3)[2]\<close> is the next double,
  \<open>7205759403792795 / 2\<^sup>5\<^sup>6\<close>, which prints as 0.10000000000000002.
\<close>

theorem EMA_double_of_tenths:
  "roundDouble (1 / 10) = 7205759403792794 / 2 ^ 56
   \<and> EMA_double (replicate 5 (roundDouble (1 / 10))) 3 ! 2 = Some (Fin (7205759403792795 / 2 ^ 56))
   \<and> EMA_double (replicate 5 (roundDouble (1 / 10))) 3 ! 2 \<noteq> Some (Fin (roundDouble (1 / 10)))"
proof -
  have "EMA_double (replicate 5 (7205759403792794 / 2 ^ 56)) 3 ! (3 - 1)
        = Some (divD (reduceSum (slice (replicate 5 (7205759403792794 / 2 ^ 56)) 0 3)) (real 3))"
    by (rule EMA_double_seed) simp_all
  moreover have "slice (replicate 5 (7205759403792794 / 2 ^ 56 :: real)) 0 3
                 = replicate 3 (7205759403792794 / 2 ^ 56)"
    by (simp add: slice_def)
  ultimately have "EMA_double (replicate 5 (7205759403792794 / 2 ^ 56)) 3 ! 2
        = Some (Fin (7205759403792795 / 2 ^ 56))"
    using tenth_seed by simp
  thus ?thesis by (simp add: tenth_double)
qed


section \<open>Properties of RSI\<close>

lemma gainsOf_nonneg: "x \<in> set (gainsOf closes) \<Longrightarrow> 0 \<le> x"
  by (auto simp: gainsOf_def Let_def)

lemma lossesOf_nonneg: "x \<in> set (lossesOf closes) \<Longrightarrow> 0 \<le> x"
  by (auto simp: lossesOf_def Let_def)

lemma set_slice: "set (slice xs a b) \<subseteq> set xs"
  unfolding slice_def by (meson set_take_subset set_drop_subset subset_trans)

lemma windowAvg_nonneg:
  assumes "\<forall>x \<in> set xs. 0 \<le> x"
  shows "0 \<le> windowAvg xs period i"
proof -
  have "set (slice xs (i + 1 - period) (i + 1)) \<subseteq> set xs" by (rule set_slice)
  with assms have "\<And>x. x \<in> set (slice xs (i + 1 - period) (i + 1)) \<Longrightarrow> 0 \<le> x"
    by blast
  then have "0 \<le> sum_list (slice xs (i + 1 - period) (i + 1))"
    by (rule sum_list_nonneg)
  then show ?thesis by (simp add: windowAvg_def)
qed

lemma RSI_averages_window:
  "RSI_averages gains losses period prevRSI i
   = (windowAvg gains period i, windowAvg losses period i)"
  by (auto simp: RSI_averages_def windowAvg_def)

lemma RSI_value_range:
  assumes "0 \<le> g" and "0 \<le> l"
  shows "0 \<le> RSI_value g l \<and> RSI_value g l \<le> 100"
proof (cases "l = 0")
  case True
  then show ?thesis by (simp add: RSI_value_def)
next
  case False
  have rs: "0 \<le> g / l" using assms by simp
  then have "100 / (1 + g / l) \<le> 100" and "0 \<le> 100 / (1 + g / l)"
    by (simp_all add: divide_le_eq)
  with False show ?thesis by (simp add: RSI_value_def Let_def)
qed

lemma RSI_loop_nth:
  "j < length is \<Longrightarrow>
   RSI_loop gains losses period prev is ! j =
     (if is ! j + 1 < period then None
      else Some (RSI_value (windowAvg gains period (is ! j))
                           (windowAvg losses period (is ! j))))"
proof (induction "is" arbitrary: prev j)
  case Nil
  then show ?case by simp
next
  case (Cons i "is")
  show ?case
  proof (cases j)
    case 0
    then show ?thesis by (simp add: Let_def RSI_averages_window)
  next
    case (Suc k)
    with Cons.prems have "k < length is" by simp
    from Cons.IH [OF this] Suc show ?thesis by (simp add: Let_def)
  qed
qed

lemma length_RSI_loop: "length (RSI_loop gains losses period prev is) = length is"
  by (induction "is" arbitrary: prev) (simp_all add: Let_def)

text \<open>
  Over the reals, for a period of at least 1: the entries lie in \<open>[0, 100]\<close>, and an
  entry is 100 where the trailing average loss is 0.
\<close>

lemma RSI_real_range:
  assumes "0 < period"
  shows "(\<forall>x. Some x \<in> set (RSI closes period) \<longrightarrow> 0 \<le> x \<and> x \<le> 100) \<and>
         (\<forall>i. period \<le> i + 1 \<and> i < length (lossesOf closes) \<and>
               windowAvg (lossesOf closes) period i = 0
               \<longrightarrow> RSI closes period ! (i + 1) = Some 100)"
proof (intro conjI allI impI)
  fix x
  assume "Some x \<in> set (RSI closes period)"
  then have "Some x \<in> set (RSI_loop (gainsOf closes) (lossesOf closes) period None
                              [0..<length (gainsOf closes)])"
    by (simp add: RSI_def Let_def)
  then obtain j where j: "j < length (gainsOf closes)"
    and eq: "RSI_loop (gainsOf closes) (lossesOf closes) period None
               [0..<length (gainsOf closes)] ! j = Some x"
    unfolding in_set_conv_nth length_RSI_loop by auto
  from eq j have "x = RSI_value (windowAvg (gainsOf closes) period j)
                                 (windowAvg (lossesOf closes) period j)"
    by (simp add: RSI_loop_nth split: if_splits)
  moreover have "0 \<le> windowAvg (gainsOf closes) period j"
    by (rule windowAvg_nonneg) (simp add: gainsOf_nonneg)
  moreover have "0 \<le> windowAvg (lossesOf closes) period j"
    by (rule windowAvg_nonneg) (simp add: lossesOf_nonneg)
  ultimately show "0 \<le> x" and "x \<le> 100"
    using RSI_value_range by blast+
next
  fix i
  assume a: "period \<le> i + 1 \<and> i < length (lossesOf closes) \<and>
             windowAvg (lossesOf closes) period i = 0"
  have "length (lossesOf closes) = length (gainsOf closes)"
    by (simp add: lossesOf_def gainsOf_def)
  with a show "RSI closes period ! (i + 1) = Some 100"
    by (simp add: RSI_def Let_def RSI_loop_nth RSI_value_def)
qed

lemma gainsOf_123: "gainsOf [1, 2, 3] = [1, 1]"
  by (simp add: gainsOf_def Let_def upt_conv_Cons)

lemma lossesOf_123: "lossesOf [1, 2, 3] = [0, 0]"
  by (simp add: lossesOf_def Let_def upt_conv_Cons)

lemma RSI_123: "RSI [1, 2, 3] 2 = [None, None, Some 100]"
  by (simp add: RSI_def gainsOf_123 lossesOf_123 Let_def RSI_averages_def RSI_value_def
      slice_def windowAvg_def)

lemma RSI_averages_js_window:
  "RSI_averages_js gains losses period prevRSI i
   = (windowAvg_js gains period i, windowAvg_js losses period i)"
  by (auto simp: RSI_averages_js_def windowAvg_js_def)

lemma windowAvg_js_finite:
  "0 < period \<Longrightarrow> windowAvg_js xs period i = Fin (windowAvg xs period i)"
  by (simp add: windowAvg_js_def windowAvg_def jsdiv_def)

lemma RSI_value_js_finite:
  assumes "0 \<le> g" and "0 \<le> l"
  shows "RSI_value_js (Fin g) (Fin l) = Fin (RSI_value g l)"
proof (cases "l = 0")
  case True
  then show ?thesis by (simp add: RSI_value_js_def RSI_value_def)
next
  case False
  from assms have "0 \<le> g / l" by simp
  then have "1 + g / l \<noteq> 0" by linarith
  with False show ?thesis
    by (simp add: RSI_value_js_def RSI_value_def Let_def jsdiv_def jsminus_def)
qed

lemma RSI_loop_js_finite:
  assumes "0 < period" and "\<forall>x \<in> set gains. 0 \<le> x" and "\<forall>x \<in> set losses. 0 \<le> x"
  shows "RSI_loop_js gains losses period prev is
         = map (map_option Fin) (RSI_loop gains losses period prev' is)"
proof (induction "is" arbitrary: prev prev')
  case Nil
  then show ?case by simp
next
  case (Cons i "is")
  have v: "RSI_value_js (windowAvg_js gains period i) (windowAvg_js losses period i)
           = Fin (RSI_value (windowAvg gains period i) (windowAvg losses period i))"
    using assms
    by (simp add: windowAvg_js_finite RSI_value_js_finite windowAvg_nonneg)
  show ?case
    by (simp add: Let_def RSI_averages_js_window RSI_averages_window v Cons.IH)
qed

lemma RSI_js_finite:
  "0 < period \<Longrightarrow> RSI_js closes period = map (map_option Fin) (RSI closes period)"
  using RSI_loop_js_finite [of period "gainsOf closes" "lossesOf closes" None
      "[0..<length (gainsOf closes)]" None]
  by (simp add: RSI_js_def RSI_def Let_def gainsOf_nonneg lossesOf_nonneg)

text \<open>
  C6, as amended. For a period of at least 1, every entry of \<open>RSI(closes, period)\<close> that
  is not \<open>null\<close> is a finite number in \<open>[0, 100]\<close>, and the entry is exactly 100 at every
  index \<open>i + 1\<close> whose trailing average loss (the mean of the \<open>period\<close> losses ending at
  change \<open>i\<close>) is 0.
\<close>

theorem RSI_js_range:
  assumes "1 \<le> period"
  shows "(\<forall>v. Some v \<in> set (RSI_js closes period) \<longrightarrow> (\<exists>x. v = Fin x \<and> 0 \<le> x \<and> x \<le> 100)) \<and>
         (\<forall>i. period \<le> i + 1 \<and> i < length (lossesOf closes) \<and>
               windowAvg (lossesOf closes) period i = 0
               \<longrightarrow> RSI_js closes period ! (i + 1) = Some (Fin 100))"
proof -
  from assms have p: "0 < period" by simp
  note r = RSI_real_range [OF p, of closes]
  have len: "length (RSI closes period) = Suc (length (lossesOf closes))"
    by (simp add: RSI_def Let_def length_RSI_loop gainsOf_def lossesOf_def)
  show ?thesis
  proof (intro conjI allI impI)
    fix v
    assume "Some v \<in> set (RSI_js closes period)"
    then obtain x where "v = Fin x" and "Some x \<in> set (RSI closes period)"
      unfolding RSI_js_finite [OF p] by (auto simp: map_option_case split: option.splits)
    with r show "\<exists>x. v = Fin x \<and> 0 \<le> x \<and> x \<le> 100" by blast
  next
    fix i
    assume a: "period \<le> i + 1 \<and> i < length (lossesOf closes) \<and>
               windowAvg (lossesOf closes) period i = 0"
    with r have "RSI closes period ! (i + 1) = Some 100" by blast
    moreover from a len have "i + 1 < length (RSI closes period)" by simp
    ultimately show "RSI_js closes period ! (i + 1) = Some (Fin 100)"
      unfolding RSI_js_finite [OF p] by simp
  qed
qed

lemma RSI_js_123: "RSI_js [1, 2, 3] 2 = [None, None, Some (Fin 100)]"
  by code_simp

theorem RSI_js_range_witness:
  "(1::nat) \<le> 2 \<and> Some (Fin 100) \<in> set (RSI_js [1, 2, 3] 2) \<and>
   windowAvg (lossesOf [1, 2, 3]) 2 1 = 0 \<and> RSI_js [1, 2, 3] 2 ! 2 = Some (Fin 100)"
  using RSI_js_range [of 2 "[1, 2, 3]"]
  by (simp add: RSI_js_123 lossesOf_123 windowAvg_def slice_def)

text \<open>
  C6, as stated, fails for period 0: every window is empty, the averages are \<open>0 / 0\<close>, and
  each computed entry is \<open>NaN\<close>, which is present and outside \<open>[0, 100]\<close>.
\<close>

theorem RSI_period_zero:
  "RSI_js [1, 2] 0 = [None, Some NaN]"
  by code_simp

section \<open>Support and resistance search\<close>

lemma fold_supportStep_keep:
  "\<forall>s \<in> set xs. \<not> s < p \<Longrightarrow> fold (supportStep p) xs st = st"
  by (induction xs arbitrary: st) (simp_all add: supportStep_def)

lemma fold_resistanceStep_keep:
  "\<forall>r \<in> set xs. \<not> r > p \<Longrightarrow> fold (resistanceStep p) xs st = st"
  by (induction xs arbitrary: st) (simp_all add: resistanceStep_def)

lemma fold_supportStep_below:
  "fst (fold (supportStep p) xs st) = Some s \<Longrightarrow> fst st = Some s \<or> s < p"
proof (induction xs arbitrary: st)
  case Nil
  then show ?case by simp
next
  case (Cons x xs)
  from Cons.prems have "fst (fold (supportStep p) xs (supportStep p x st)) = Some s" by simp
  from Cons.IH [OF this] show ?case
    by (auto simp: supportStep_def Let_def split: if_splits)
qed

lemma fold_resistanceStep_above:
  "fst (fold (resistanceStep p) xs st) = Some r \<Longrightarrow> fst st = Some r \<or> p < r"
proof (induction xs arbitrary: st)
  case Nil
  then show ?case by simp
next
  case (Cons x xs)
  from Cons.prems have "fst (fold (resistanceStep p) xs (resistanceStep p x st)) = Some r" by simp
  from Cons.IH [OF this] show ?case
    by (auto simp: resistanceStep_def Let_def split: if_splits)
qed

lemma nearestSupport_short:
  "length candles < 50 \<Longrightarrow> nearestSupport (findSupportResistance candles p) = None"
  "length candles < 50 \<Longrightarrow> nearestResistance (findSupportResistance candles p) = None"
  by (simp_all add: findSupportResistance_def)

lemma support_choice:
  fixes p :: real
  assumes "found = fst (fold (supportStep p) supports (None, None))"
    and "s = (if \<not> truthy found then p * 0.97 else numOf found)"
  shows "(s < p \<and> s \<noteq> 0) \<or> s = p * 0.97"
proof (cases found)
  case None
  with assms(2) show ?thesis by (simp add: truthy_def)
next
  case (Some x)
  then have "x < p" using fold_supportStep_below [of p supports "(None, None)" x] assms(1)
    by simp
  with Some assms(2) show ?thesis by (simp add: truthy_def numOf_def)
qed

lemma resistance_choice:
  fixes p :: real
  assumes "found = fst (fold (resistanceStep p) resistances (None, None))"
    and "r = (if \<not> truthy found then p * 1.03 else numOf found)"
  shows "(p < r \<and> r \<noteq> 0) \<or> r = p * 1.03"
proof (cases found)
  case None
  with assms(2) show ?thesis by (simp add: truthy_def)
next
  case (Some x)
  then have "p < x" using fold_resistanceStep_above [of p resistances "(None, None)" x] assms(1)
    by simp
  with Some assms(2) show ?thesis by (simp add: truthy_def numOf_def)
qed

lemma nearestSupport_shape:
  assumes "50 \<le> length candles"
  shows "\<exists>supports. nearestSupport (findSupportResistance candles p) =
           Some (if \<not> truthy (fst (fold (supportStep p) supports (None, None))) then p * 0.97
                 else numOf (fst (fold (supportStep p) supports (None, None))))"
proof -
  from assms have "\<not> length candles < 50" by simp
  then show ?thesis
    unfolding findSupportResistance_def Let_def
    by (simp only: if_False sr_levels.simps) (rule exI, rule refl)
qed

lemma nearestResistance_shape:
  assumes "50 \<le> length candles"
  shows "\<exists>resistances. nearestResistance (findSupportResistance candles p) =
           Some (if \<not> truthy (fst (fold (resistanceStep p) resistances (None, None))) then p * 1.03
                 else numOf (fst (fold (resistanceStep p) resistances (None, None))))"
proof -
  from assms have "\<not> length candles < 50" by simp
  then show ?thesis
    unfolding findSupportResistance_def Let_def
    by (simp only: if_False sr_levels.simps) (rule exI, rule refl)
qed

lemma nearestSupport_cases:
  assumes "50 \<le> length candles"
  shows "\<exists>s. nearestSupport (findSupportResistance candles p) = Some s \<and>
             ((s < p \<and> s \<noteq> 0) \<or> s = p * 0.97)"
proof -
  from nearestSupport_shape [OF assms] obtain supports where
    "nearestSupport (findSupportResistance candles p) =
       Some (if \<not> truthy (fst (fold (supportStep p) supports (None, None))) then p * 0.97
             else numOf (fst (fold (supportStep p) supports (None, None))))" ..
  with support_choice [OF refl refl, of p supports] show ?thesis by simp
qed

lemma nearestResistance_cases:
  assumes "50 \<le> length candles"
  shows "\<exists>r. nearestResistance (findSupportResistance candles p) = Some r \<and>
             ((p < r \<and> r \<noteq> 0) \<or> r = p * 1.03)"
proof -
  from nearestResistance_shape [OF assms] obtain resistances where
    "nearestResistance (findSupportResistance candles p) =
       Some (if \<not> truthy (fst (fold (resistanceStep p) resistances (None, None))) then p * 1.03
             else numOf (fst (fold (resistanceStep p) resistances (None, None))))" ..
  with resistance_choice [OF refl refl, of p resistances] show ?thesis by simp
qed

section \<open>Sample inputs evaluated\<close>

lemma cfg0_fields:
  "minScoreForSignal (SignalEngine noOptions) = 4"
  "minConfluence (SignalEngine noOptions) = 3"
  "sidewaysADXThreshold (SignalEngine noOptions) = 20"
  "adxTrendThreshold (SignalEngine noOptions) = 25"
  "rsiOversold (SignalEngine noOptions) = 25"
  "rsiOverbought (SignalEngine noOptions) = 75"
  by (simp_all add: SignalEngine_def noOptions_def orDefault_def)

lemma tally_fold:
  "t_totalScore (fold tallyStep as t) = t_totalScore t + sum_list (map a_score as)"
  "t_bullishCount (fold tallyStep as t)
     = t_bullishCount t + int (length (filter (\<lambda>a. a_score a > 0) as))"
  "t_bearishCount (fold tallyStep as t)
     = t_bearishCount t + int (length (filter (\<lambda>a. a_score a < 0) as))"
  by (induction as arbitrary: t; simp add: tallyStep_def)+

lemma analyzeIndicators_fields:
  "totalScore (analyzeIndicators cfg snap p)
     = sum_list (map a_score [analyzeRSI cfg (l_rsi snap), analyzeMACD (l_macd snap),
         analyzeEMA (l_ema snap) p, analyzeBB (l_bb snap) p, analyzeTrend (l_ema snap) p])"
  "bullishConfluence (analyzeIndicators cfg snap p)
     = int (length (filter (\<lambda>a. a_score a > 0) [analyzeRSI cfg (l_rsi snap),
         analyzeMACD (l_macd snap), analyzeEMA (l_ema snap) p, analyzeBB (l_bb snap) p,
         analyzeTrend (l_ema snap) p]))"
  "bearishConfluence (analyzeIndicators cfg snap p)
     = int (length (filter (\<lambda>a. a_score a < 0) [analyzeRSI cfg (l_rsi snap),
         analyzeMACD (l_macd snap), analyzeEMA (l_ema snap) p, analyzeBB (l_bb snap) p,
         analyzeTrend (l_ema snap) p]))"
  "isSideway (analyzeIndicators cfg snap p)
     = (case l_adx snap of None \<Rightarrow> False | Some x \<Rightarrow> x < sidewaysADXThreshold cfg)"
  "hasTrend (analyzeIndicators cfg snap p)
     = (case l_adx snap of None \<Rightarrow> False | Some x \<Rightarrow> x \<ge> adxTrendThreshold cfg)"
  unfolding analyzeIndicators_def Let_def
  by (simp_all only: analysis.simps tally_fold tally.simps)

lemma bullishSnapshot_scores:
  "a_score (analyzeRSI (SignalEngine noOptions) (l_rsi (bullishSnapshot adx))) = 3"
  "a_score (analyzeMACD (l_macd (bullishSnapshot adx))) = 3"
  "p < 1000 \<Longrightarrow> a_score (analyzeEMA (l_ema (bullishSnapshot adx)) p) = 1"
  "a_score (analyzeBB (l_bb (bullishSnapshot adx)) p) = 0"
  "p < 1000 \<Longrightarrow> a_score (analyzeTrend (l_ema (bullishSnapshot adx)) p) = - 1"
      apply (simp add: bullishSnapshot_def analyzeRSI_def cfg0_fields truthy_def numOf_def Let_def)
     apply (simp add: bullishSnapshot_def analyzeMACD_def numOf_def Let_def)
    apply (simp add: bullishSnapshot_def analyzeEMA_def truthy_def numOf_def Let_def)
   apply (simp add: bullishSnapshot_def analyzeBB_def)
  apply (simp add: bullishSnapshot_def analyzeTrend_def truthy_def numOf_def Let_def)
  done

lemma bullishAnalysis_fields:
  assumes "p < 1000"
  shows "totalScore (bullishAnalysis adx p) = 6"
    and "bullishConfluence (bullishAnalysis adx p) = 3"
    and "bearishConfluence (bullishAnalysis adx p) = 1"
    and "isSideway (bullishAnalysis adx p) = (adx < 20)"
    and "hasTrend (bullishAnalysis adx p) = (adx \<ge> 25)"
  using assms
  by (simp_all add: bullishAnalysis_def analyzeIndicators_fields bullishSnapshot_scores)
     (simp_all add: bullishSnapshot_def cfg0_fields)

lemma fold_min_replicate: "fold min (replicate n x) (x::real) = x"
  by (induction n) simp_all

lemma fold_max_replicate: "fold max (replicate n x) (x::real) = x"
  by (induction n) simp_all

lemma minOf_replicate: "0 < n \<Longrightarrow> minOf (replicate n x) = x"
  by (cases n) (simp_all add: fold_min_replicate del: fold_replicate)

lemma maxOf_replicate: "0 < n \<Longrightarrow> maxOf (replicate n x) = x"
  by (cases n) (simp_all add: fold_max_replicate del: fold_replicate)

lemma no_swing_in_uniform:
  assumes "3 \<le> i" and "i < 47"
  shows "\<not> isSwingLow (replicate 50 c) i" and "\<not> isSwingHigh (replicate 50 c) i"
proof -
  have "(1::nat) \<in> set [1..<4]" by simp
  moreover from assms have "replicate 50 c ! i = c" "replicate 50 c ! (i - 1) = c" by simp_all
  ultimately show "\<not> isSwingLow (replicate 50 c) i" and "\<not> isSwingHigh (replicate 50 c) i"
    unfolding isSwingLow_def isSwingHigh_def list_all_iff by force+
qed

lemma uniform_no_swings:
  "filter (isSwingLow (replicate 50 c)) [3..<47] = []"
  "filter (isSwingHigh (replicate 50 c)) [3..<47] = []"
  unfolding filter_empty_conv by (auto simp: no_swing_in_uniform)

lemma uniform_levels:
  "nearestSupport (findSupportResistance (replicate 50 c) p)
     = Some (if c_low c < p \<and> c_low c \<noteq> 0 then c_low c else p * 0.97)"
  "nearestResistance (findSupportResistance (replicate 50 c) p)
     = Some (if p < c_high c \<and> c_high c \<noteq> 0 then c_high c else p * 1.03)"
proof -
  have len: "\<not> length (replicate 50 c) < 50" by simp
  have idx: "[3..<length (replicate 50 c) - 3] = [3..<47]" by simp
  have l50: "lastN 50 (replicate 50 c) = replicate 50 c"
    and l20: "lastN 20 (replicate 50 c) = replicate 20 c"
    by (simp_all add: lastN_def)
  have lo: "minOf (map c_low (replicate 20 c)) = c_low c"
    and hi: "maxOf (map c_high (replicate 20 c)) = c_high c"
    by (simp_all add: minOf_replicate maxOf_replicate)
  show "nearestSupport (findSupportResistance (replicate 50 c) p)
     = Some (if c_low c < p \<and> c_low c \<noteq> 0 then c_low c else p * 0.97)"
    apply (simp only: findSupportResistance_def Let_def l50 l20 len if_False idx
        uniform_no_swings lo hi list.map sr_levels.simps)
    apply (simp add: supportStep_def truthy_def numOf_def)
    done
  show "nearestResistance (findSupportResistance (replicate 50 c) p)
     = Some (if p < c_high c \<and> c_high c \<noteq> 0 then c_high c else p * 1.03)"
    apply (simp only: findSupportResistance_def Let_def l50 l20 len if_False idx
        uniform_no_swings lo hi list.map sr_levels.simps)
    apply (simp add: resistanceStep_def truthy_def numOf_def)
    done
qed

section \<open>The composed signal\<close>

lemma finishSignal_action: "action (finishSignal an p atr d) = d_action d"
  by (simp add: finishSignal_def Let_def)

lemma generateSignal_draft:
  "\<exists>d. generateSignal cfg an p candles ind
          = finishSignal an p (l_atr (getLatestIndicators ind)) d \<and>
       (d = waitSetup an (filterRejections cfg an) \<or> d = initialDraft \<or>
        (\<exists>near. truthy (nearestSupport (findSupportResistance candles p)) \<and>
                d = longSetup an p (findSupportResistance candles p) near) \<or>
        (\<exists>near. truthy (nearestResistance (findSupportResistance candles p)) \<and>
                d = shortSetup an p (findSupportResistance candles p) near))"
  unfolding generateSignal_def Let_def by (auto split: if_splits)

lemma sizePosition_range: "5 \<le> fst (sizePosition an r) \<and> fst (sizePosition an r) \<le> 15"
  by (simp add: sizePosition_def Let_def)

lemma percentOf_truthy: "delta \<noteq> 0 \<Longrightarrow> jstruthy (percentOf delta p)"
  by (cases "p = 0") (auto simp: percentOf_def jsdiv_def)

lemma finishSignal_leverage:
  assumes "d_action d \<noteq> WAIT" and "d_stopLoss d = Some sl" and "sl \<noteq> 0" and "p - sl \<noteq> 0"
  shows "5 \<le> leverage (finishSignal an p atr d) \<and> leverage (finishSignal an p atr d) \<le> 15"
  using assms percentOf_truthy [of "p - sl" p]
  by (simp add: finishSignal_def Let_def truthy_def numOf_def sizePosition_range)

lemma long_stop_below:
  fixes p s :: real
  assumes "0 \<le> p" and "s < p" and "s \<noteq> 0"
    and "sl = (if p - s * 0.997 < p * 0.015 then p - p * 0.015 else s * 0.997)"
  shows "sl \<noteq> 0 \<and> sl < p"
proof -
  have below: "s * 0.997 < p"
  proof (cases "0 \<le> s")
    case True
    then have "s * 0.997 \<le> s" by simp
    with assms(2) show ?thesis by simp
  next
    case False
    then have "s * 0.997 < 0" by simp
    with assms(1) show ?thesis by simp
  qed
  show ?thesis
  proof (cases "p - s * 0.997 < p * 0.015")
    case True
    with below have "0 < p" by simp
    with True assms(4) show ?thesis by simp
  next
    case False
    with below assms(3,4) show ?thesis by simp
  qed
qed

lemma short_stop_above:
  fixes p r :: real
  assumes "0 \<le> p" and "p < r"
    and "sl = (if r * 1.003 - p < p * 0.015 then p + p * 0.015 else r * 1.003)"
  shows "sl \<noteq> 0 \<and> p < sl"
proof -
  from assms(1,2) have "0 < r" by simp
  then have "r \<le> r * 1.003" by simp
  with assms(2) have above: "p < r * 1.003" by simp
  show ?thesis
  proof (cases "r * 1.003 - p < p * 0.015")
    case True
    with above have "0 < p" by simp
    with True assms(3) show ?thesis by simp
  next
    case False
    with above assms(1,3) show ?thesis by simp
  qed
qed

lemma truthy_support_below:
  assumes "0 \<le> p" and "truthy (nearestSupport (findSupportResistance candles p))"
  shows "\<exists>s. nearestSupport (findSupportResistance candles p) = Some s \<and> s < p \<and> s \<noteq> 0"
proof -
  have len: "50 \<le> length candles"
  proof (rule ccontr)
    assume "\<not> 50 \<le> length candles"
    then have "nearestSupport (findSupportResistance candles p) = None"
      by (simp add: nearestSupport_short)
    with assms(2) show False by (simp add: truthy_def)
  qed
  from nearestSupport_cases [OF len, of p] obtain s where
    s: "nearestSupport (findSupportResistance candles p) = Some s"
    and c: "(s < p \<and> s \<noteq> 0) \<or> s = p * 0.97" by blast
  from assms(2) s have nz: "s \<noteq> 0" by (simp add: truthy_def)
  from c nz assms(1) have "s < p" by auto
  with s nz show ?thesis by simp
qed

lemma truthy_resistance_above:
  assumes "0 \<le> p" and "truthy (nearestResistance (findSupportResistance candles p))"
  shows "\<exists>r. nearestResistance (findSupportResistance candles p) = Some r \<and> p < r"
proof -
  have len: "50 \<le> length candles"
  proof (rule ccontr)
    assume "\<not> 50 \<le> length candles"
    then have "nearestResistance (findSupportResistance candles p) = None"
      by (simp add: nearestSupport_short)
    with assms(2) show False by (simp add: truthy_def)
  qed
  from nearestResistance_cases [OF len, of p] obtain r where
    r: "nearestResistance (findSupportResistance candles p) = Some r"
    and c: "(p < r \<and> r \<noteq> 0) \<or> r = p * 1.03" by blast
  from assms(2) r have nz: "r \<noteq> 0" by (simp add: truthy_def)
  from c nz assms(1) have "p < r" by auto
  with r show ?thesis by simp
qed

lemma longSetup_fields:
  "d_action (longSetup an p sr near) = LONG"
  "d_stopLoss (longSetup an p sr near)
     = Some (if p - numOf (nearestSupport sr) * 0.997 < p * 0.015 then p - p * 0.015
             else numOf (nearestSupport sr) * 0.997)"
  by (simp_all add: longSetup_def Let_def)

lemma shortSetup_fields:
  "d_action (shortSetup an p sr near) = SHORT"
  "d_stopLoss (shortSetup an p sr near)
     = Some (if numOf (nearestResistance sr) * 1.003 - p < p * 0.015 then p + p * 0.015
             else numOf (nearestResistance sr) * 1.003)"
  by (simp_all add: shortSetup_def Let_def)

text \<open>
  C2, as amended. For every input with a current price that is not negative on which
  \<open>generateSignal\<close> produces an action other than \<open>WAIT\<close>, the leverage is an integer in
  \<open>[5, 15]\<close>.
\<close>

theorem leverage_in_range:
  assumes "0 \<le> currentPrice"
    and "action (generateSignal cfg an currentPrice candles ind) \<noteq> WAIT"
  shows "5 \<le> leverage (generateSignal cfg an currentPrice candles ind) \<and>
         leverage (generateSignal cfg an currentPrice candles ind) \<le> 15"
proof -
  let ?sr = "findSupportResistance candles currentPrice"
  let ?atr = "l_atr (getLatestIndicators ind)"
  from generateSignal_draft [of cfg an currentPrice candles ind] obtain d where
    g: "generateSignal cfg an currentPrice candles ind = finishSignal an currentPrice ?atr d"
    and d: "d = waitSetup an (filterRejections cfg an) \<or> d = initialDraft \<or>
        (\<exists>near. truthy (nearestSupport ?sr) \<and> d = longSetup an currentPrice ?sr near) \<or>
        (\<exists>near. truthy (nearestResistance ?sr) \<and> d = shortSetup an currentPrice ?sr near)"
    by blast
  from assms(2) g have act: "d_action d \<noteq> WAIT" by (simp add: finishSignal_action)
  from d act consider
      (long) near where "truthy (nearestSupport ?sr)" "d = longSetup an currentPrice ?sr near"
    | (short) near where "truthy (nearestResistance ?sr)" "d = shortSetup an currentPrice ?sr near"
    by (auto simp: waitSetup_def initialDraft_def)
  then have "\<exists>sl. d_stopLoss d = Some sl \<and> sl \<noteq> 0 \<and> currentPrice - sl \<noteq> 0"
  proof cases
    case long
    from truthy_support_below [OF assms(1) long(1)] obtain s where
      s: "nearestSupport ?sr = Some s" "s < currentPrice" "s \<noteq> 0" by blast
    define sl where "sl = (if currentPrice - s * 0.997 < currentPrice * 0.015
                           then currentPrice - currentPrice * 0.015 else s * 0.997)"
    have a: "sl \<noteq> 0 \<and> sl < currentPrice"
      by (rule long_stop_below [OF assms(1) s(2,3) sl_def])
    have b: "d_stopLoss d = Some sl"
      unfolding long(2) longSetup_fields s(1) sl_def by (simp add: numOf_def)
    from a have "currentPrice - sl \<noteq> 0" by simp
    with a b show ?thesis by blast
  next
    case short
    from truthy_resistance_above [OF assms(1) short(1)] obtain r where
      r: "nearestResistance ?sr = Some r" "currentPrice < r" by blast
    define sl where "sl = (if r * 1.003 - currentPrice < currentPrice * 0.015
                           then currentPrice + currentPrice * 0.015 else r * 1.003)"
    have a: "sl \<noteq> 0 \<and> currentPrice < sl"
      by (rule short_stop_above [OF assms(1) r(2) sl_def])
    have b: "d_stopLoss d = Some sl"
      unfolding short(2) shortSetup_fields r(1) sl_def by (simp add: numOf_def)
    from a have "currentPrice - sl \<noteq> 0" by simp
    with a b show ?thesis by blast
  qed
  then obtain sl where "d_stopLoss d = Some sl" "sl \<noteq> 0" "currentPrice - sl \<noteq> 0" by blast
  from finishSignal_leverage [OF act this] g show ?thesis by simp
qed

lemma bullish_passes_filters:
  "p < 1000 \<Longrightarrow> 20 \<le> adx \<Longrightarrow>
   filterRejections (SignalEngine noOptions) (bullishAnalysis adx p) = []"
  by (simp add: filterRejections_def Let_def bullishAnalysis_fields cfg0_fields)

lemma priceCandle_fields: "c_low (priceCandle lo p) = lo" "c_high (priceCandle lo p) = p"
  by (simp_all add: priceCandle_def)

lemma sample_is_long:
  assumes "p < 1000" and "20 \<le> adx"
    and "truthy (nearestSupport (findSupportResistance candles p))"
  shows "\<exists>near. generateSignal (SignalEngine noOptions) (bullishAnalysis adx p) p candles ind
         = finishSignal (bullishAnalysis adx p) p (l_atr (getLatestIndicators ind))
             (longSetup (bullishAnalysis adx p) p (findSupportResistance candles p) near)"
  using assms
  by (simp add: generateSignal_def Let_def bullish_passes_filters bullishAnalysis_fields cfg0_fields)
     blast

lemma longSetup_levels:
  "d_action (longSetup an p sr near) = LONG"
  "d_stopLoss (longSetup an p sr near)
     = Some (if p - numOf (nearestSupport sr) * 0.997 < p * 0.015 then p - p * 0.015
             else numOf (nearestSupport sr) * 0.997)"
  "d_takeProfit (longSetup an p sr near)
     = (let sl = (if p - numOf (nearestSupport sr) * 0.997 < p * 0.015 then p - p * 0.015
                  else numOf (nearestSupport sr) * 0.997);
            tp = (if truthy (nearestResistance sr) \<and> numOf (nearestResistance sr) > p * 1.005
                  then numOf (nearestResistance sr) * 0.998 else p + (p - sl) * 1.5)
        in Some (if tp \<le> p * 1.005 then p + (p - sl) * 1.5 else tp))"
  by (simp_all add: longSetup_def Let_def)

lemma finishSignal_fields:
  "action (finishSignal an p atr d) = d_action d"
  "entry (finishSignal an p atr d) = p"
  "stopLoss (finishSignal an p atr d)
     = (if truthy (d_stopLoss d) then Some (toFixed 2 (numOf (d_stopLoss d))) else None)"
  "takeProfit (finishSignal an p atr d)
     = (if truthy (d_takeProfit d) then Some (toFixed 2 (numOf (d_takeProfit d))) else None)"
  "leverage (finishSignal an p atr d)
     = (if d_action d \<noteq> WAIT \<and> truthy (d_stopLoss d) \<and>
           jstruthy (percentOf (p - numOf (d_stopLoss d)) p)
        then fst (sizePosition an (percentOf (p - numOf (d_stopLoss d)) p)) else 1)"
  by (simp_all add: finishSignal_def Let_def)

text \<open>
  C1, at a failing input. Fifty candles at the price 0.001 with a bullish analysis give
  \<open>LONG\<close>; the stop-loss 0.00096709 and the take-profit 0.00102794 are both emitted as
  \<open>0.00\<close>, so the emitted take-profit is below the entry.
\<close>

theorem penny_signal_take_profit_below_entry:
  "let s = generateSignal (SignalEngine noOptions) (bullishAnalysis 30 (1 / 1000)) (1 / 1000)
             (replicate 50 (priceCandle (1 / 1000) (1 / 1000)))
             (sampleIndicators (replicate 50 (priceCandle (1 / 1000) (1 / 1000))))
   in action s = LONG \<and> entry s = 1 / 1000 \<and> stopLoss s = Some 0 \<and> takeProfit s = Some 0"
proof -
  let ?p = "1 / 1000 :: real"
  let ?cs = "replicate 50 (priceCandle ?p ?p)"
  let ?sr = "findSupportResistance ?cs ?p"
  have sup: "nearestSupport ?sr = Some (97 / 100000)"
    and res: "nearestResistance ?sr = Some (103 / 100000)"
    by (simp_all add: uniform_levels priceCandle_fields)
  from sample_is_long [of ?p 30 ?cs "sampleIndicators ?cs"] obtain near where
    g: "generateSignal (SignalEngine noOptions) (bullishAnalysis 30 ?p) ?p ?cs (sampleIndicators ?cs)
        = finishSignal (bullishAnalysis 30 ?p) ?p (l_atr (getLatestIndicators (sampleIndicators ?cs)))
            (longSetup (bullishAnalysis 30 ?p) ?p ?sr near)"
    by (auto simp: sup truthy_def)
  have sl: "d_stopLoss (longSetup (bullishAnalysis 30 ?p) ?p ?sr near) = Some (96709 / 100000000)"
    by (simp add: longSetup_levels sup numOf_def)
  have tp: "d_takeProfit (longSetup (bullishAnalysis 30 ?p) ?p ?sr near) = Some (102794 / 100000000)"
    by (simp add: longSetup_levels sup res numOf_def truthy_def Let_def)
  show ?thesis
    unfolding Let_def g finishSignal_fields longSetup_levels(1) sl tp
    by (simp add: truthy_def numOf_def toFixed_def)
qed

text \<open>
  The same rounding at an ordinary price. At the entry 100.3 with a support at 100 the
  stop-loss is floored to \<open>100.3 - 1.5045 = 98.7955\<close> and emitted as \<open>98.80\<close>: the
  emitted distance 1.5 is below 1.5 percent of the entry.
\<close>

lemma rounded_stop_too_close:
  "let s = generateSignal (SignalEngine noOptions) (bullishAnalysis 30 (1003 / 10)) (1003 / 10)
             (replicate 50 (priceCandle 100 (1003 / 10)))
             (sampleIndicators (replicate 50 (priceCandle 100 (1003 / 10))))
   in action s = LONG \<and> entry s = 1003 / 10 \<and> stopLoss s = Some (988 / 10) \<and>
      entry s - 988 / 10 < 15 / 1000 * entry s \<and> leverage s = 12"
proof -
  let ?p = "1003 / 10 :: real"
  let ?cs = "replicate 50 (priceCandle 100 ?p)"
  let ?sr = "findSupportResistance ?cs ?p"
  let ?an = "bullishAnalysis 30 ?p"
  have sup: "nearestSupport ?sr = Some 100"
    by (simp add: uniform_levels priceCandle_fields)
  from sample_is_long [of ?p 30 ?cs "sampleIndicators ?cs"] obtain near where
    g: "generateSignal (SignalEngine noOptions) ?an ?p ?cs (sampleIndicators ?cs)
        = finishSignal ?an ?p (l_atr (getLatestIndicators (sampleIndicators ?cs)))
            (longSetup ?an ?p ?sr near)"
    by (auto simp: sup truthy_def)
  have sl: "d_stopLoss (longSetup ?an ?p ?sr near) = Some (987955 / 10000)"
    by (simp add: longSetup_levels sup numOf_def)
  have risk: "percentOf (3009 / 2000) ?p = Fin (3 / 2)"
    by (simp add: percentOf_def jsdiv_def)
  have lev: "fst (sizePosition ?an (Fin (3 / 2))) = 12"
    by (simp add: sizePosition_def Let_def bullishAnalysis_fields desiredLeverage_def
        calculatedLeverage_def jsdiv_def)
  show ?thesis
    unfolding Let_def g finishSignal_fields longSetup_levels(1) sl
    by (simp add: truthy_def numOf_def toFixed_def risk lev)
qed

text \<open>
  C2, as stated, fails for a negative price. With the entry - 997 and a support at
  - 1000 the stop-loss \<open>- 1000 * 0.997\<close> equals the entry, the risk percent is 0, the
  leverage block is skipped and the signal is \<open>LONG\<close> with the initial leverage 1.
\<close>

theorem leverage_negative_price:
  "action (generateSignal (SignalEngine noOptions) (bullishAnalysis 30 (- 997)) (- 997)
             (replicate 50 (priceCandle (- 1000) (- 997)))
             (sampleIndicators (replicate 50 (priceCandle (- 1000) (- 997))))) = LONG \<and>
   leverage (generateSignal (SignalEngine noOptions) (bullishAnalysis 30 (- 997)) (- 997)
             (replicate 50 (priceCandle (- 1000) (- 997)))
             (sampleIndicators (replicate 50 (priceCandle (- 1000) (- 997))))) = 1"
proof -
  let ?p = "- 997 :: real"
  let ?cs = "replicate 50 (priceCandle (- 1000) ?p)"
  let ?sr = "findSupportResistance ?cs ?p"
  let ?an = "bullishAnalysis 30 ?p"
  have sup: "nearestSupport ?sr = Some (- 1000)"
    by (simp add: uniform_levels priceCandle_fields)
  from sample_is_long [of ?p 30 ?cs "sampleIndicators ?cs"] obtain near where
    g: "generateSignal (SignalEngine noOptions) ?an ?p ?cs (sampleIndicators ?cs)
        = finishSignal ?an ?p (l_atr (getLatestIndicators (sampleIndicators ?cs)))
            (longSetup ?an ?p ?sr near)"
    by (auto simp: sup truthy_def)
  have sl: "d_stopLoss (longSetup ?an ?p ?sr near) = Some (- 997)"
    by (simp add: longSetup_levels sup numOf_def)
  have risk: "percentOf 0 ?p = Fin 0"
    by (simp add: percentOf_def jsdiv_def)
  show ?thesis
    unfolding g finishSignal_fields longSetup_levels(1) sl
    by (simp add: truthy_def numOf_def risk)
qed

theorem leverage_in_range_witness:
  "(0::real) \<le> 1003 / 10 \<and>
   action (generateSignal (SignalEngine noOptions) (bullishAnalysis 30 (1003 / 10)) (1003 / 10)
             (replicate 50 (priceCandle 100 (1003 / 10)))
             (sampleIndicators (replicate 50 (priceCandle 100 (1003 / 10))))) \<noteq> WAIT \<and>
   5 \<le> leverage (generateSignal (SignalEngine noOptions) (bullishAnalysis 30 (1003 / 10)) (1003 / 10)
             (replicate 50 (priceCandle 100 (1003 / 10)))
             (sampleIndicators (replicate 50 (priceCandle 100 (1003 / 10))))) \<and>
   leverage (generateSignal (SignalEngine noOptions) (bullishAnalysis 30 (1003 / 10)) (1003 / 10)
             (replicate 50 (priceCandle 100 (1003 / 10)))
             (sampleIndicators (replicate 50 (priceCandle 100 (1003 / 10))))) \<le> 15"
proof -
  have a: "action (generateSignal (SignalEngine noOptions) (bullishAnalysis 30 (1003 / 10)) (1003 / 10)
             (replicate 50 (priceCandle 100 (1003 / 10)))
             (sampleIndicators (replicate 50 (priceCandle 100 (1003 / 10))))) \<noteq> WAIT"
    using rounded_stop_too_close by (simp add: Let_def)
  have p: "(0::real) \<le> 1003 / 10" by simp
  from leverage_in_range [OF p a] a p show ?thesis by simp
qed

text \<open>
  C3. With fewer than 50 candles \<open>analyze\<close> returns the insufficiency error, which holds
  no signal.
\<close>

theorem analyze_insufficient_data:
  "length candles < 50 \<Longrightarrow> analyze libraryADX cfg now candles = Inl InsufficientData"
  by (simp add: analyze_def)

theorem analyze_insufficient_data_witness:
  "length (replicate 49 (priceCandle 1 1)) < 50 \<and>
   analyze None (SignalEngine noOptions) ''2024-01-01T00:00:00.000Z''
     (replicate 49 (priceCandle 1 1)) = Inl InsufficientData \<and>
   analyze (Some ADX) (SignalEngine noOptions) ''2024-01-01T00:00:00.000Z''
     (replicate 49 (priceCandle 1 1)) = Inl InsufficientData"
  using analyze_insufficient_data
    [where candles = "replicate 49 (priceCandle 1 1)" and cfg = "SignalEngine noOptions"
       and now = "''2024-01-01T00:00:00.000Z''" and libraryADX = None]
    analyze_insufficient_data
    [where candles = "replicate 49 (priceCandle 1 1)" and cfg = "SignalEngine noOptions"
       and now = "''2024-01-01T00:00:00.000Z''" and libraryADX = "Some ADX"]
  by simp

text \<open>
  In this model the clock is the parameter \<open>now\<close> of \<open>analyze\<close>: it is written to the
  field \<open>r_timestamp\<close> and read nowhere else, so the results for two clock readings
  differ in that field only. That the source reads no other clock, no random source and no
  state shared between calls is how the model was written down (its one \<open>new Date()\<close> is
  in the object \<open>analyze\<close> returns); the lemma states that reading and does not establish it.
\<close>

lemma analyze_clock_only_in_timestamp:
  "analyze libraryADX cfg t1 candles
   = map_sum id (\<lambda>r. r\<lparr>r_timestamp := t1\<rparr>) (analyze libraryADX cfg t2 candles)"
  by (simp add: analyze_def Let_def)

text \<open>
  C4. Whenever \<open>isSideway\<close> holds of the aggregate analysis, \<open>generateSignal\<close> answers
  \<open>WAIT\<close> with no stop-loss and no take-profit, and its reasons hold the sideways-market
  rejection.
\<close>

theorem sideways_market_waits:
  assumes "isSideway an"
  shows "action (generateSignal cfg an currentPrice candles ind) = WAIT \<and>
         stopLoss (generateSignal cfg an currentPrice candles ind) = None \<and>
         takeProfit (generateSignal cfg an currentPrice candles ind) = None \<and>
         Msg ''rejected: sideways market, ADX below threshold'' [ANum (sidewaysADXThreshold cfg)]
           \<in> set (reasons (generateSignal cfg an currentPrice candles ind))"
proof -
  from assms have rej: "filterRejections cfg an \<noteq> []"
    and mem: "Msg ''rejected: sideways market, ADX below threshold''
                [ANum (sidewaysADXThreshold cfg)] \<in> set (filterRejections cfg an)"
    by (simp_all add: filterRejections_def Let_def)
  from rej have g: "generateSignal cfg an currentPrice candles ind
      = finishSignal an currentPrice (l_atr (getLatestIndicators ind))
          (waitSetup an (filterRejections cfg an))"
    by (simp add: generateSignal_def Let_def)
  from rej mem show ?thesis
    unfolding g by (simp add: finishSignal_def Let_def waitSetup_def truthy_def)
qed

theorem sideways_market_waits_witness:
  "isSideway (bullishAnalysis 10 100) \<and>
   action (generateSignal (SignalEngine noOptions) (bullishAnalysis 10 100) 100
             (replicate 50 (priceCandle 100 100))
             (sampleIndicators (replicate 50 (priceCandle 100 100)))) = WAIT \<and>
   Msg ''rejected: sideways market, ADX below threshold'' [ANum 20]
     \<in> set (reasons (generateSignal (SignalEngine noOptions) (bullishAnalysis 10 100) 100
             (replicate 50 (priceCandle 100 100))
             (sampleIndicators (replicate 50 (priceCandle 100 100)))))"
proof -
  have s: "isSideway (bullishAnalysis 10 100)" by (simp add: bullishAnalysis_fields)
  from sideways_market_waits [OF s, of "SignalEngine noOptions" 100
      "replicate 50 (priceCandle 100 100)" "sampleIndicators (replicate 50 (priceCandle 100 100))"] s
  show ?thesis by (simp add: cfg0_fields)
qed

section \<open>Lengths of the indicator series\<close>

lemma SMA_None_iff:
  "i < length data \<Longrightarrow> (SMA data period ! i = None) = (i + 1 < period)"
  by (simp add: SMA_def)

lemma EMA_loop_None_iff:
  "j < length is \<Longrightarrow> (EMA_loop data period m e is ! j = None) = (is ! j + 1 < period)"
proof (induction "is" arbitrary: e j)
  case Nil
  then show ?case by simp
next
  case (Cons i "is")
  show ?case
  proof (cases j)
    case 0
    then show ?thesis by (simp add: Let_def)
  next
    case (Suc k)
    with Cons.prems have "k < length is" by simp
    from Cons.IH [OF this] Suc show ?thesis by (simp add: Let_def)
  qed
qed

lemma EMA_None_iff:
  "i < length data \<Longrightarrow> (EMA data period ! i = None) = (i + 1 < period)"
  by (simp add: EMA_def EMA_loop_None_iff)

text \<open>
  The series of \<open>EMA_double\<close> has the length of the input and the same absent entries as
  that of \<open>EMA\<close>.
\<close>

lemma EMA_loop_double_None_iff:
  "j < length is \<Longrightarrow>
   (EMA_loop_double data period m e is ! j = None) = (is ! j + 1 < period)"
proof (induction "is" arbitrary: e j)
  case Nil
  then show ?case by simp
next
  case (Cons i "is")
  show ?case
  proof (cases j)
    case 0
    then show ?thesis by (simp add: Let_def)
  next
    case (Suc k)
    with Cons.prems have "k < length is" by simp
    from Cons.IH [OF this] Suc show ?thesis by (simp add: Let_def)
  qed
qed

lemma EMA_double_shape:
  "length (EMA_double data period) = length data"
  "i < length data \<Longrightarrow> (EMA_double data period ! i = None) = (i + 1 < period)"
  "i < length data \<Longrightarrow> (EMA_double data period ! i = None) = (EMA data period ! i = None)"
proof -
  show "length (EMA_double data period) = length data"
    by (simp add: EMA_double_def length_EMA_loop_double)
  show d: "(EMA_double data period ! i = None) = (i + 1 < period)" if "i < length data"
    using that by (simp add: EMA_double_def EMA_loop_double_None_iff)
  have "(EMA data period ! i = None) = (i + 1 < period)" if "i < length data"
    using that by (rule EMA_None_iff)
  with d show "(EMA_double data period ! i = None) = (EMA data period ! i = None)"
    if "i < length data" using that by simp
qed

lemma length_BollingerBands:
  "length (bb_upper (BollingerBands closes period k)) = length closes"
  "length (bb_middle (BollingerBands closes period k)) = length closes"
  "length (bb_lower (BollingerBands closes period k)) = length closes"
  by (simp_all add: BollingerBands_def Let_def length_SMA)

lemma BollingerBands_None_iff:
  assumes "i < length closes"
  shows "(bb_upper (BollingerBands closes period k) ! i = None) = (i + 1 < period)"
    and "(bb_middle (BollingerBands closes period k) ! i = None) = (i + 1 < period)"
    and "(bb_lower (BollingerBands closes period k) ! i = None) = (i + 1 < period)"
  using assms by (simp_all add: BollingerBands_def Let_def SMA_None_iff)

lemma length_gainsOf: "length (gainsOf closes) = length closes - 1"
  by (simp add: gainsOf_def)

lemma length_RSI: "closes \<noteq> [] \<Longrightarrow> length (RSI closes period) = length closes"
proof -
  assume "closes \<noteq> []"
  then have "0 < length closes" by simp
  then show ?thesis by (simp add: RSI_def Let_def length_RSI_loop length_gainsOf)
qed

lemma length_minusSeries: "length (minusSeries a b) = length a"
  by (simp add: minusSeries_def)

lemma length_alignSignal: "length (alignSignal ms se k) = length ms"
  by (induction ms se k rule: alignSignal.induct) simp_all

lemma length_MACD:
  "length (macd_macd (MACD closes f s g)) = length closes"
  "length (macd_signal (MACD closes f s g)) = length closes"
  "length (macd_histogram (MACD closes f s g)) = length closes"
  by (simp_all add: MACD_def Let_def length_minusSeries length_alignSignal length_EMA)

lemma length_ATR: "length (ATR candles period) = length candles"
  by (simp add: ATR_def Let_def length_EMA)

lemma length_wilder_loop: "length (wilder_loop data period prior is) = length is"
  by (induction "is" arbitrary: prior) (simp_all add: Let_def)

lemma length_wilderSmooth: "length (wilderSmooth data period) = length data"
  by (simp add: wilderSmooth_def length_wilder_loop)

lemma length_ADX: "length (ADX candles period) = length candles"
  by (auto simp: ADX_def Let_def length_wilderSmooth)

lemma length_VolumeMA: "length (VolumeMA volumes period) = length volumes"
  by (simp add: VolumeMA_def length_SMA)

lemma length_RSI_loop_js: "length (RSI_loop_js gains losses period prev is) = length is"
  by (induction "is" arbitrary: prev) (simp_all add: Let_def)

lemma length_RSI_js: "closes \<noteq> [] \<Longrightarrow> length (RSI_js closes period) = length closes"
proof -
  assume "closes \<noteq> []"
  then have "0 < length closes" by simp
  then show ?thesis by (simp add: RSI_js_def Let_def length_RSI_loop_js length_gainsOf)
qed

lemma length_stoch_raw:
  "length (stoch_raw (StochRSI closes period stochPeriod kPeriod dPeriod))
   = length (RSI_js closes period)"
  by (simp add: StochRSI_def Let_def)

text \<open>
  C5, as amended. For every input and period, the series of \<open>SMA\<close>, \<open>EMA\<close>,
  \<open>BollingerBands\<close> (upper, middle, lower), \<open>MACD\<close> (macd, signal, histogram),
  \<open>ATR\<close>, \<open>ADX\<close> and \<open>VolumeMA\<close> have the length of the input, and so have
  \<open>RSI\<close> and the raw line of \<open>StochRSI\<close> when the input is not empty. In the series
  of \<open>SMA\<close>, \<open>EMA\<close> and \<open>BollingerBands\<close> the entries at the indices below
  \<open>period - 1\<close> are absent and every later entry is present, so the absent prefix has
  length \<open>period - 1\<close> when the input has that many entries. Nothing is said of the
  \<open>%K\<close> and \<open>%D\<close> lines of \<open>StochRSI\<close>.
\<close>

theorem indicator_series_lengths:
  "length (SMA data period) = length data \<and>
   length (EMA data period) = length data \<and>
   length (bb_upper (BollingerBands data period k)) = length data \<and>
   length (bb_middle (BollingerBands data period k)) = length data \<and>
   length (bb_lower (BollingerBands data period k)) = length data \<and>
   (\<forall>i < length data.
      (SMA data period ! i = None) = (i < period - 1) \<and>
      (EMA data period ! i = None) = (i < period - 1) \<and>
      (bb_upper (BollingerBands data period k) ! i = None) = (i < period - 1) \<and>
      (bb_middle (BollingerBands data period k) ! i = None) = (i < period - 1) \<and>
      (bb_lower (BollingerBands data period k) ! i = None) = (i < period - 1)) \<and>
   (data \<noteq> [] \<longrightarrow> length (RSI data period) = length data) \<and>
   (data \<noteq> [] \<longrightarrow>
      length (stoch_raw (StochRSI data period stochPeriod kPeriod dPeriod)) = length data) \<and>
   length (macd_macd (MACD data period slowPeriod signalPeriod)) = length data \<and>
   length (macd_signal (MACD data period slowPeriod signalPeriod)) = length data \<and>
   length (macd_histogram (MACD data period slowPeriod signalPeriod)) = length data \<and>
   length (ATR candles period) = length candles \<and>
   length (ADX candles period) = length candles \<and>
   length (VolumeMA data period) = length data"
proof -
  have prefix: "\<forall>i < length data.
      (SMA data period ! i = None) = (i < period - 1) \<and>
      (EMA data period ! i = None) = (i < period - 1) \<and>
      (bb_upper (BollingerBands data period k) ! i = None) = (i < period - 1) \<and>
      (bb_middle (BollingerBands data period k) ! i = None) = (i < period - 1) \<and>
      (bb_lower (BollingerBands data period k) ! i = None) = (i < period - 1)"
    by (auto simp: SMA_None_iff EMA_None_iff BollingerBands_None_iff)
  have rsi: "data \<noteq> [] \<longrightarrow> length (RSI data period) = length data"
    by (simp add: length_RSI)
  have raw: "data \<noteq> [] \<longrightarrow>
      length (stoch_raw (StochRSI data period stochPeriod kPeriod dPeriod)) = length data"
    by (simp add: length_stoch_raw length_RSI_js)
  from prefix rsi raw show ?thesis
    by (simp only: length_SMA length_EMA length_BollingerBands length_MACD length_ATR
        length_ADX length_VolumeMA simp_thms)
qed

lemma SMA_123: "SMA [1, 2, 3] 2 = [None, Some (3 / 2), Some (5 / 2)]"
  by code_simp

theorem indicator_series_lengths_witness:
  "(0::nat) < length [1, 2, 3 :: real] \<and> (1::nat) < length [1, 2, 3 :: real] \<and>
   [1, 2, 3 :: real] \<noteq> [] \<and>
   SMA [1, 2, 3] 2 ! 0 = None \<and> SMA [1, 2, 3] 2 ! 1 = Some (3 / 2) \<and>
   ((EMA [1, 2, 3] 2 ! 0 = None) = ((0::nat) < 2 - 1)) \<and>
   ((EMA [1, 2, 3] 2 ! 1 = None) = ((1::nat) < 2 - 1)) \<and>
   length (RSI [1, 2, 3] 2) = 3"
proof -
  note t = indicator_series_lengths [of "[1, 2, 3]" 2]
  from t have a: "\<forall>i < length [1, 2, 3 :: real].
      (EMA [1, 2, 3] 2 ! i = None) = (i < 2 - 1)" by blast
  from t have b: "[1, 2, 3 :: real] \<noteq> [] \<longrightarrow> length (RSI [1, 2, 3] 2) = length [1, 2, 3 :: real]"
    by blast
  from a have "(EMA [1, 2, 3] 2 ! 0 = None) = ((0::nat) < 2 - 1)"
    and "(EMA [1, 2, 3] 2 ! 1 = None) = ((1::nat) < 2 - 1)" by simp_all
  with b show ?thesis by (simp add: SMA_123)
qed

lemma RSI_js_123456:
  "RSI_js [1, 2, 3, 4, 5, 6] 2
   = [None, None, Some (Fin 100), Some (Fin 100), Some (Fin 100), Some (Fin 100)]"
  by (simp add: RSI_js_def gainsOf_def lossesOf_def Let_def upt_conv_Cons RSI_averages_js_def
      RSI_value_js_def slice_def windowAvg_js_def jsdiv_def)

lemma stochAt_vals:
  "map (stochAt [None, None, Some (Fin 100), Some (Fin 100), Some (Fin 100), Some (Fin 100)] 2)
     [0..<length [None, None, Some (Fin 100), Some (Fin 100), Some (Fin 100), Some (Fin 100)]]
   = [None, None, None, Some (Fin 50), Some (Fin 50), Some (Fin 50)]"
  by (simp add: stochAt_def upt_conv_Cons slice_def Let_def mathMin_def mathMax_def strictEq_def)

lemma SMA_js_50s:
  "SMA_js [Fin 50, Fin 50, Fin 50] 2 = [None, Some (Fin 50), Some (Fin 50)]"
  "SMA_js [Fin 50, Fin 50] 2 = [None, Some (Fin 50)]"
  by (simp_all add: SMA_js_def upt_conv_Cons slice_def jsdiv_def)

text \<open>
  With a \<open>stochPeriod\<close> of 0 every window is empty, \<open>Math.min()\<close> is \<open>Infinity\<close> and
  \<open>Math.max()\<close> is \<open>-Infinity\<close>, and each raw value is \<open>-Infinity / -Infinity\<close>.
\<close>

lemma StochRSI_period_zero:
  "stoch_raw (StochRSI [1, 2, 3] 2 0 1 1) = [None, None, Some NaN]"
  by (simp add: StochRSI_def RSI_js_123 Let_def stochAt_def upt_conv_Cons slice_def mathMin_def
      mathMax_def strictEq_def jsminus_def)

text \<open>
  An input shorter than \<open>period - 1\<close> is absent throughout, and \<open>RSI\<close> of no closes
  is the single entry \<open>null\<close> that the function pushes before its loop.
\<close>

lemma SMA_short_input: "SMA [1] 5 = [None]"
  by code_simp

lemma RSI_no_closes: "RSI [] period = [None]"
  by (simp add: RSI_def gainsOf_def)

text \<open>
  C5, as stated, fails for the \<open>%K\<close> and \<open>%D\<close> lines of \<open>StochRSI\<close>: they are
  \<open>SMA\<close> series of the present raw values only and are not mapped back to the input
  indices. Six closes give a \<open>%K\<close> line of 3 entries and a \<open>%D\<close> line of 2.
\<close>

theorem StochRSI_lines_shorter:
  "stoch_k (StochRSI [1, 2, 3, 4, 5, 6] 2 2 2 2) = [None, Some (Fin 50), Some (Fin 50)] \<and>
   stoch_d (StochRSI [1, 2, 3, 4, 5, 6] 2 2 2 2) = [None, Some (Fin 50)] \<and>
   length (stoch_k (StochRSI [1, 2, 3, 4, 5, 6] 2 2 2 2)) \<noteq> length [1, 2, 3, 4, 5, 6 :: real]"
  unfolding StochRSI_def RSI_js_123456 Let_def stochAt_vals
  by (simp add: SMA_js_50s)

section \<open>The MACD snapshot\<close>

lemma firstPresent_None_iff: "(firstPresent xs = None) = (\<forall>x \<in> set xs. x = None)"
  by (induction xs rule: firstPresent.induct) simp_all

lemma getLatest_None_iff: "(getLatest xs = None) = (\<forall>x \<in> set xs. x = None)"
  by (simp add: getLatest_def firstPresent_None_iff)

lemma firstPresent_in_set: "firstPresent xs = Some v \<Longrightarrow> Some v \<in> set xs"
  by (induction xs rule: firstPresent.induct) simp_all

lemma getLatest_in_set: "getLatest xs = Some v \<Longrightarrow> Some v \<in> set xs"
  using firstPresent_in_set [of "rev xs" v] by (simp add: getLatest_def)

lemma minusSeries_present:
  assumes "Some v \<in> set (minusSeries a b)"
  shows "(\<exists>x. Some x \<in> set a) \<and> (\<exists>y. Some y \<in> set b)"
proof -
  from assms obtain i where i: "i < length a"
    and v: "(case (a ! i, elemAt b i) of (Some x, Some y) \<Rightarrow> Some (x - y) | _ \<Rightarrow> None) = Some v"
    by (auto simp: minusSeries_def)
  from v obtain x y where x: "a ! i = Some x" and y: "elemAt b i = Some y"
    by (auto split: option.splits)
  from y have "i < length b" and "b ! i = Some y"
    by (auto simp: elemAt_def split: if_splits)
  with x i show ?thesis by (metis nth_mem)
qed

lemma histogram_needs_lines:
  assumes "getLatest (macd_histogram (MACD closes f s g)) = Some h"
  shows "getLatest (macd_macd (MACD closes f s g)) \<noteq> None \<and>
         getLatest (macd_signal (MACD closes f s g)) \<noteq> None"
proof -
  let ?macdLine = "minusSeries (EMA closes f) (EMA closes s)"
  let ?signal = "alignSignal ?macdLine (EMA (present ?macdLine) g) 0"
  have m: "macd_macd (MACD closes f s g) = ?macdLine"
    and sg: "macd_signal (MACD closes f s g) = ?signal"
    and hs: "macd_histogram (MACD closes f s g) = minusSeries ?macdLine ?signal"
    by (simp_all add: MACD_def Let_def)
  from assms have "Some h \<in> set (minusSeries ?macdLine ?signal)"
    unfolding hs by (rule getLatest_in_set)
  from minusSeries_present [OF this] show ?thesis
    unfolding m sg getLatest_None_iff by auto
qed

text \<open>
  C8. For the MACD snapshot that \<open>getLatestIndicators\<close> extracts from the series of
  \<open>MACD\<close>: when the current histogram \<open>h\<close> and the previous one \<open>prev\<close> are both
  present, a flip from \<open>prev \<le> 0\<close> to \<open>h > 0\<close> scores 3 and a flip from \<open>prev \<ge> 0\<close> to
  \<open>h < 0\<close> scores - 3.
\<close>

theorem MACD_cross_scores:
  assumes "snap = l_macd (getLatestIndicators ind)"
    and "i_macd ind = MACD closes fastPeriod slowPeriod signalPeriod"
    and "m_histogram snap = Some h" and "m_prevHistogram snap = Some prev"
  shows "(0 < h \<and> prev \<le> 0 \<longrightarrow> a_score (analyzeMACD snap) = 3) \<and>
         (h < 0 \<and> 0 \<le> prev \<longrightarrow> a_score (analyzeMACD snap) = - 3)"
proof -
  from assms(1,2,3) have "getLatest (macd_histogram (MACD closes fastPeriod slowPeriod signalPeriod)) = Some h"
    by (simp add: getLatestIndicators_def)
  from histogram_needs_lines [OF this] assms(1,2)
  have lines: "m_macd snap \<noteq> None" "m_signal snap \<noteq> None"
    by (simp_all add: getLatestIndicators_def)
  with assms(3,4) show ?thesis
    by (auto simp: analyzeMACD_def Let_def numOf_def)
qed

lemma MACD_golden_sample:
  "l_macd (getLatestIndicators (macdOnly (MACD [1, 2, 4, 3, 5] 1 2 2)))
   = \<lparr>m_macd = Some (35 / 54), m_signal = Some (40 / 81), m_histogram = Some (25 / 162),
      m_prevHistogram = Some (- (13 / 54))\<rparr>"
  by code_simp

lemma MACD_death_sample:
  "l_macd (getLatestIndicators (macdOnly (MACD [1, 2, 4, 3, 5, 2] 1 2 2)))
   = \<lparr>m_macd = Some (- (127 / 162)), m_signal = Some (- (29 / 81)),
      m_histogram = Some (- (23 / 54)), m_prevHistogram = Some (25 / 162)\<rparr>"
  by code_simp

theorem MACD_cross_scores_witness:
  "m_histogram (l_macd (getLatestIndicators (macdOnly (MACD [1, 2, 4, 3, 5] 1 2 2))))
     = Some (25 / 162) \<and>
   m_prevHistogram (l_macd (getLatestIndicators (macdOnly (MACD [1, 2, 4, 3, 5] 1 2 2))))
     = Some (- (13 / 54)) \<and>
   a_score (analyzeMACD (l_macd (getLatestIndicators (macdOnly (MACD [1, 2, 4, 3, 5] 1 2 2))))) = 3 \<and>
   m_histogram (l_macd (getLatestIndicators (macdOnly (MACD [1, 2, 4, 3, 5, 2] 1 2 2))))
     = Some (- (23 / 54)) \<and>
   m_prevHistogram (l_macd (getLatestIndicators (macdOnly (MACD [1, 2, 4, 3, 5, 2] 1 2 2))))
     = Some (25 / 162) \<and>
   a_score (analyzeMACD (l_macd (getLatestIndicators (macdOnly (MACD [1, 2, 4, 3, 5, 2] 1 2 2))))) = - 3"
proof -
  have i: "\<And>m. i_macd (macdOnly m) = m" by (simp add: macdOnly_def)
  have g: "m_histogram (l_macd (getLatestIndicators (macdOnly (MACD [1, 2, 4, 3, 5] 1 2 2))))
             = Some (25 / 162)"
    "m_prevHistogram (l_macd (getLatestIndicators (macdOnly (MACD [1, 2, 4, 3, 5] 1 2 2))))
             = Some (- (13 / 54))"
    unfolding MACD_golden_sample by simp_all
  have d: "m_histogram (l_macd (getLatestIndicators (macdOnly (MACD [1, 2, 4, 3, 5, 2] 1 2 2))))
             = Some (- (23 / 54))"
    "m_prevHistogram (l_macd (getLatestIndicators (macdOnly (MACD [1, 2, 4, 3, 5, 2] 1 2 2))))
             = Some (25 / 162)"
    unfolding MACD_death_sample by simp_all
  from MACD_cross_scores [OF refl i g] MACD_cross_scores [OF refl i d] g d
  show ?thesis by (simp del: One_nat_def)
qed

section \<open>Availability of support and resistance\<close>

lemma levels_shape:
  assumes "50 \<le> length candles"
  shows "\<exists>supports resistances.
           nearestSupport (findSupportResistance candles p) =
             Some (if \<not> truthy (fst (fold (supportStep p) supports (None, None))) then p * 0.97
                   else numOf (fst (fold (supportStep p) supports (None, None)))) \<and>
           sr_supports (findSupportResistance candles p) = rev (sort supports) \<and>
           nearestResistance (findSupportResistance candles p) =
             Some (if \<not> truthy (fst (fold (resistanceStep p) resistances (None, None)))
                   then p * 1.03
                   else numOf (fst (fold (resistanceStep p) resistances (None, None)))) \<and>
           sr_resistances (findSupportResistance candles p) = sort resistances"
proof -
  from assms have "\<not> length candles < 50" by simp
  then show ?thesis
    unfolding findSupportResistance_def Let_def
    by (simp only: if_False sr_levels.simps) (intro exI conjI; rule refl)
qed

lemma fallback_levels:
  assumes "50 \<le> length candles"
  shows "(\<forall>x \<in> set (sr_supports (findSupportResistance candles p)). \<not> x < p)
           \<longrightarrow> nearestSupport (findSupportResistance candles p) = Some (p * 0.97)"
    and "(\<forall>x \<in> set (sr_resistances (findSupportResistance candles p)). \<not> p < x)
           \<longrightarrow> nearestResistance (findSupportResistance candles p) = Some (p * 1.03)"
proof -
  from levels_shape [OF assms, of p] obtain supports resistances where
    s: "nearestSupport (findSupportResistance candles p) =
          Some (if \<not> truthy (fst (fold (supportStep p) supports (None, None))) then p * 0.97
                else numOf (fst (fold (supportStep p) supports (None, None))))"
    and ss: "sr_supports (findSupportResistance candles p) = rev (sort supports)"
    and r: "nearestResistance (findSupportResistance candles p) =
          Some (if \<not> truthy (fst (fold (resistanceStep p) resistances (None, None)))
                then p * 1.03
                else numOf (fst (fold (resistanceStep p) resistances (None, None))))"
    and rs: "sr_resistances (findSupportResistance candles p) = sort resistances"
    by blast
  show "(\<forall>x \<in> set (sr_supports (findSupportResistance candles p)). \<not> x < p)
           \<longrightarrow> nearestSupport (findSupportResistance candles p) = Some (p * 0.97)"
  proof
    assume "\<forall>x \<in> set (sr_supports (findSupportResistance candles p)). \<not> x < p"
    then have "\<forall>x \<in> set supports. \<not> x < p" by (simp add: ss)
    then have "fold (supportStep p) supports (None, None) = (None, None)"
      by (rule fold_supportStep_keep)
    then show "nearestSupport (findSupportResistance candles p) = Some (p * 0.97)"
      by (simp add: s truthy_def)
  qed
  show "(\<forall>x \<in> set (sr_resistances (findSupportResistance candles p)). \<not> p < x)
           \<longrightarrow> nearestResistance (findSupportResistance candles p) = Some (p * 1.03)"
  proof
    assume "\<forall>x \<in> set (sr_resistances (findSupportResistance candles p)). \<not> p < x"
    then have "\<forall>x \<in> set resistances. \<not> x > p" by (simp add: rs)
    then have "fold (resistanceStep p) resistances (None, None) = (None, None)"
      by (rule fold_resistanceStep_keep)
    then show "nearestResistance (findSupportResistance candles p) = Some (p * 1.03)"
      by (simp add: r truthy_def)
  qed
qed

lemma candidate_actions:
  assumes "truthy (nearestSupport (findSupportResistance candles p))"
    and "truthy (nearestResistance (findSupportResistance candles p))"
  shows "real_of_int (totalScore an) \<ge> minScoreForSignal cfg \<and> filterRejections cfg an = [] \<and>
         real_of_int (bullishConfluence an) \<ge> minConfluence cfg
         \<longrightarrow> action (generateSignal cfg an p candles ind) = LONG"
    and "\<not> (real_of_int (totalScore an) \<ge> minScoreForSignal cfg \<and>
            real_of_int (bullishConfluence an) \<ge> minConfluence cfg) \<and>
         real_of_int (totalScore an) \<le> - minScoreForSignal cfg \<and> filterRejections cfg an = [] \<and>
         real_of_int (bearishConfluence an) \<ge> minConfluence cfg
         \<longrightarrow> action (generateSignal cfg an p candles ind) = SHORT"
  using assms
  by (auto simp: generateSignal_def Let_def finishSignal_action longSetup_fields shortSetup_fields)

text \<open>
  C10. For at least 50 candles and a positive current price, \<open>findSupportResistance\<close>
  returns a nearest support that is present, not zero and strictly below the price, and a
  nearest resistance that is present and strictly above it; when no level of the list
  qualifies they are the price times 0.97 and times 1.03. So the availability check of
  \<open>generateSignal\<close> never rejects: a LONG candidate (score and confluence reached, no
  filter rejection) becomes \<open>LONG\<close>, and a SHORT candidate becomes \<open>SHORT\<close>.
\<close>

theorem support_resistance_always_available:
  assumes "50 \<le> length candles" and "0 < currentPrice"
  shows "(\<exists>s. nearestSupport (findSupportResistance candles currentPrice) = Some s \<and>
              s \<noteq> 0 \<and> s < currentPrice) \<and>
         (\<exists>r. nearestResistance (findSupportResistance candles currentPrice) = Some r \<and>
              r \<noteq> 0 \<and> currentPrice < r) \<and>
         ((\<forall>x \<in> set (sr_supports (findSupportResistance candles currentPrice)).
              \<not> x < currentPrice)
            \<longrightarrow> nearestSupport (findSupportResistance candles currentPrice)
                = Some (currentPrice * 0.97)) \<and>
         ((\<forall>x \<in> set (sr_resistances (findSupportResistance candles currentPrice)).
              \<not> currentPrice < x)
            \<longrightarrow> nearestResistance (findSupportResistance candles currentPrice)
                = Some (currentPrice * 1.03)) \<and>
         (real_of_int (totalScore an) \<ge> minScoreForSignal cfg \<and> filterRejections cfg an = [] \<and>
          real_of_int (bullishConfluence an) \<ge> minConfluence cfg
            \<longrightarrow> action (generateSignal cfg an currentPrice candles ind) = LONG) \<and>
         (\<not> (real_of_int (totalScore an) \<ge> minScoreForSignal cfg \<and>
             real_of_int (bullishConfluence an) \<ge> minConfluence cfg) \<and>
          real_of_int (totalScore an) \<le> - minScoreForSignal cfg \<and> filterRejections cfg an = [] \<and>
          real_of_int (bearishConfluence an) \<ge> minConfluence cfg
            \<longrightarrow> action (generateSignal cfg an currentPrice candles ind) = SHORT)"
proof -
  let ?sr = "findSupportResistance candles currentPrice"
  from nearestSupport_cases [OF assms(1), of currentPrice] obtain s where
    s: "nearestSupport ?sr = Some s" and sc: "(s < currentPrice \<and> s \<noteq> 0) \<or> s = currentPrice * 0.97"
    by blast
  from sc assms(2) have s': "s \<noteq> 0 \<and> s < currentPrice" by auto
  from nearestResistance_cases [OF assms(1), of currentPrice] obtain r where
    r: "nearestResistance ?sr = Some r" and rc: "(currentPrice < r \<and> r \<noteq> 0) \<or> r = currentPrice * 1.03"
    by blast
  from rc assms(2) have r': "r \<noteq> 0 \<and> currentPrice < r" by auto
  from s s' have ts: "truthy (nearestSupport ?sr)" by (simp add: truthy_def)
  from r r' have tr: "truthy (nearestResistance ?sr)" by (simp add: truthy_def)
  from s s' have A: "\<exists>s. nearestSupport ?sr = Some s \<and> s \<noteq> 0 \<and> s < currentPrice" by blast
  from r r' have B: "\<exists>r. nearestResistance ?sr = Some r \<and> r \<noteq> 0 \<and> currentPrice < r" by blast
  note C = fallback_levels [OF assms(1), of currentPrice]
  note D = candidate_actions [OF ts tr, where an = an and cfg = cfg and ind = ind]
  from A B C D show ?thesis by (intro conjI)
qed

theorem support_resistance_always_available_witness:
  "50 \<le> length (replicate 50 (priceCandle 100 (1003 / 10))) \<and> (0::real) < 1003 / 10 \<and>
   nearestSupport (findSupportResistance (replicate 50 (priceCandle 100 (1003 / 10))) (1003 / 10))
     = Some 100 \<and>
   nearestResistance (findSupportResistance (replicate 50 (priceCandle 100 (1003 / 10))) (1003 / 10))
     = Some (1003 / 10 * 1.03) \<and>
   action (generateSignal (SignalEngine noOptions) (bullishAnalysis 30 (1003 / 10)) (1003 / 10)
             (replicate 50 (priceCandle 100 (1003 / 10)))
             (sampleIndicators (replicate 50 (priceCandle 100 (1003 / 10))))) = LONG"
proof -
  have l: "50 \<le> length (replicate 50 (priceCandle 100 (1003 / 10)))" by simp
  have p: "(0::real) < 1003 / 10" by simp
  have f: "filterRejections (SignalEngine noOptions) (bullishAnalysis 30 (1003 / 10)) = []"
    by (simp add: bullish_passes_filters)
  from support_resistance_always_available [OF l p, where an = "bullishAnalysis 30 (1003 / 10)"
      and cfg = "SignalEngine noOptions"
      and ind = "sampleIndicators (replicate 50 (priceCandle 100 (1003 / 10)))"] f
  show ?thesis
    by (simp add: uniform_levels priceCandle_fields bullishAnalysis_fields cfg0_fields)
qed

text \<open>
  Before the rounding of the return statement the levels are ordered and the stop-loss
  keeps its distance, for every positive price; \<open>toFixed(2)\<close> then moves each level by
  at most half a cent.
\<close>

lemma shortSetup_levels:
  "d_takeProfit (shortSetup an p sr near)
     = (let sl = (if numOf (nearestResistance sr) * 1.003 - p < p * 0.015 then p + p * 0.015
                  else numOf (nearestResistance sr) * 1.003);
            tp = (if truthy (nearestSupport sr) \<and> numOf (nearestSupport sr) < p * 0.995
                  then numOf (nearestSupport sr) * 1.002 else p - (sl - p) * 1.5)
        in Some (if tp \<ge> p * 0.995 then p - (sl - p) * 1.5 else tp))"
  by (simp add: shortSetup_def Let_def)

lemma long_levels_before_rounding:
  assumes "0 < p"
  shows "\<exists>sl tp. d_stopLoss (longSetup an p sr near) = Some sl \<and>
                 d_takeProfit (longSetup an p sr near) = Some tp \<and>
                 sl < p \<and> p < tp \<and> 0.015 * p \<le> p - sl"
  using assms by (auto simp: longSetup_levels Let_def)

lemma short_levels_before_rounding:
  assumes "0 < p"
  shows "\<exists>sl tp. d_stopLoss (shortSetup an p sr near) = Some sl \<and>
                 d_takeProfit (shortSetup an p sr near) = Some tp \<and>
                 tp < p \<and> p < sl \<and> 0.015 * p \<le> sl - p"
  using assms by (auto simp: shortSetup_fields shortSetup_levels Let_def)

lemma toFixed_2_error: "\<bar>toFixed 2 x - x\<bar> \<le> 1 / 200"
proof -
  have r: "\<bar>real_of_int \<lfloor>y + 1 / 2\<rfloor> / 100 - y / 100\<bar> \<le> 1 / 200" for y :: real
  proof -
    have "real_of_int \<lfloor>y + 1 / 2\<rfloor> \<le> y + 1 / 2" and "y + 1 / 2 < real_of_int \<lfloor>y + 1 / 2\<rfloor> + 1"
      by linarith+
    then have "\<bar>real_of_int \<lfloor>y + 1 / 2\<rfloor> - y\<bar> \<le> 1 / 2" by linarith
    then show ?thesis by (simp add: diff_divide_distrib [symmetric] abs_divide)
  qed
  show ?thesis
  proof (cases "x < 0")
    case True
    have "\<bar>- (real_of_int \<lfloor>- x * 100 + 1 / 2\<rfloor> / 100) - x\<bar>
          = \<bar>real_of_int \<lfloor>- x * 100 + 1 / 2\<rfloor> / 100 - (- x * 100) / 100\<bar>"
      by (simp add: abs_minus_commute [of "- (real_of_int \<lfloor>1 / 2 - x * 100\<rfloor> / 100)" x])
    with r [of "- x * 100"] True show ?thesis by (simp add: toFixed_def)
  next
    case False
    from r [of "x * 100"] False show ?thesis by (simp add: toFixed_def)
  qed
qed

end
